theory Spec2Isabelle
  imports Complex_Main
begin

section \<open>Python exceptions as values\<close>

text \<open>
  Every \<^verbatim>\<open>assert\<close>, \<^verbatim>\<open>raise\<close> and every exception of a library call is a value
  \<open>Inl e\<close> of the result type \<open>error + 'a\<close>; \<open>bindE\<close> is the sequencing of two statements,
  stopping at the first exception.
\<close>

datatype error =
  AssertionError | TypeError | RuntimeError | IndexError | ValueError | ZeroDivisionError

definition bindE :: "error + 'a \<Rightarrow> ('a \<Rightarrow> error + 'b) \<Rightarrow> error + 'b" where
  "bindE r f = (case r of Inl e \<Rightarrow> Inl e | Inr a \<Rightarrow> f a)"

section \<open>Tensors and the library operations the backbone calls\<close>

text \<open>
  A tensor is its size (\<^verbatim>\<open>x.size()\<close>) and its elements, read by a multi-index.
  Elements are real numbers: rounding of the floating point arithmetic is not modelled.
  The operations below are those of the tensor library (\<^verbatim>\<open>torch\<close>), which is not part
  of the repository: their size rules and the exceptions they raise are written out,
  and what a parametrised layer computes from its weights is a parameter of the layer
  (\<open>conv_fn\<close>, \<open>lin_fn\<close>, \<open>bn_fn\<close>, \<open>drop_fn\<close>).

  Every operation builds its result with \<open>mk_tensor\<close>, which reads 0 outside the index
  range of the size, so that two results are equal when they have the same size and
  the same elements.
\<close>

record tensor =
  shape :: "nat list"
  elem :: "nat list \<Rightarrow> real"

definition valid_index :: "nat list \<Rightarrow> nat list \<Rightarrow> bool" where
  "valid_index s i = list_all2 (<) i s"

definition mk_tensor :: "nat list \<Rightarrow> (nat list \<Rightarrow> real) \<Rightarrow> tensor" where
  "mk_tensor s f = \<lparr>shape = s, elem = (\<lambda>i. if valid_index s i then f i else 0)\<rparr>"

text \<open>The values of the interpreter that reach an operator or a type test.\<close>

datatype pyval = PyNone | PyInt int | PyStr string | PyTensor tensor

text \<open>Row-major offset of a multi-index, and back: \<^verbatim>\<open>view\<close> keeps the offset of every element.\<close>

fun flat_index :: "nat list \<Rightarrow> nat list \<Rightarrow> nat" where
  "flat_index (d # ds) (i # is) = i * prod_list ds + flat_index ds is"
| "flat_index _ _ = 0"

fun unflat_index :: "nat list \<Rightarrow> nat \<Rightarrow> nat list" where
  "unflat_index [] n = []"
| "unflat_index (d # ds) n = (n div prod_list ds) # unflat_index ds (n mod prod_list ds)"

text \<open>\<^verbatim>\<open>x.view(*s)\<close>: the number of elements must not change.\<close>

definition view :: "nat list \<Rightarrow> tensor \<Rightarrow> error + tensor" where
  "view s x =
     (if prod_list s = prod_list (shape x)
      then Inr (mk_tensor s (\<lambda>i. elem x (unflat_index (shape x) (flat_index s i))))
      else Inl RuntimeError)"

text \<open>\<^verbatim>\<open>x.contiguous()\<close> and \<^verbatim>\<open>x.float()\<close> change the memory layout and the element type only.\<close>

definition contiguous :: "tensor \<Rightarrow> tensor" where
  "contiguous x = x"

definition float :: "tensor \<Rightarrow> tensor" where
  "float x = x"

text \<open>\<^verbatim>\<open>x.permute(*p)\<close>: \<open>p\<close> must name every dimension once; dimension \<open>k\<close> of the result
  is dimension \<open>p ! k\<close> of \<open>x\<close>.\<close>

fun index_of :: "nat list \<Rightarrow> nat \<Rightarrow> nat" where
  "index_of [] d = 0"
| "index_of (p # ps) d = (if p = d then 0 else Suc (index_of ps d))"

definition permute :: "nat list \<Rightarrow> tensor \<Rightarrow> error + tensor" where
  "permute p x =
     (if length p = length (shape x) \<and> distinct p \<and> list_all (\<lambda>d. d < length p) p
      then Inr (mk_tensor (map (\<lambda>d. shape x ! d) p)
                  (\<lambda>i. elem x (map (\<lambda>d. i ! index_of p d) [0..<length p])))
      else Inl RuntimeError)"

text \<open>
  The slice \<^verbatim>\<open>x[..., start:stop, ...]\<close> along dimension \<open>k\<close>, with the interpreter's
  rule for bounds: a negative bound counts from the end, and both are clipped to the
  length. \<open>stop = None\<close> is the omitted bound.
\<close>

definition slice_bound :: "nat \<Rightarrow> int \<Rightarrow> nat" where
  "slice_bound d j = (if j < 0 then nat (max 0 (int d + j)) else min (nat j) d)"

definition slice_dim :: "nat \<Rightarrow> int \<Rightarrow> int option \<Rightarrow> tensor \<Rightarrow> error + tensor" where
  "slice_dim k start stop x =
     (if length (shape x) \<le> k then Inl IndexError
      else
        let d = shape x ! k;
            a = slice_bound d start;
            b = (case stop of None \<Rightarrow> d | Some j \<Rightarrow> slice_bound d j)
        in Inr (mk_tensor ((shape x)[k := b - a]) (\<lambda>i. elem x (i[k := i ! k + a]))))"

text \<open>The integer index \<^verbatim>\<open>x[..., j, ...]\<close> along dimension \<open>k\<close> removes the dimension;
  \<^verbatim>\<open>x.unsqueeze(k)\<close> inserts a dimension of length 1.\<close>

definition select :: "nat \<Rightarrow> int \<Rightarrow> tensor \<Rightarrow> error + tensor" where
  "select k j x =
     (if length (shape x) \<le> k then Inl IndexError
      else
        let d = shape x ! k; j' = (if j < 0 then j + int d else j)
        in if j' < 0 \<or> int d \<le> j' then Inl IndexError
           else Inr (mk_tensor (take k (shape x) @ drop (Suc k) (shape x))
                       (\<lambda>i. elem x (take k i @ [nat j'] @ drop k i))))"

definition unsqueeze :: "nat \<Rightarrow> tensor \<Rightarrow> error + tensor" where
  "unsqueeze k x =
     (if length (shape x) < k then Inl IndexError
      else Inr (mk_tensor (take k (shape x) @ [1] @ drop k (shape x))
                  (\<lambda>i. elem x (take k i @ drop (Suc k) i))))"

text \<open>
  \<^verbatim>\<open>torch.mean(x, dim=k, keepdim=True)\<close> and \<^verbatim>\<open>torch.amax(x, dim=k, keepdim=True)\<close>.
  The maximum over an empty dimension is refused; the mean over an empty dimension is
  not a number in the library and 0 here.
\<close>

definition mean_dim :: "nat \<Rightarrow> tensor \<Rightarrow> error + tensor" where
  "mean_dim k x =
     (if length (shape x) \<le> k then Inl IndexError
      else
        let d = shape x ! k
        in Inr (mk_tensor ((shape x)[k := 1])
                  (\<lambda>i. (\<Sum>j\<leftarrow>[0..<d]. elem x (i[k := j])) / real d)))"

definition amax_dim :: "nat \<Rightarrow> tensor \<Rightarrow> error + tensor" where
  "amax_dim k x =
     (if length (shape x) \<le> k then Inl IndexError
      else
        let d = shape x ! k
        in if d = 0 then Inl IndexError
           else Inr (mk_tensor ((shape x)[k := 1])
                       (\<lambda>i. foldl max (elem x (i[k := 0])) (map (\<lambda>j. elem x (i[k := j])) [1..<d]))))"

text \<open>\<^verbatim>\<open>torch.cat((x, y), dim=k)\<close>: the sizes agree in every other dimension.\<close>

definition cat :: "nat \<Rightarrow> tensor \<Rightarrow> tensor \<Rightarrow> error + tensor" where
  "cat k x y =
     (if length (shape x) \<le> k then Inl IndexError
      else if (shape x)[k := 0] \<noteq> (shape y)[k := 0] then Inl RuntimeError
      else Inr (mk_tensor ((shape x)[k := shape x ! k + shape y ! k])
                  (\<lambda>i. if i ! k < shape x ! k then elem x i
                        else elem y (i[k := i ! k - shape x ! k]))))"

text \<open>
  Two sizes under one subscript of \<^verbatim>\<open>einsum\<close>, or at one position of an elementwise
  operation, must be equal or one of them 1; the operand of size 1 is read at index 0.
  The sizes of an elementwise operation are aligned at their last dimension.
\<close>

definition bdim :: "nat \<Rightarrow> nat \<Rightarrow> nat option" where
  "bdim a b = (if a = b then Some a else if a = 1 then Some b else if b = 1 then Some a else None)"

definition bidx :: "nat \<Rightarrow> nat \<Rightarrow> nat" where
  "bidx d i = (if d = 1 then 0 else i)"

fun broadcast_rev :: "nat list \<Rightarrow> nat list \<Rightarrow> nat list option" where
  "broadcast_rev [] ys = Some ys"
| "broadcast_rev xs [] = Some xs"
| "broadcast_rev (x # xs) (y # ys) =
     (case bdim x y of None \<Rightarrow> None
      | Some d \<Rightarrow> (case broadcast_rev xs ys of None \<Rightarrow> None | Some ds \<Rightarrow> Some (d # ds)))"

definition broadcast :: "nat list \<Rightarrow> nat list \<Rightarrow> nat list option" where
  "broadcast s1 s2 = map_option rev (broadcast_rev (rev s1) (rev s2))"

definition bindex :: "nat list \<Rightarrow> nat list \<Rightarrow> nat list" where
  "bindex s i = map (\<lambda>(d, j). bidx d j) (zip s (drop (length i - length s) i))"

definition elementwise :: "(real \<Rightarrow> real \<Rightarrow> real) \<Rightarrow> tensor \<Rightarrow> tensor \<Rightarrow> error + tensor" where
  "elementwise f x y =
     (case broadcast (shape x) (shape y) of
        None \<Rightarrow> Inl RuntimeError
      | Some s \<Rightarrow>
        Inr (mk_tensor s (\<lambda>i. f (elem x (bindex (shape x) i)) (elem y (bindex (shape y) i)))))"

text \<open>\<^verbatim>\<open>x + v\<close> and \<^verbatim>\<open>x * v\<close> for a tensor \<open>x\<close> and a number or a tensor \<open>v\<close>.\<close>

fun tensor_add :: "tensor \<Rightarrow> pyval \<Rightarrow> error + tensor" where
  "tensor_add x (PyInt n) = Inr (mk_tensor (shape x) (\<lambda>i. elem x i + real_of_int n))"
| "tensor_add x (PyTensor y) = elementwise (+) x y"
| "tensor_add x _ = Inl TypeError"

fun tensor_mul :: "tensor \<Rightarrow> pyval \<Rightarrow> error + tensor" where
  "tensor_mul x (PyInt n) = Inr (mk_tensor (shape x) (\<lambda>i. elem x i * real_of_int n))"
| "tensor_mul x (PyTensor y) = elementwise (*) x y"
| "tensor_mul x _ = Inl TypeError"

text \<open>The in-place \<^verbatim>\<open>x += y\<close>: the result must have the size of \<open>x\<close>.\<close>

definition tensor_iadd :: "tensor \<Rightarrow> tensor \<Rightarrow> error + tensor" where
  "tensor_iadd x y =
     (if broadcast (shape x) (shape y) = Some (shape x) then elementwise (+) x y
      else Inl RuntimeError)"

text \<open>\<^verbatim>\<open>torch.ones(s)\<close>.\<close>

definition ones :: "nat list \<Rightarrow> tensor" where
  "ones s = mk_tensor s (\<lambda>i. 1)"

text \<open>\<^verbatim>\<open>torch.einsum('nkctv,kvw->nctw', (x, a))\<close>: the subscripts k and v are summed.\<close>

definition einsum_nkctv_kvw_nctw :: "tensor \<Rightarrow> tensor \<Rightarrow> error + tensor" where
  "einsum_nkctv_kvw_nctw x a =
     (if length (shape x) \<noteq> 5 \<or> length (shape a) \<noteq> 3 then Inl RuntimeError
      else
        let k = shape x ! 1; v = shape x ! 4; k' = shape a ! 0; v' = shape a ! 1
        in case bdim k k' of None \<Rightarrow> Inl RuntimeError
           | Some bk \<Rightarrow>
             (case bdim v v' of None \<Rightarrow> Inl RuntimeError
              | Some bv \<Rightarrow>
                Inr (mk_tensor [shape x ! 0, shape x ! 2, shape x ! 3, shape a ! 2]
                      (\<lambda>i. \<Sum>kk\<leftarrow>[0..<bk]. \<Sum>vv\<leftarrow>[0..<bv].
                        elem x [i ! 0, bidx k kk, i ! 1, i ! 2, bidx v vv]
                          * elem a [bidx k' kk, bidx v' vv, i ! 3]))))"

text \<open>
  \<^verbatim>\<open>nn.Conv2d(in, out, kernel_size, stride, padding, dilation)\<close> on a batched
  \<open>(N, C, H, W)\<close> or an unbatched \<open>(C, H, W)\<close> input. The output length along an axis of
  length \<open>l\<close> is \<open>(l + 2 p - d (k - 1) - 1) div s + 1\<close>; a padded input shorter than
  the dilated kernel is refused, and so is a convolution without output channels. The
  output of a convolution without input channels has no channels.
\<close>

record Conv2d =
  conv_in :: nat
  conv_out :: nat
  conv_kernel :: "nat \<times> nat"
  conv_stride :: "nat \<times> nat"
  conv_padding :: "nat \<times> nat"
  conv_dilation :: "nat \<times> nat"
  conv_fn :: "tensor \<Rightarrow> nat list \<Rightarrow> real"

definition conv_len :: "nat \<Rightarrow> nat \<Rightarrow> nat \<Rightarrow> nat \<Rightarrow> nat \<Rightarrow> nat option" where
  "conv_len l k s p d =
     (if s = 0 \<or> k = 0 \<or> l + 2 * p < d * (k - 1) + 1 then None
      else Some ((l + 2 * p - d * (k - 1) - 1) div s + 1))"

definition Conv2d_forward :: "Conv2d \<Rightarrow> tensor \<Rightarrow> error + tensor" where
  "Conv2d_forward c x =
     (let r = length (shape x) in
      if r \<noteq> 3 \<and> r \<noteq> 4 then Inl RuntimeError
      else if conv_out c = 0 then Inl RuntimeError
      else if shape x ! (r - 3) \<noteq> conv_in c then Inl RuntimeError
      else
        case conv_len (shape x ! (r - 2)) (fst (conv_kernel c)) (fst (conv_stride c))
               (fst (conv_padding c)) (fst (conv_dilation c)) of
          None \<Rightarrow> Inl RuntimeError
        | Some h \<Rightarrow>
          (case conv_len (shape x ! (r - 1)) (snd (conv_kernel c)) (snd (conv_stride c))
                  (snd (conv_padding c)) (snd (conv_dilation c)) of
             None \<Rightarrow> Inl RuntimeError
           | Some w \<Rightarrow>
             Inr (mk_tensor
                    (take (r - 3) (shape x) @ [if conv_in c = 0 then 0 else conv_out c, h, w])
                    (conv_fn c x))))"

text \<open>
  \<^verbatim>\<open>nn.BatchNorm1d\<close> (input of 2 or 3 dimensions) and \<^verbatim>\<open>nn.BatchNorm2d\<close> (4 dimensions):
  dimension 1 is the channel and must have \<open>num_features\<close> entries; in training mode
  a batch with a single value per channel is refused. For an input without elements the
  library does not compare the channel count: it reads the first weight, which a layer
  of size 0 does not have, and otherwise returns the empty input's size.
\<close>

record BatchNorm =
  num_features :: nat
  bn_training :: bool
  bn_fn :: "tensor \<Rightarrow> nat list \<Rightarrow> real"

definition batch_norm :: "BatchNorm \<Rightarrow> tensor \<Rightarrow> error + tensor" where
  "batch_norm b x =
     (if bn_training b \<and> hd (shape x) * prod_list (drop 2 (shape x)) = 1 then Inl ValueError
      else if prod_list (shape x) = 0
      then (if num_features b = 0 then Inl IndexError
            else Inr (mk_tensor (shape x) (bn_fn b x)))
      else if shape x ! 1 \<noteq> num_features b then Inl RuntimeError
      else Inr (mk_tensor (shape x) (bn_fn b x)))"

definition BatchNorm1d_forward :: "BatchNorm \<Rightarrow> tensor \<Rightarrow> error + tensor" where
  "BatchNorm1d_forward b x =
     (if length (shape x) \<noteq> 2 \<and> length (shape x) \<noteq> 3 then Inl ValueError
      else batch_norm b x)"

definition BatchNorm2d_forward :: "BatchNorm \<Rightarrow> tensor \<Rightarrow> error + tensor" where
  "BatchNorm2d_forward b x =
     (if length (shape x) \<noteq> 4 then Inl ValueError else batch_norm b x)"

text \<open>\<^verbatim>\<open>nn.Linear(in_features, out_features)\<close> acts on the last dimension.\<close>

record Linear =
  in_features :: nat
  out_features :: nat
  lin_fn :: "tensor \<Rightarrow> nat list \<Rightarrow> real"

definition Linear_forward :: "Linear \<Rightarrow> tensor \<Rightarrow> error + tensor" where
  "Linear_forward l x =
     (if shape x = [] \<or> last (shape x) \<noteq> in_features l then Inl RuntimeError
      else Inr (mk_tensor (butlast (shape x) @ [out_features l]) (lin_fn l x)))"

text \<open>\<^verbatim>\<open>nn.ReLU\<close> and \<^verbatim>\<open>nn.Dropout(p)\<close>; the constructor of the latter refuses a
  probability outside \<open>[0, 1]\<close>.\<close>

definition relu :: "tensor \<Rightarrow> tensor" where
  "relu x = mk_tensor (shape x) (\<lambda>i. max 0 (elem x i))"

record Dropout =
  drop_p :: real
  drop_fn :: "tensor \<Rightarrow> nat list \<Rightarrow> real"

definition Dropout_forward :: "Dropout \<Rightarrow> tensor \<Rightarrow> error + tensor" where
  "Dropout_forward d x = Inr (mk_tensor (shape x) (drop_fn d x))"

text \<open>The members of an \<^verbatim>\<open>nn.Sequential\<close>, applied in order.\<close>

datatype layer = BatchNorm2d BatchNorm | ReLU | Conv Conv2d | Drop Dropout

fun layer_forward :: "layer \<Rightarrow> tensor \<Rightarrow> error + tensor" where
  "layer_forward (BatchNorm2d b) x = BatchNorm2d_forward b x"
| "layer_forward ReLU x = Inr (relu x)"
| "layer_forward (Conv c) x = Conv2d_forward c x"
| "layer_forward (Drop d) x = Dropout_forward d x"

fun Sequential_forward :: "layer list \<Rightarrow> tensor \<Rightarrow> error + tensor" where
  "Sequential_forward [] x = Inr x"
| "Sequential_forward (l # ls) x = bindE (layer_forward l x) (Sequential_forward ls)"

section \<open>The module-level functions\<close>

definition zero_fn :: "tensor \<Rightarrow> pyval" where
  "zero_fn x = PyInt 0"

definition identity :: "tensor \<Rightarrow> tensor" where
  "identity x = x"

section \<open>ConvTemporalGraphical\<close>

record ConvTemporalGraphical =
  kernel_size :: nat
  conv :: Conv2d

text \<open>
  \<^verbatim>\<open>ConvTemporalGraphical.__init__\<close>; \<open>w\<close> stands for the weights and the bias of the
  convolution the constructor creates.
\<close>

definition ConvTemporalGraphical_init ::
  "(tensor \<Rightarrow> nat list \<Rightarrow> real) \<Rightarrow> nat \<Rightarrow> nat \<Rightarrow> nat \<Rightarrow> nat \<Rightarrow> nat \<Rightarrow> nat \<Rightarrow> nat
     \<Rightarrow> ConvTemporalGraphical" where
  "ConvTemporalGraphical_init w in_channels out_channels kernel_size' t_kernel_size t_stride
       t_padding t_dilation =
     \<lparr>kernel_size = kernel_size',
      conv = \<lparr>conv_in = in_channels, conv_out = out_channels * kernel_size',
               conv_kernel = (t_kernel_size, 1), conv_stride = (t_stride, 1),
               conv_padding = (t_padding, 0), conv_dilation = (t_dilation, 1),
               conv_fn = w\<rparr>\<rparr>"

text \<open>
  \<^verbatim>\<open>ConvTemporalGraphical.forward\<close>. \<^verbatim>\<open>adj_mat.size(0)\<close> raises IndexError on a tensor
  without dimensions, the unpacking \<^verbatim>\<open>n, kc, t, v = x.size()\<close> raises ValueError unless
  the convolution returned four dimensions, and \<^verbatim>\<open>kc // self.kernel_size\<close> raises
  ZeroDivisionError for a kernel size 0.
\<close>

definition ConvTemporalGraphical_forward ::
  "ConvTemporalGraphical \<Rightarrow> tensor \<Rightarrow> tensor \<Rightarrow> error + (tensor \<times> tensor)" where
  "ConvTemporalGraphical_forward m x adj_mat =
     (if shape adj_mat = [] then Inl IndexError
      else if hd (shape adj_mat) \<noteq> kernel_size m then Inl AssertionError
      else
        bindE (Conv2d_forward (conv m) x) (\<lambda>x.
          if length (shape x) \<noteq> 4 then Inl ValueError
          else
            let n = shape x ! 0; kc = shape x ! 1; t = shape x ! 2; v = shape x ! 3
            in if kernel_size m = 0 then Inl ZeroDivisionError
               else
                 bindE (view [n, kernel_size m, kc div kernel_size m, t, v] x) (\<lambda>x.
                 bindE (einsum_nkctv_kvw_nctw x adj_mat) (\<lambda>x.
                 Inr (contiguous x, adj_mat)))))"

section \<open>GLBGCNBlock\<close>

text \<open>The residual branch chosen by the constructor: one of the two module-level
  functions, or a sequence of a convolution and a normalisation.\<close>

datatype residual_branch = Zero | Identity | Projection "layer list"

fun residual_apply :: "residual_branch \<Rightarrow> tensor \<Rightarrow> error + pyval" where
  "residual_apply Zero x = Inr (zero_fn x)"
| "residual_apply Identity x = Inr (PyTensor (identity x))"
| "residual_apply (Projection ls) x =
     bindE (Sequential_forward ls x) (\<lambda>y. Inr (PyTensor y))"

record GLBGCNBlock =
  gcn :: ConvTemporalGraphical
  tcn :: "layer list"
  residual :: residual_branch

text \<open>The parametrised layers of one block; \<open>w\<close> below gives each its weights.\<close>

datatype block_param = GcnConv | TcnBn1 | TcnConv | TcnBn2 | TcnDrop | ResConv | ResBn

definition BatchNorm_init :: "(tensor \<Rightarrow> nat list \<Rightarrow> real) \<Rightarrow> nat \<Rightarrow> BatchNorm" where
  "BatchNorm_init w n = \<lparr>num_features = n, bn_training = True, bn_fn = w\<rparr>"

text \<open>
  \<^verbatim>\<open>GLBGCNBlock.__init__(in_channels, out_channels, kernel_size, stride, dropout,
  residual)\<close>; \<open>kernel_size\<close> is the tuple of the source.
\<close>

definition GLBGCNBlock_init ::
  "(block_param \<Rightarrow> tensor \<Rightarrow> nat list \<Rightarrow> real) \<Rightarrow> nat \<Rightarrow> nat \<Rightarrow> nat list \<Rightarrow> nat \<Rightarrow> real \<Rightarrow> bool
     \<Rightarrow> error + GLBGCNBlock" where
  "GLBGCNBlock_init w in_channels out_channels kernel_size' stride dropout residual' =
     (if length kernel_size' \<noteq> 2 then Inl AssertionError
      else if kernel_size' ! 0 mod 2 \<noteq> 1 then Inl AssertionError
      else
        let padding = ((kernel_size' ! 0 - 1) div 2, 0)
        in if dropout < 0 \<or> dropout > 1 then Inl ValueError
           else Inr
             \<lparr>gcn = ConvTemporalGraphical_init (w GcnConv) in_channels out_channels
                      (kernel_size' ! 1) 1 1 0 1,
              tcn = [BatchNorm2d (BatchNorm_init (w TcnBn1) out_channels),
                     ReLU,
                     Conv \<lparr>conv_in = out_channels, conv_out = out_channels,
                           conv_kernel = (kernel_size' ! 0, 1), conv_stride = (stride, 1),
                           conv_padding = padding, conv_dilation = (1, 1),
                           conv_fn = w TcnConv\<rparr>,
                     BatchNorm2d (BatchNorm_init (w TcnBn2) out_channels),
                     Drop \<lparr>drop_p = dropout, drop_fn = w TcnDrop\<rparr>],
              residual =
                (if \<not> residual' then Zero
                 else if in_channels = out_channels \<and> stride = 1 then Identity
                 else Projection
                   [Conv \<lparr>conv_in = in_channels, conv_out = out_channels,
                          conv_kernel = (1, 1), conv_stride = (stride, 1),
                          conv_padding = (0, 0), conv_dilation = (1, 1),
                          conv_fn = w ResConv\<rparr>,
                    BatchNorm2d (BatchNorm_init (w ResBn) out_channels)])\<rparr>)"

text \<open>\<^verbatim>\<open>GLBGCNBlock.forward\<close>.\<close>

definition GLBGCNBlock_forward ::
  "GLBGCNBlock \<Rightarrow> tensor \<Rightarrow> tensor \<Rightarrow> error + (tensor \<times> tensor)" where
  "GLBGCNBlock_forward b x adj_mat =
     bindE (residual_apply (residual b) x) (\<lambda>res.
     bindE (ConvTemporalGraphical_forward (gcn b) x adj_mat) (\<lambda>(x, adj_mat).
     bindE (Sequential_forward (tcn b) x) (\<lambda>y.
     bindE (tensor_add y res) (\<lambda>x.
     Inr (relu x, adj_mat)))))"


section \<open>GLBGCN\<close>

text \<open>The parametrised layers of the backbone; the argument \<open>w\<close> of the constructor
  gives each the weights it is created with.\<close>

datatype glbgcn_param =
  DataBn | DataBnFeature | Block nat block_param | Transform nat | Residue nat

record GLBGCN =
  graph_A :: tensor
  in_channel :: nat
  reduction :: string
  data_bn :: "BatchNorm option"
  data_bn_feature :: "BatchNorm option"
  st_gcn_networks :: "GLBGCNBlock list"
  feature_transform :: "Linear list"
  feature_residue :: "Linear list"
  edge_importance :: "pyval list"
  pretrained :: pyval

text \<open>The elements of a tuple of constructor calls, in order, up to the first that raises.\<close>

fun sequenceE :: "(error + 'a) list \<Rightarrow> error + 'a list" where
  "sequenceE [] = Inr []"
| "sequenceE (r # rs) = bindE r (\<lambda>a. bindE (sequenceE rs) (\<lambda>as. Inr (a # as)))"

definition Linear_init :: "(tensor \<Rightarrow> nat list \<Rightarrow> real) \<Rightarrow> nat \<Rightarrow> nat \<Rightarrow> Linear" where
  "Linear_init w n_in n_out = \<lparr>in_features = n_in, out_features = n_out, lin_fn = w\<rparr>"

text \<open>
  \<^verbatim>\<open>GLBGCN.__init__(in_channels, graph_cfg, edge_importance_weighting, data_bn,
  pretrained, reduction, **kwargs)\<close>. The class \<^verbatim>\<open>Graph\<close> is not part of the sources:
  \<open>graph_A'\<close> is the array \<^verbatim>\<open>self.graph.A\<close> it returns for \<^verbatim>\<open>graph_cfg\<close>. Of the keyword
  arguments only \<^verbatim>\<open>dropout\<close> can be passed on to every block (\<open>None\<close>: it is absent);
  the first block is built without it. \<^verbatim>\<open>A.size(0)\<close> is read always and \<^verbatim>\<open>A.size(1)\<close>
  only with \<^verbatim>\<open>data_bn\<close>; \<^verbatim>\<open>A.size(1) - 1\<close> is negative for an array without nodes, and a
  normalisation layer of negative size is refused.
\<close>

definition GLBGCN_init ::
  "(glbgcn_param \<Rightarrow> tensor \<Rightarrow> nat list \<Rightarrow> real) \<Rightarrow> nat \<Rightarrow> tensor \<Rightarrow> bool \<Rightarrow> bool \<Rightarrow> pyval
     \<Rightarrow> string \<Rightarrow> real option \<Rightarrow> error + GLBGCN" where
  "GLBGCN_init w in_channels graph_A' edge_importance_weighting data_bn' pretrained' reduction'
       kwargs =
     (let A = mk_tensor (shape graph_A') (elem graph_A') in
      if reduction' \<notin> set [''avg'', ''max''] then Inl AssertionError
      else if shape A = [] then Inl IndexError
      else if data_bn' \<and> length (shape A) < 2 then Inl IndexError
      else
        let spatial_kernel_size = shape A ! 0;
            temporal_kernel_size = 9;
            kernel_size' = [temporal_kernel_size, spatial_kernel_size];
            dropout = (case kwargs of None \<Rightarrow> 0 | Some p \<Rightarrow> p)
        in if data_bn' \<and> shape A ! 1 = 0 then Inl RuntimeError
           else
             bindE (sequenceE
               [GLBGCNBlock_init (\<lambda>p. w (Block 0 p)) in_channels 64 kernel_size' 1 0 False,
                GLBGCNBlock_init (\<lambda>p. w (Block 1 p)) 64 64 kernel_size' 1 dropout True,
                GLBGCNBlock_init (\<lambda>p. w (Block 2 p)) 64 64 kernel_size' 1 dropout True,
                GLBGCNBlock_init (\<lambda>p. w (Block 3 p)) 64 64 kernel_size' 1 dropout True,
                GLBGCNBlock_init (\<lambda>p. w (Block 4 p)) 64 128 kernel_size' 2 dropout True,
                GLBGCNBlock_init (\<lambda>p. w (Block 5 p)) 128 128 kernel_size' 1 dropout True,
                GLBGCNBlock_init (\<lambda>p. w (Block 6 p)) 128 128 kernel_size' 1 dropout True,
                GLBGCNBlock_init (\<lambda>p. w (Block 7 p)) 128 256 kernel_size' 2 dropout True,
                GLBGCNBlock_init (\<lambda>p. w (Block 8 p)) 256 256 kernel_size' 1 dropout True,
                GLBGCNBlock_init (\<lambda>p. w (Block 9 p)) 256 256 kernel_size' 1 dropout True])
             (\<lambda>blocks. Inr
               \<lparr>graph_A = A,
                in_channel = in_channels,
                reduction = reduction',
                data_bn =
                  (if data_bn' then Some (BatchNorm_init (w DataBn) (in_channels * (shape A ! 1 - 1)))
                   else None),
                data_bn_feature =
                  (if data_bn' then Some (BatchNorm_init (w DataBnFeature) (32 * (shape A ! 1 - 1)))
                   else None),
                st_gcn_networks = blocks,
                feature_transform =
                  [Linear_init (w (Transform 0)) 32 in_channels,
                   Linear_init (w (Transform 1)) 64 64,
                   Linear_init (w (Transform 2)) 64 64,
                   Linear_init (w (Transform 3)) 64 64,
                   Linear_init (w (Transform 4)) 64 64,
                   Linear_init (w (Transform 5)) 128 128,
                   Linear_init (w (Transform 6)) 128 128,
                   Linear_init (w (Transform 7)) 128 128,
                   Linear_init (w (Transform 8)) 256 256,
                   Linear_init (w (Transform 9)) 256 256],
                feature_residue =
                  [Linear_init (w (Residue 0)) 32 in_channels,
                   Linear_init (w (Residue 1)) 32 64,
                   Linear_init (w (Residue 2)) 32 64,
                   Linear_init (w (Residue 3)) 32 64],
                edge_importance =
                  (if edge_importance_weighting then map (\<lambda>i. PyTensor (ones (shape A))) blocks
                   else map (\<lambda>_. PyInt 1) blocks),
                pretrained = pretrained'\<rparr>))"

text \<open>
  \<^verbatim>\<open>GLBGCN.init_weights\<close>, as the calls it makes to the logger, the checkpoint loader and
  the three initialisers, none of which is part of the sources. \<open>GLBGCN_modules\<close> is
  \<^verbatim>\<open>self.modules()\<close>; a module that is neither a convolution, a linear layer nor a
  normalisation is \<open>ModOther\<close>.
\<close>

datatype module = ModConv2d Conv2d | ModLinear Linear | ModBatchNorm BatchNorm | ModOther

fun layer_module :: "layer \<Rightarrow> module" where
  "layer_module (BatchNorm2d b) = ModBatchNorm b"
| "layer_module ReLU = ModOther"
| "layer_module (Conv c) = ModConv2d c"
| "layer_module (Drop d) = ModOther"

definition GLBGCNBlock_modules :: "GLBGCNBlock \<Rightarrow> module list" where
  "GLBGCNBlock_modules b =
     [ModOther, ModOther, ModConv2d (conv (gcn b)), ModOther] @ map layer_module (tcn b)
     @ (case residual b of Projection ls \<Rightarrow> ModOther # map layer_module ls | _ \<Rightarrow> [])
     @ [ModOther]"

definition GLBGCN_modules :: "GLBGCN \<Rightarrow> module list" where
  "GLBGCN_modules m =
     [ModOther]
     @ (case data_bn m of None \<Rightarrow> [] | Some b \<Rightarrow> [ModBatchNorm b])
     @ (case data_bn_feature m of None \<Rightarrow> [] | Some b \<Rightarrow> [ModBatchNorm b])
     @ [ModOther] @ concat (map GLBGCNBlock_modules (st_gcn_networks m))
     @ [ModOther] @ map ModLinear (feature_transform m)
     @ [ModOther] @ map ModLinear (feature_residue m)"

datatype init_call =
  logger_info string
  | load_checkpoint string bool
  | kaiming_init Conv2d
  | normal_init Linear
  | constant_init BatchNorm int

fun init_module :: "module \<Rightarrow> init_call list" where
  "init_module (ModConv2d c) = [kaiming_init c]"
| "init_module (ModLinear l) = [normal_init l]"
| "init_module (ModBatchNorm b) = [constant_init b 1]"
| "init_module ModOther = []"

definition init_weights :: "GLBGCN \<Rightarrow> error + init_call list" where
  "init_weights m =
     (case pretrained m of
        PyStr s \<Rightarrow> Inr [logger_info (''load model from: '' @ s), load_checkpoint s False]
      | PyNone \<Rightarrow> Inr (concat (map init_module (GLBGCN_modules m)))
      | _ \<Rightarrow> Inl TypeError)"

text \<open>
  The statements that normalise one stream of \<^verbatim>\<open>GLBGCN.forward\<close>, written twice in the
  source (for \<^verbatim>\<open>x_feature\<close> with \<^verbatim>\<open>data_bn_feature\<close>, for \<^verbatim>\<open>x_pos\<close> with \<^verbatim>\<open>data_bn\<close>);
  a layer \<open>None\<close> is the function \<^verbatim>\<open>identity\<close> the constructor puts in its place.
\<close>

definition normalise :: "BatchNorm option \<Rightarrow> tensor \<Rightarrow> error + tensor" where
  "normalise bn x =
     (let x = float x in
      if length (shape x) \<noteq> 5 then Inl ValueError
      else
        let n = shape x ! 0; c = shape x ! 1; t = shape x ! 2; v = shape x ! 3; m = shape x ! 4
        in bindE (permute [0, 4, 3, 1, 2] x) (\<lambda>x.
           bindE (view [n * m, v * c, t] (contiguous x)) (\<lambda>x.
           bindE (case bn of None \<Rightarrow> Inr (identity x) | Some b \<Rightarrow> BatchNorm1d_forward b x) (\<lambda>x.
           bindE (view [n, m, v, c, t] x) (\<lambda>x.
           bindE (permute [0, 1, 3, 4, 2] x) (\<lambda>x.
           view [n * m, c, t, v] (contiguous x)))))))"

text \<open>
  The body of the loop of \<^verbatim>\<open>GLBGCN.forward\<close>: one element of the \<^verbatim>\<open>zip\<close> and the
  variables \<^verbatim>\<open>i\<close>, \<^verbatim>\<open>x\<close>, \<^verbatim>\<open>x_pos\<close> and \<^verbatim>\<open>x_feature\<close> before and after it.
\<close>

definition stage ::
  "GLBGCN \<Rightarrow> tensor \<Rightarrow> GLBGCNBlock \<times> pyval \<times> Linear \<Rightarrow> nat \<times> tensor \<times> tensor \<times> tensor
     \<Rightarrow> error + (nat \<times> tensor \<times> tensor \<times> tensor)" where
  "stage m x_feature_clone z st =
     (case (z, st) of ((gcn', importance, fc), (i, x, x_pos, x_feature)) \<Rightarrow>
        bindE (permute [0, 2, 3, 1] x_feature) (\<lambda>x_feature.
        bindE (Linear_forward fc x_feature) (\<lambda>x_feature.
        bindE (permute [0, 3, 1, 2] x_feature) (\<lambda>x_feature.
        bindE (if i < length (feature_residue m)
               then
                 bindE (Linear_forward (feature_residue m ! i) x_feature_clone) (\<lambda>r.
                 bindE (permute [0, 3, 1, 2] r) (\<lambda>x_feature_res.
                 bindE (tensor_iadd x_feature x_feature_res) (\<lambda>x_feature.
                 Inr (x_feature, i + 1))))
               else Inr (x_feature, i)) (\<lambda>(x_feature, i).
        bindE (cat 3 x_pos x_feature) (\<lambda>x.
        bindE (tensor_mul (graph_A m) importance) (\<lambda>a.
        bindE (GLBGCNBlock_forward gcn' x a) (\<lambda>(x, _).
        if length (shape (graph_A m)) < 2 then Inl IndexError
        else
          bindE (slice_dim 3 0 (Some (int (shape (graph_A m) ! 1) - 1)) x) (\<lambda>x_pos.
          bindE (select 3 (- 1) x) (\<lambda>x_last.
          bindE (unsqueeze 3 x_last) (\<lambda>x_feature.
          Inr (i, x, x_pos, x_feature))))))))))))"

fun stages ::
  "GLBGCN \<Rightarrow> tensor \<Rightarrow> (GLBGCNBlock \<times> pyval \<times> Linear) list \<Rightarrow> nat \<times> tensor \<times> tensor \<times> tensor
     \<Rightarrow> error + (nat \<times> tensor \<times> tensor \<times> tensor)" where
  "stages m x_feature_clone [] st = Inr st"
| "stages m x_feature_clone (z # zs) st =
     bindE (stage m x_feature_clone z st) (stages m x_feature_clone zs)"

text \<open>\<^verbatim>\<open>GLBGCN.forward\<close>. An input of fewer than five dimensions is refused by the first
  subscript.\<close>

definition GLBGCN_forward :: "GLBGCN \<Rightarrow> tensor \<Rightarrow> error + tensor" where
  "GLBGCN_forward m x =
     (if length (shape x) < 5 then Inl IndexError
      else
        bindE (slice_dim 1 0 (Some (int (in_channel m))) x) (\<lambda>x_pos.
        bindE (slice_dim 1 (int (in_channel m)) None x) (\<lambda>x_feature.
        bindE (normalise (data_bn_feature m) x_feature) (\<lambda>x_feature.
        bindE (if reduction m = ''avg'' then mean_dim 3 x_feature
               else amax_dim 3 x_feature) (\<lambda>x_feature.
        let x_feature_clone = x_feature in
        bindE (permute [0, 2, 3, 1] x_feature_clone) (\<lambda>x_feature_clone.
        bindE (normalise (data_bn m) x_pos) (\<lambda>x_pos.
        bindE (stages m x_feature_clone
                 (zip (st_gcn_networks m) (zip (edge_importance m) (feature_transform m)))
                 (0, x, x_pos, x_feature)) (\<lambda>(i, x, x_pos, x_feature).
        Inr x))))))))"

text \<open>
  \<^verbatim>\<open>Module.train(mode)\<close> of the library sets the training flag of every module; of
  the layers here only the normalisations read it.
\<close>

fun layer_train :: "bool \<Rightarrow> layer \<Rightarrow> layer" where
  "layer_train mode (BatchNorm2d b) = BatchNorm2d (b\<lparr>bn_training := mode\<rparr>)"
| "layer_train mode l = l"

definition GLBGCNBlock_train :: "bool \<Rightarrow> GLBGCNBlock \<Rightarrow> GLBGCNBlock" where
  "GLBGCNBlock_train mode b =
     b\<lparr>tcn := map (layer_train mode) (tcn b),
       residual := (case residual b of
                      Projection ls \<Rightarrow> Projection (map (layer_train mode) ls)
                    | r \<Rightarrow> r)\<rparr>"

definition GLBGCN_train :: "bool \<Rightarrow> GLBGCN \<Rightarrow> GLBGCN" where
  "GLBGCN_train mode m =
     m\<lparr>data_bn := map_option (\<lambda>b. b\<lparr>bn_training := mode\<rparr>) (data_bn m),
       data_bn_feature := map_option (\<lambda>b. b\<lparr>bn_training := mode\<rparr>) (data_bn_feature m),
       st_gcn_networks := map (GLBGCNBlock_train mode) (st_gcn_networks m)\<rparr>"

section \<open>Properties\<close>

lemma bindE_simps [simp]:
  "bindE (Inl e) f = Inl e"
  "bindE (Inr a) f = f a"
  by (simp_all add: bindE_def)

lemma bindE_eq_Inr:
  "(bindE r f = Inr y) = (\<exists>a. r = Inr a \<and> f a = Inr y)"
  by (cases r) simp_all

lemma bindE_eq_Inl:
  "(bindE r f = Inl e) = (r = Inl e \<or> (\<exists>a. r = Inr a \<and> f a = Inl e))"
  by (cases r) simp_all

lemma view_error: "view s x = Inl e \<Longrightarrow> e = RuntimeError"
  by (auto simp: view_def split: if_splits)

lemma einsum_error: "einsum_nkctv_kvw_nctw x a = Inl e \<Longrightarrow> e = RuntimeError"
  by (auto simp: einsum_nkctv_kvw_nctw_def Let_def split: if_splits option.splits)

lemma Conv2d_forward_error: "Conv2d_forward c x = Inl e \<Longrightarrow> e = RuntimeError"
  by (auto simp: Conv2d_forward_def Let_def split: if_splits option.splits)

text \<open>
  C7. The graph convolution unit fails with the assertion error exactly when the first
  dimension of the adjacency tensor differs from the configured kernel size: when they
  are equal, no later step of the forward computation raises it.
\<close>

theorem ConvTemporalGraphical_forward_assertion:
  "(ConvTemporalGraphical_forward m x adj_mat = Inl AssertionError)
     = (shape adj_mat \<noteq> [] \<and> hd (shape adj_mat) \<noteq> kernel_size m)"
proof (cases "shape adj_mat = [] \<or> hd (shape adj_mat) \<noteq> kernel_size m")
  case True
  then show ?thesis
    by (auto simp: ConvTemporalGraphical_forward_def)
next
  case False
  have "ConvTemporalGraphical_forward m x adj_mat \<noteq> Inl AssertionError"
  proof
    assume a: "ConvTemporalGraphical_forward m x adj_mat = Inl AssertionError"
    from a False show False
      by (auto simp: ConvTemporalGraphical_forward_def bindE_eq_Inl Let_def
          split: if_splits
          dest: view_error einsum_error Conv2d_forward_error)
  qed
  with False show ?thesis by simp
qed

lemma shape_mk_tensor [simp]: "shape (mk_tensor s f) = s"
  by (simp add: mk_tensor_def)

lemma elem_mk_tensor: "elem (mk_tensor s f) i = (if valid_index s i then f i else 0)"
  by (simp add: mk_tensor_def)

lemma valid_index4 [simp]:
  "valid_index [a, b, c, d] [i, j, k, l] = (i < a \<and> j < b \<and> k < c \<and> l < d)"
  by (simp add: valid_index_def)

lemma valid_index5 [simp]:
  "valid_index [a, b, c, d, e] [i, j, k, l, m] = (i < a \<and> j < b \<and> k < c \<and> l < d \<and> m < e)"
  by (simp add: valid_index_def)

lemma digit_bound: "a < n \<Longrightarrow> b < m \<Longrightarrow> a * m + b < n * (m::nat)"
proof -
  assume a: "a < n" and b: "b < m"
  from a have "Suc a * m \<le> n * m" by (intro mult_le_mono1) simp
  with b show ?thesis by simp
qed

lemma div_digit: "b < m \<Longrightarrow> (a * m + b) div m = (a::nat)"
  by (cases "m = 0") (simp_all add: add.commute[of "a * m"])

lemma mod_digit: "b < m \<Longrightarrow> (a * m + b) mod m = (b::nat)"
  by simp

lemma view_split_channel:
  assumes "kk < k" "c < co" "j < t" "vv < v"
  shows "unflat_index [n, co * k, t, v] (flat_index [n, k, co, t, v] [i, kk, c, j, vv])
           = [i, kk * co + c, j, vv]"
proof -
  have tv: "j * v + vv < t * v"
    using assms by (simp add: digit_bound)
  have kc: "kk * co + c < k * co"
    using assms by (simp add: digit_bound)
  have r: "(kk * co + c) * (t * v) + (j * v + vv) < (k * co) * (t * v)"
    using kc tv by (rule digit_bound)
  define R where "R = (kk * co + c) * (t * v) + (j * v + vv)"
  have L: "flat_index [n, k, co, t, v] [i, kk, c, j, vv] = i * (co * k * t * v) + R"
    by (simp add: R_def algebra_simps)
  have RP: "R < co * (k * (t * v))"
    using r by (simp add: R_def mult.commute mult.left_commute)
  have d1: "(i * (co * (k * (t * v))) + R) div (co * (k * (t * v))) = i"
    using RP by (rule div_digit)
  have m1: "R mod (co * (k * (t * v))) = R"
    using RP by simp
  have d2: "R div (t * v) = kk * co + c"
    unfolding R_def using tv by (rule div_digit)
  have m2: "R mod (t * v) = j * v + vv"
    unfolding R_def using tv by simp
  have d3: "(j * v + vv) div v = j" "(j * v + vv) mod v = vv"
    using assms by (simp_all add: div_digit)
  show ?thesis
    unfolding L
    using assms(4) by (simp add: d1 m1 d2 m2 d3 mult.assoc)
qed


lemma sum_list_upt: "(\<Sum>j\<leftarrow>[0..<n]. f j) = (\<Sum>j<n. f j)"
  by (simp add: interv_sum_list_conv_sum_set_nat atLeast0LessThan)

lemma bidx_self: "j < d \<Longrightarrow> bidx d j = j"
  by (auto simp: bidx_def)

lemma bdim_same [simp]: "bdim a a = Some a"
  by (simp add: bdim_def)

lemma conv_len_unit: "0 < v \<Longrightarrow> conv_len v (Suc 0) (Suc 0) 0 (Suc 0) = Some v"
  by (simp add: conv_len_def)

lemma Conv2d_forward_4d:
  "shape x = [n, c, h, w] \<Longrightarrow>
   Conv2d_forward cv x =
     (if conv_out cv = 0 \<or> c \<noteq> conv_in cv then Inl RuntimeError
      else case conv_len h (fst (conv_kernel cv)) (fst (conv_stride cv))
               (fst (conv_padding cv)) (fst (conv_dilation cv)) of
          None \<Rightarrow> Inl RuntimeError
        | Some h' \<Rightarrow>
          (case conv_len w (snd (conv_kernel cv)) (snd (conv_stride cv))
                  (snd (conv_padding cv)) (snd (conv_dilation cv)) of
             None \<Rightarrow> Inl RuntimeError
           | Some w' \<Rightarrow>
               Inr (mk_tensor [n, if conv_in cv = 0 then 0 else conv_out cv, h', w']
                      (conv_fn cv x))))"
  by (simp add: Conv2d_forward_def Let_def numeral_3_eq_3 split: option.splits)

lemma gcn_contraction:
  assumes x: "shape x = [n, c_in, t, v]"
    and a: "shape a = [k, v, w]"
    and k: "0 < k" and v: "0 < v"
    and t: "conv_len t t_kernel_size t_stride t_padding t_dilation = Some t'"
    and m: "m = ConvTemporalGraphical_init wt c_in c_out k t_kernel_size t_stride t_padding t_dilation"
    and co: "0 < c_out" and ci: "0 < c_in"
  shows "\<exists>y out. Conv2d_forward (conv m) x = Inr y \<and> shape y = [n, c_out * k, t', v]
           \<and> ConvTemporalGraphical_forward m x a = Inr (out, a)
           \<and> shape out = [n, c_out, t', w]
           \<and> (\<forall>i<n. \<forall>c<c_out. \<forall>j<t'. \<forall>u<w.
                 elem out [i, c, j, u]
                   = (\<Sum>kk<k. \<Sum>vv<v. elem y [i, kk * c_out + c, j, vv] * elem a [kk, vv, u]))"
proof -
  define y where "y = mk_tensor [n, c_out * k, t', v] (wt x)"
  have cy: "Conv2d_forward (conv m) x = Inr y"
    using co k ci
    by (simp add: Conv2d_forward_4d[OF x] m ConvTemporalGraphical_init_def t conv_len_unit[OF v] y_def)
  define z where "z = mk_tensor [n, k, c_out, t', v]
     (\<lambda>i. elem y (unflat_index [n, c_out * k, t', v] (flat_index [n, k, c_out, t', v] i)))"
  have vz: "view [n, k, c_out, t', v] y = Inr z"
    by (simp add: view_def y_def z_def)
  define out where "out = mk_tensor [n, c_out, t', w]
      (\<lambda>i. \<Sum>kk\<leftarrow>[0..<k]. \<Sum>vv\<leftarrow>[0..<v].
                        elem z [i ! 0, bidx k kk, i ! 1, i ! 2, bidx v vv]
                          * elem a [bidx k kk, bidx v vv, i ! 3])"
  have ez: "einsum_nkctv_kvw_nctw z a = Inr out"
    by (simp add: einsum_nkctv_kvw_nctw_def z_def a out_def)
  have f: "ConvTemporalGraphical_forward m x a = Inr (out, a)"
    using k by (simp add: ConvTemporalGraphical_forward_def cy a contiguous_def,
        simp add: m ConvTemporalGraphical_init_def y_def vz[unfolded y_def] ez)
  have e: "elem out [i, c, j, u]
         = (\<Sum>kk<k. \<Sum>vv<v. elem y [i, kk * c_out + c, j, vv] * elem a [kk, vv, u])"
    if "i < n" "c < c_out" "j < t'" "u < w" for i c j u
  proof -
    have "elem out [i, c, j, u] = (\<Sum>kk<k. \<Sum>vv<v.
            elem z [i, bidx k kk, c, j, bidx v vv] * elem a [bidx k kk, bidx v vv, u])"
      using that by (simp add: out_def elem_mk_tensor sum_list_upt)
    also have "\<dots> = (\<Sum>kk<k. \<Sum>vv<v. elem y [i, kk * c_out + c, j, vv] * elem a [kk, vv, u])"
    proof (intro sum.cong refl)
      fix kk vv assume "kk \<in> {..<k}" "vv \<in> {..<v}"
      then have kv: "kk < k" "vv < v" by simp_all
      have "elem z [i, kk, c, j, vv] = elem y [i, kk * c_out + c, j, vv]"
        using that kv
        by (simp add: z_def elem_mk_tensor view_split_channel
            del: flat_index.simps unflat_index.simps)
      then show "elem z [i, bidx k kk, c, j, bidx v vv] * elem a [bidx k kk, bidx v vv, u]
          = elem y [i, kk * c_out + c, j, vv] * elem a [kk, vv, u]"
        using kv by (simp add: bidx_self)
    qed
    finally show ?thesis .
  qed
  show ?thesis
    using cy f e by (intro exI[of _ y] exI[of _ out]) (simp add: y_def out_def)
qed




lemma ConvTemporalGraphical_forward_adj:
  "ConvTemporalGraphical_forward m x a = Inr (out, a') \<Longrightarrow> a' = a"
  by (auto simp: ConvTemporalGraphical_forward_def bindE_eq_Inr Let_def split: if_splits)

lemma GLBGCNBlock_forward_Inr:
  "(GLBGCNBlock_forward b x a = Inr (out, a')) =
     (a' = a \<and> (\<exists>res g y sm.
        residual_apply (residual b) x = Inr res
        \<and> ConvTemporalGraphical_forward (gcn b) x a = Inr (g, a)
        \<and> Sequential_forward (tcn b) g = Inr y
        \<and> tensor_add y res = Inr sm
        \<and> out = relu sm))"
  by (auto simp: GLBGCNBlock_forward_def bindE_eq_Inr dest: ConvTemporalGraphical_forward_adj)

lemma kaiming_in_calls:
  "(kaiming_init c \<in> set (concat (map init_module ms))) = (ModConv2d c \<in> set ms)"
proof (induction ms)
  case Nil
  then show ?case by simp
next
  case (Cons a ms)
  then show ?case by (cases a) auto
qed

lemma normal_in_calls:
  "(normal_init l \<in> set (concat (map init_module ms))) = (ModLinear l \<in> set ms)"
proof (induction ms)
  case Nil
  then show ?case by simp
next
  case (Cons a ms)
  then show ?case by (cases a) auto
qed

lemma constant_in_calls:
  "(constant_init n k \<in> set (concat (map init_module ms))) = (k = 1 \<and> ModBatchNorm n \<in> set ms)"
proof (induction ms)
  case Nil
  then show ?case by simp
next
  case (Cons a ms)
  then show ?case by (cases a) auto
qed

lemma no_load_in_module:
  "load_checkpoint s st \<notin> set (init_module x)" "logger_info s \<notin> set (init_module x)"
  by (cases x; simp)+

lemma no_load_in_calls:
  "load_checkpoint s st \<notin> set (concat (map init_module ms))"
  "logger_info s \<notin> set (concat (map init_module ms))"
  by (auto simp: no_load_in_module)

lemma conv_layer_module:
  "(ModConv2d c \<in> set (map layer_module ls)) = (Conv c \<in> set ls)"
proof (induction ls)
  case Nil
  then show ?case by simp
next
  case (Cons a ls)
  then show ?case by (cases a) auto
qed

lemma bn_layer_module:
  "(ModBatchNorm n \<in> set (map layer_module ls)) = (BatchNorm2d n \<in> set ls)"
proof (induction ls)
  case Nil
  then show ?case by simp
next
  case (Cons a ls)
  then show ?case by (cases a) auto
qed

lemma block_modules_conv:
  "(ModConv2d c \<in> set (GLBGCNBlock_modules b)) =
     (c = conv (gcn b) \<or> Conv c \<in> set (tcn b)
      \<or> (\<exists>ls. residual b = Projection ls \<and> Conv c \<in> set ls))"
  by (cases "residual b")
    (auto simp: GLBGCNBlock_modules_def conv_layer_module simp del: set_map)

lemma block_modules_bn:
  "(ModBatchNorm n \<in> set (GLBGCNBlock_modules b)) =
     (BatchNorm2d n \<in> set (tcn b)
      \<or> (\<exists>ls. residual b = Projection ls \<and> BatchNorm2d n \<in> set ls))"
  by (cases "residual b")
    (auto simp: GLBGCNBlock_modules_def bn_layer_module simp del: set_map)

lemma block_modules_linear: "ModLinear l \<notin> set (GLBGCNBlock_modules b)"
proof -
  have "ModLinear l \<notin> set (map layer_module ls)" for ls
  proof (induction ls)
    case Nil
    then show ?case by simp
  next
    case (Cons a ls)
    then show ?case by (cases a) auto
  qed
  then show ?thesis
    by (cases "residual b") (auto simp: GLBGCNBlock_modules_def simp del: set_map)
qed

lemma modules_conv:
  "(ModConv2d c \<in> set (GLBGCN_modules m)) =
     (\<exists>b\<in>set (st_gcn_networks m). ModConv2d c \<in> set (GLBGCNBlock_modules b))"
  by (auto simp: GLBGCN_modules_def split: option.splits)

lemma modules_linear:
  "(ModLinear l \<in> set (GLBGCN_modules m)) =
     (l \<in> set (feature_transform m) \<or> l \<in> set (feature_residue m))"
  by (auto simp: GLBGCN_modules_def block_modules_linear split: option.splits)

lemma modules_bn:
  "(ModBatchNorm n \<in> set (GLBGCN_modules m)) =
     (data_bn m = Some n \<or> data_bn_feature m = Some n
      \<or> (\<exists>b\<in>set (st_gcn_networks m). ModBatchNorm n \<in> set (GLBGCNBlock_modules b)))"
  by (auto simp: GLBGCN_modules_def split: option.splits)

lemma init_weights_calls:
  "(init_weights m = Inl TypeError) = (pretrained m \<noteq> PyNone \<and> (\<forall>s. pretrained m \<noteq> PyStr s))
   \<and> (pretrained m = PyStr s \<longrightarrow>
        init_weights m = Inr [logger_info (''load model from: '' @ s), load_checkpoint s False])
   \<and> (pretrained m = PyNone \<longrightarrow>
        (\<exists>calls. init_weights m = Inr calls
          \<and> (\<forall>c. (kaiming_init c \<in> set calls) =
                 (\<exists>b\<in>set (st_gcn_networks m).
                    c = conv (gcn b) \<or> Conv c \<in> set (tcn b)
                    \<or> (\<exists>ls. residual b = Projection ls \<and> Conv c \<in> set ls)))
          \<and> (\<forall>l. (normal_init l \<in> set calls) =
                 (l \<in> set (feature_transform m) \<or> l \<in> set (feature_residue m)))
          \<and> (\<forall>n k. (constant_init n k \<in> set calls) =
                 (k = 1 \<and> (data_bn m = Some n \<or> data_bn_feature m = Some n
                   \<or> (\<exists>b\<in>set (st_gcn_networks m).
                        BatchNorm2d n \<in> set (tcn b)
                        \<or> (\<exists>ls. residual b = Projection ls \<and> BatchNorm2d n \<in> set ls)))))
          \<and> (\<forall>p st. load_checkpoint p st \<notin> set calls)))"
proof (intro conjI impI)
  show "(init_weights m = Inl TypeError) = (pretrained m \<noteq> PyNone \<and> (\<forall>s. pretrained m \<noteq> PyStr s))"
    by (cases "pretrained m") (simp_all add: init_weights_def)
  show "init_weights m = Inr [logger_info (''load model from: '' @ s), load_checkpoint s False]"
    if "pretrained m = PyStr s"
    using that by (simp add: init_weights_def)
  assume n: "pretrained m = PyNone"
  let ?calls = "concat (map init_module (GLBGCN_modules m))"
  have "init_weights m = Inr ?calls"
    using n by (simp add: init_weights_def)
  moreover have "(kaiming_init c \<in> set ?calls) =
                 (\<exists>b\<in>set (st_gcn_networks m).
                    c = conv (gcn b) \<or> Conv c \<in> set (tcn b)
                    \<or> (\<exists>ls. residual b = Projection ls \<and> Conv c \<in> set ls))" for c
    by (simp only: kaiming_in_calls modules_conv block_modules_conv)
  moreover have "(normal_init l \<in> set ?calls) =
                 (l \<in> set (feature_transform m) \<or> l \<in> set (feature_residue m))" for l
    by (simp only: normal_in_calls modules_linear)
  moreover have "(constant_init n k \<in> set ?calls) =
                 (k = 1 \<and> (data_bn m = Some n \<or> data_bn_feature m = Some n
                   \<or> (\<exists>b\<in>set (st_gcn_networks m).
                        BatchNorm2d n \<in> set (tcn b)
                        \<or> (\<exists>ls. residual b = Projection ls \<and> BatchNorm2d n \<in> set ls))))" for n k
    by (simp only: constant_in_calls modules_bn block_modules_bn)
  moreover have "load_checkpoint p st \<notin> set ?calls" for p st
    by (rule no_load_in_calls)
  ultimately show "\<exists>calls. init_weights m = Inr calls
          \<and> (\<forall>c. (kaiming_init c \<in> set calls) =
                 (\<exists>b\<in>set (st_gcn_networks m).
                    c = conv (gcn b) \<or> Conv c \<in> set (tcn b)
                    \<or> (\<exists>ls. residual b = Projection ls \<and> Conv c \<in> set ls)))
          \<and> (\<forall>l. (normal_init l \<in> set calls) =
                 (l \<in> set (feature_transform m) \<or> l \<in> set (feature_residue m)))
          \<and> (\<forall>n k. (constant_init n k \<in> set calls) =
                 (k = 1 \<and> (data_bn m = Some n \<or> data_bn_feature m = Some n
                   \<or> (\<exists>b\<in>set (st_gcn_networks m).
                        BatchNorm2d n \<in> set (tcn b)
                        \<or> (\<exists>ls. residual b = Projection ls \<and> BatchNorm2d n \<in> set ls)))))
          \<and> (\<forall>p st. load_checkpoint p st \<notin> set calls)"
    by blast
qed


lemma GLBGCNBlock_init_fields:
  assumes "GLBGCNBlock_init w cin cout ks s p r = Inr b"
  shows "gcn b = ConvTemporalGraphical_init (w GcnConv) cin cout (ks ! 1) 1 1 0 1"
    and "tcn b = [BatchNorm2d (BatchNorm_init (w TcnBn1) cout), ReLU,
                  Conv \<lparr>conv_in = cout, conv_out = cout, conv_kernel = (ks ! 0, 1),
                        conv_stride = (s, 1), conv_padding = ((ks ! 0 - 1) div 2, 0),
                        conv_dilation = (1, 1), conv_fn = w TcnConv\<rparr>,
                  BatchNorm2d (BatchNorm_init (w TcnBn2) cout),
                  Drop \<lparr>drop_p = p, drop_fn = w TcnDrop\<rparr>]"
    and "residual b =
           (if \<not> r then Zero
            else if cin = cout \<and> s = 1 then Identity
            else Projection
              [Conv \<lparr>conv_in = cin, conv_out = cout, conv_kernel = (1, 1),
                     conv_stride = (s, 1), conv_padding = (0, 0), conv_dilation = (1, 1),
                     conv_fn = w ResConv\<rparr>,
               BatchNorm2d (BatchNorm_init (w ResBn) cout)])"
    and "length ks = 2" and "ks ! 0 mod 2 = 1" and "0 \<le> p" and "p \<le> 1"
  using assms by (auto simp: GLBGCNBlock_init_def Let_def split: if_splits)

lemma GLBGCNBlock_init_ok:
  "0 \<le> p \<Longrightarrow> p \<le> 1 \<Longrightarrow> \<exists>b. GLBGCNBlock_init w cin cout [9, k] s p r = Inr b"
  by (simp add: GLBGCNBlock_init_def Let_def)

lemma GLBGCN_init_blocks:
  assumes "GLBGCN_init w cin A eiw dbn pre red kw = Inr m"
  shows "\<exists>b0 b1 b2 b3 b4 b5 b6 b7 b8 b9 p.
      st_gcn_networks m = [b0, b1, b2, b3, b4, b5, b6, b7, b8, b9]
      \<and> p = (case kw of None \<Rightarrow> 0 | Some q \<Rightarrow> q)
      \<and> GLBGCNBlock_init (\<lambda>q. w (Block 0 q)) cin 64 [9, shape A ! 0] 1 0 False = Inr b0
      \<and> GLBGCNBlock_init (\<lambda>q. w (Block 1 q)) 64 64 [9, shape A ! 0] 1 p True = Inr b1
      \<and> GLBGCNBlock_init (\<lambda>q. w (Block 2 q)) 64 64 [9, shape A ! 0] 1 p True = Inr b2
      \<and> GLBGCNBlock_init (\<lambda>q. w (Block 3 q)) 64 64 [9, shape A ! 0] 1 p True = Inr b3
      \<and> GLBGCNBlock_init (\<lambda>q. w (Block 4 q)) 64 128 [9, shape A ! 0] 2 p True = Inr b4
      \<and> GLBGCNBlock_init (\<lambda>q. w (Block 5 q)) 128 128 [9, shape A ! 0] 1 p True = Inr b5
      \<and> GLBGCNBlock_init (\<lambda>q. w (Block 6 q)) 128 128 [9, shape A ! 0] 1 p True = Inr b6
      \<and> GLBGCNBlock_init (\<lambda>q. w (Block 7 q)) 128 256 [9, shape A ! 0] 2 p True = Inr b7
      \<and> GLBGCNBlock_init (\<lambda>q. w (Block 8 q)) 256 256 [9, shape A ! 0] 1 p True = Inr b8
      \<and> GLBGCNBlock_init (\<lambda>q. w (Block 9 q)) 256 256 [9, shape A ! 0] 1 p True = Inr b9"
  using assms
  by (auto simp: GLBGCN_init_def Let_def bindE_eq_Inr split: if_splits)

lemma GLBGCN_init_fields:
  assumes "GLBGCN_init w cin A eiw dbn pre red kw = Inr m"
  shows "graph_A m = mk_tensor (shape A) (elem A)"
    and "in_channel m = cin"
    and "reduction m = red"
    and "red = ''avg'' \<or> red = ''max''"
    and "shape A \<noteq> []"
    and "dbn \<Longrightarrow> 0 < shape A ! 1"
    and "data_bn m = (if dbn then Some (BatchNorm_init (w DataBn) (cin * (shape A ! 1 - 1)))
                      else None)"
    and "data_bn_feature m =
           (if dbn then Some (BatchNorm_init (w DataBnFeature) (32 * (shape A ! 1 - 1)))
            else None)"
    and "feature_transform m =
                  [Linear_init (w (Transform 0)) 32 cin,
                   Linear_init (w (Transform 1)) 64 64,
                   Linear_init (w (Transform 2)) 64 64,
                   Linear_init (w (Transform 3)) 64 64,
                   Linear_init (w (Transform 4)) 64 64,
                   Linear_init (w (Transform 5)) 128 128,
                   Linear_init (w (Transform 6)) 128 128,
                   Linear_init (w (Transform 7)) 128 128,
                   Linear_init (w (Transform 8)) 256 256,
                   Linear_init (w (Transform 9)) 256 256]"
    and "feature_residue m =
                  [Linear_init (w (Residue 0)) 32 cin,
                   Linear_init (w (Residue 1)) 32 64,
                   Linear_init (w (Residue 2)) 32 64,
                   Linear_init (w (Residue 3)) 32 64]"
    and "edge_importance m =
           map (\<lambda>b. if eiw then PyTensor (ones (shape A)) else PyInt 1) (st_gcn_networks m)"
    and "pretrained m = pre"
  using assms
  by (auto simp: GLBGCN_init_def Let_def bindE_eq_Inr split: if_splits)

lemma GLBGCN_init_ok:
  assumes "red = ''avg'' \<or> red = ''max''" "2 \<le> length (shape A)"
    "dbn \<longrightarrow> 0 < shape A ! 1" "case kw of None \<Rightarrow> True | Some p \<Rightarrow> 0 \<le> p \<and> p \<le> 1"
  shows "\<exists>m. GLBGCN_init w cin A eiw dbn pre red kw = Inr m"
  using assms
  by (auto simp: GLBGCN_init_def Let_def GLBGCNBlock_init_def split: option.splits)


text \<open>
  C8. \<^verbatim>\<open>init_weights\<close> raises the type error exactly when \<^verbatim>\<open>pretrained\<close> is neither a
  string nor \<^verbatim>\<open>None\<close>. For a string it logs and calls the checkpoint loader with
  \<^verbatim>\<open>strict=False\<close>. For \<^verbatim>\<open>None\<close> it calls \<^verbatim>\<open>kaiming_init\<close> on exactly the convolutions of
  the blocks, \<^verbatim>\<open>normal_init\<close> on exactly the linear layers and \<^verbatim>\<open>constant_init\<close> with 1
  on exactly the normalisation layers, and never the checkpoint loader.
\<close>

theorem init_weights_type_error:
  "(init_weights m = Inl TypeError) = (pretrained m \<noteq> PyNone \<and> (\<forall>s. pretrained m \<noteq> PyStr s))
   \<and> (pretrained m = PyStr s \<longrightarrow>
        init_weights m = Inr [logger_info (''load model from: '' @ s), load_checkpoint s False])
   \<and> (pretrained m = PyNone \<longrightarrow>
        (\<exists>calls. init_weights m = Inr calls
          \<and> (\<forall>c. (kaiming_init c \<in> set calls) =
                 (\<exists>b\<in>set (st_gcn_networks m).
                    c = conv (gcn b) \<or> Conv c \<in> set (tcn b)
                    \<or> (\<exists>ls. residual b = Projection ls \<and> Conv c \<in> set ls)))
          \<and> (\<forall>l. (normal_init l \<in> set calls) =
                 (l \<in> set (feature_transform m) \<or> l \<in> set (feature_residue m)))
          \<and> (\<forall>n k. (constant_init n k \<in> set calls) =
                 (k = 1 \<and> (data_bn m = Some n \<or> data_bn_feature m = Some n
                   \<or> (\<exists>b\<in>set (st_gcn_networks m).
                        BatchNorm2d n \<in> set (tcn b)
                        \<or> (\<exists>ls. residual b = Projection ls \<and> BatchNorm2d n \<in> set ls)))))
          \<and> (\<forall>p st. load_checkpoint p st \<notin> set calls)))"
  by (rule init_weights_calls)

theorem init_weights_type_error_witness:
  "\<exists>m. GLBGCN_init (\<lambda>p x i. 0) 3 (mk_tensor [3, 2, 2] (\<lambda>i. 1)) True True (PyInt 7) ''avg'' None
         = Inr m
       \<and> init_weights m = Inl TypeError
       \<and> init_weights (m\<lparr>pretrained := PyStr ''ckpt.pth''\<rparr>)
           = Inr [logger_info ''load model from: ckpt.pth'', load_checkpoint ''ckpt.pth'' False]
       \<and> (\<exists>calls. init_weights (m\<lparr>pretrained := PyNone\<rparr>) = Inr calls
             \<and> normal_init (Linear_init (\<lambda>x i. 0) 32 3) \<in> set calls)"
proof -
  have "\<exists>m. GLBGCN_init (\<lambda>p x i. 0) 3 (mk_tensor [3, 2, 2] (\<lambda>i. 1)) True True
                       (PyInt 7) ''avg'' None = Inr m"
    by (rule GLBGCN_init_ok) simp_all
  then obtain m where m: "GLBGCN_init (\<lambda>p x i. 0) 3 (mk_tensor [3, 2, 2] (\<lambda>i. 1)) True True
                       (PyInt 7) ''avg'' None = Inr m"
    by blast
  have p: "pretrained m = PyInt 7"
    by (rule GLBGCN_init_fields(12)[OF m])
  have 1: "init_weights m = Inl TypeError"
    using init_weights_type_error[of m] p by simp
  have 2: "init_weights (m\<lparr>pretrained := PyStr ''ckpt.pth''\<rparr>)
           = Inr [logger_info ''load model from: ckpt.pth'', load_checkpoint ''ckpt.pth'' False]"
    using init_weights_type_error[of "m\<lparr>pretrained := PyStr ''ckpt.pth''\<rparr>" "''ckpt.pth''"]
    by simp
  have r: "Linear_init (\<lambda>x i. 0) 32 3 \<in> set (feature_residue (m\<lparr>pretrained := PyNone\<rparr>))"
    by (simp add: GLBGCN_init_fields(10)[OF m])
  have 3: "\<exists>calls. init_weights (m\<lparr>pretrained := PyNone\<rparr>) = Inr calls
             \<and> normal_init (Linear_init (\<lambda>x i. 0) 32 3) \<in> set calls"
    using init_weights_type_error[of "m\<lparr>pretrained := PyNone\<rparr>"] r
    by auto
  from m 1 2 3 show ?thesis by blast
qed

lemma valid_index_length: "valid_index s i \<Longrightarrow> length i = length s"
  by (simp add: valid_index_def list_all2_lengthD)

lemma mk_tensor_cong:
  "(\<And>i. valid_index s i \<Longrightarrow> f i = g i) \<Longrightarrow> mk_tensor s f = mk_tensor s g"
  by (auto simp: mk_tensor_def)

lemma mk_tensor_idem [simp]: "mk_tensor s (elem (mk_tensor s f)) = mk_tensor s f"
  by (auto simp: mk_tensor_def)

lemma broadcast_rev_same: "broadcast_rev xs xs = Some xs"
  by (induction xs) simp_all

lemma broadcast_same: "broadcast s s = Some s"
  by (simp add: broadcast_def broadcast_rev_same)

lemma bindex_valid: "valid_index s i \<Longrightarrow> bindex s i = i"
proof -
  assume "valid_index s i"
  then have "list_all2 (<) i s" by (simp add: valid_index_def)
  then have "map (\<lambda>(d, j). bidx d j) (zip s i) = i"
    by (induction rule: list_all2_induct) (simp_all add: bidx_def)
  moreover have "length i = length s"
    using \<open>list_all2 (<) i s\<close> by (rule list_all2_lengthD)
  ultimately show ?thesis by (simp add: bindex_def)
qed

lemma tensor_mul_one: "tensor_mul a (PyInt 1) = Inr (mk_tensor (shape a) (elem a))"
  by simp

lemma tensor_mul_ones:
  "tensor_mul a (PyTensor (ones (shape a))) = Inr (mk_tensor (shape a) (elem a))"
proof -
  have "mk_tensor (shape a)
          (\<lambda>i. elem a (bindex (shape a) i) * elem (ones (shape a)) (bindex (shape a) i))
        = mk_tensor (shape a) (elem a)"
    by (rule mk_tensor_cong) (simp add: bindex_valid ones_def elem_mk_tensor)
  then show ?thesis
    by (simp add: elementwise_def ones_def broadcast_same)
qed

lemma stage_cong:
  assumes "graph_A m1 = graph_A m2" "feature_residue m1 = feature_residue m2"
    "tensor_mul (graph_A m2) imp1 = tensor_mul (graph_A m2) imp2"
  shows "stage m1 c (g, imp1, fc) st = stage m2 c (g, imp2, fc) st"
  unfolding stage_def assms(1) assms(2) using assms(3) by (cases st) simp

lemma stages_importance:
  assumes "graph_A m1 = graph_A m2" "feature_residue m1 = feature_residue m2"
    "tensor_mul (graph_A m2) imp1 = tensor_mul (graph_A m2) imp2"
  shows "stages m1 c (zip bs (zip (map (\<lambda>b. imp1) bs) fts)) st
       = stages m2 c (zip bs (zip (map (\<lambda>b. imp2) bs) fts)) st"
proof (induction bs arbitrary: fts st)
  case Nil
  then show ?case by simp
next
  case (Cons b bs)
  show ?case
  proof (cases fts)
    case Nil
    then show ?thesis by simp
  next
    case (Cons f fs)
    have "stage m1 c (b, imp1, f) st = stage m2 c (b, imp2, f) st"
      using assms by (rule stage_cong)
    then show ?thesis
      using Cons.IH[of fs] Cons
      by (cases "stage m2 c (b, imp2, f) st") simp_all
  qed
qed


lemma init_same_blocks:
  assumes "GLBGCN_init w cin A e1 dbn pre red kw = Inr m1"
    and "GLBGCN_init w cin A e2 dbn pre red kw = Inr m2"
  shows "st_gcn_networks m1 = st_gcn_networks m2"
  using GLBGCN_init_blocks[OF assms(1)] GLBGCN_init_blocks[OF assms(2)] by auto

lemma edge_importance_identity:
  assumes m1: "GLBGCN_init w cin A False dbn pre red kw = Inr m1"
    and m2: "GLBGCN_init w cin A True dbn pre red kw = Inr m2"
  shows "GLBGCN_forward m1 x = GLBGCN_forward m2 x
     \<and> edge_importance m1 = replicate 10 (PyInt 1)
     \<and> edge_importance m2 = replicate 10 (PyTensor (ones (shape (graph_A m2))))
     \<and> tensor_mul (graph_A m1) (PyInt 1) = Inr (graph_A m1)
     \<and> tensor_mul (graph_A m2) (PyTensor (ones (shape (graph_A m2)))) = Inr (graph_A m2)"
proof -
  note f1 = GLBGCN_init_fields[OF m1] and f2 = GLBGCN_init_fields[OF m2]
  have b: "st_gcn_networks m1 = st_gcn_networks m2"
    using m1 m2 by (rule init_same_blocks)
  have len: "length (st_gcn_networks m2) = 10"
    using GLBGCN_init_blocks[OF m2] by auto
  have A: "graph_A m1 = graph_A m2" by (simp add: f1(1) f2(1))
  have sA: "shape (graph_A m2) = shape A" by (simp add: f2(1))
  have e1: "edge_importance m1 = map (\<lambda>b. PyInt 1) (st_gcn_networks m2)"
    by (simp add: f1(11) b)
  have e2: "edge_importance m2 = map (\<lambda>b. PyTensor (ones (shape (graph_A m2)))) (st_gcn_networks m2)"
    by (simp add: f2(11) sA)
  have t1: "tensor_mul (graph_A m2) (PyInt 1) = Inr (graph_A m2)"
    by (simp add: f2(1))
  have t2: "tensor_mul (graph_A m2) (PyTensor (ones (shape (graph_A m2)))) = Inr (graph_A m2)"
    unfolding tensor_mul_ones by (simp add: f2(1))
  have S: "stages m1 c (zip (st_gcn_networks m1) (zip (edge_importance m1) (feature_transform m1))) st
      = stages m2 c (zip (st_gcn_networks m2) (zip (edge_importance m2) (feature_transform m2))) st"
    for c st
    unfolding b e1 e2 f1(9) f2(9)
    by (rule stages_importance) (simp_all add: A f1(10) f2(10) t1 t2 del: tensor_mul.simps)
  have F: "in_channel m1 = in_channel m2" "data_bn_feature m1 = data_bn_feature m2"
    "reduction m1 = reduction m2" "data_bn m1 = data_bn m2"
    by (simp_all add: f1 f2)
  have "GLBGCN_forward m1 x = GLBGCN_forward m2 x"
    unfolding GLBGCN_forward_def S F ..
  moreover have "map (\<lambda>b. v) (st_gcn_networks m2) = replicate 10 v" for v :: pyval
    using len by (simp add: map_replicate_const)
  ultimately show ?thesis
    using t1 t2 by (simp add: e1 e2 A)
qed

text \<open>
  C4. A backbone built without edge importance weighting and one built with it, whose
  weights are the all-ones tensors the constructor creates, return the same result on
  every input: the product of the adjacency tensor with the number 1 and with the
  all-ones tensor of its size are both the adjacency tensor.
\<close>

theorem GLBGCN_edge_importance_identity:
  assumes "GLBGCN_init w cin A False dbn pre red kw = Inr m1"
    and "GLBGCN_init w cin A True dbn pre red kw = Inr m2"
  shows "GLBGCN_forward m1 x = GLBGCN_forward m2 x
     \<and> edge_importance m1 = replicate 10 (PyInt 1)
     \<and> edge_importance m2 = replicate 10 (PyTensor (ones (shape (graph_A m2))))
     \<and> tensor_mul (graph_A m1) (PyInt 1) = Inr (graph_A m1)
     \<and> tensor_mul (graph_A m2) (PyTensor (ones (shape (graph_A m2)))) = Inr (graph_A m2)"
  using assms by (rule edge_importance_identity)


lemma stage_residue_applied:
  assumes "stage m c z (i, st) = Inr r" "i < length (feature_residue m)"
  shows "\<exists>y. Linear_forward (feature_residue m ! i) c = Inr y"
proof -
  obtain g imp fc where z: "z = (g, imp, fc)" by (cases z) auto
  obtain x p f where st: "st = (x, p, f)" by (cases st) auto
  show ?thesis
    using assms unfolding z st stage_def
    by (auto simp: bindE_eq_Inr split: if_splits)
qed









lemma permute_ok:
  "length p = length (shape x) \<Longrightarrow> distinct p \<Longrightarrow> list_all (\<lambda>d. d < length p) p
     \<Longrightarrow> \<exists>y. permute p x = Inr y \<and> shape y = map (\<lambda>d. shape x ! d) p"
  by (simp add: permute_def)

lemma permute_inv:
  "permute p x = Inr y \<Longrightarrow> length p = length (shape x) \<and> shape y = map (\<lambda>d. shape x ! d) p"
  by (auto simp: permute_def split: if_splits)

lemma view_ok:
  "prod_list s = prod_list (shape x) \<Longrightarrow> \<exists>y. view s x = Inr y \<and> shape y = s"
  by (simp add: view_def)

lemma view_inv:
  "view s x = Inr y \<Longrightarrow> prod_list s = prod_list (shape x) \<and> shape y = s"
  by (auto simp: view_def split: if_splits)

lemma slice_dim_ok:
  "k < length (shape x) \<Longrightarrow>
     \<exists>y. slice_dim k a b x = Inr y
       \<and> shape y = (shape x)[k := (case b of None \<Rightarrow> shape x ! k | Some j \<Rightarrow> slice_bound (shape x ! k) j)
                                  - slice_bound (shape x ! k) a]"
  by (simp add: slice_dim_def Let_def)

lemma slice_dim_inv:
  "slice_dim k a b x = Inr y \<Longrightarrow>
     k < length (shape x)
       \<and> shape y = (shape x)[k := (case b of None \<Rightarrow> shape x ! k | Some j \<Rightarrow> slice_bound (shape x ! k) j)
                                  - slice_bound (shape x ! k) a]"
  by (auto simp: slice_dim_def Let_def split: if_splits)

lemma select_last_ok:
  "k < length (shape x) \<Longrightarrow> 0 < shape x ! k \<Longrightarrow>
     \<exists>y. select k (- 1) x = Inr y \<and> shape y = take k (shape x) @ drop (Suc k) (shape x)"
  by (simp add: select_def Let_def)

lemma select_inv:
  "select k j x = Inr y \<Longrightarrow>
     k < length (shape x) \<and> shape y = take k (shape x) @ drop (Suc k) (shape x)"
  by (auto simp: select_def Let_def split: if_splits)

lemma unsqueeze_ok:
  "k \<le> length (shape x) \<Longrightarrow>
     \<exists>y. unsqueeze k x = Inr y \<and> shape y = take k (shape x) @ [1] @ drop k (shape x)"
  by (simp add: unsqueeze_def)

lemma unsqueeze_inv:
  "unsqueeze k x = Inr y \<Longrightarrow>
     k \<le> length (shape x) \<and> shape y = take k (shape x) @ [1] @ drop k (shape x)"
  by (auto simp: unsqueeze_def split: if_splits)

lemma mean_dim_ok:
  "k < length (shape x) \<Longrightarrow> \<exists>y. mean_dim k x = Inr y \<and> shape y = (shape x)[k := 1]"
  by (simp add: mean_dim_def Let_def)

lemma mean_dim_inv:
  "mean_dim k x = Inr y \<Longrightarrow> k < length (shape x) \<and> shape y = (shape x)[k := 1]"
  by (auto simp: mean_dim_def Let_def split: if_splits)

lemma amax_dim_ok:
  "k < length (shape x) \<Longrightarrow> 0 < shape x ! k
     \<Longrightarrow> \<exists>y. amax_dim k x = Inr y \<and> shape y = (shape x)[k := 1]"
  by (simp add: amax_dim_def Let_def)

lemma amax_dim_inv:
  "amax_dim k x = Inr y \<Longrightarrow> k < length (shape x) \<and> shape y = (shape x)[k := 1]"
  by (auto simp: amax_dim_def Let_def split: if_splits)

lemma cat_ok:
  "k < length (shape x) \<Longrightarrow> (shape x)[k := 0] = (shape y)[k := 0]
     \<Longrightarrow> \<exists>z. cat k x y = Inr z \<and> shape z = (shape x)[k := shape x ! k + shape y ! k]"
  by (simp add: cat_def)

lemma cat_inv:
  "cat k x y = Inr z \<Longrightarrow>
     k < length (shape x) \<and> (shape x)[k := 0] = (shape y)[k := 0]
       \<and> shape z = (shape x)[k := shape x ! k + shape y ! k]"
  by (auto simp: cat_def split: if_splits)

lemma Linear_forward_ok:
  "shape x \<noteq> [] \<Longrightarrow> last (shape x) = in_features l
     \<Longrightarrow> \<exists>y. Linear_forward l x = Inr y \<and> shape y = butlast (shape x) @ [out_features l]"
  by (simp add: Linear_forward_def)

lemma Linear_forward_inv:
  "Linear_forward l x = Inr y \<Longrightarrow>
     shape x \<noteq> [] \<and> last (shape x) = in_features l
       \<and> shape y = butlast (shape x) @ [out_features l]"
  by (auto simp: Linear_forward_def split: if_splits)

lemma batch_norm_ok:
  "shape x ! 1 = num_features b \<Longrightarrow> 0 < num_features b \<Longrightarrow>
   \<not> (bn_training b \<and> hd (shape x) * prod_list (drop 2 (shape x)) = 1)
     \<Longrightarrow> \<exists>y. batch_norm b x = Inr y \<and> shape y = shape x"
  by (auto simp: batch_norm_def)

lemma batch_norm_empty_ok:
  "prod_list (shape x) = 0 \<Longrightarrow> 0 < num_features b \<Longrightarrow>
   \<not> (bn_training b \<and> hd (shape x) * prod_list (drop 2 (shape x)) = 1)
     \<Longrightarrow> \<exists>y. batch_norm b x = Inr y \<and> shape y = shape x"
  by (auto simp: batch_norm_def)

lemma batch_norm_inv:
  "batch_norm b x = Inr y \<Longrightarrow>
     shape y = shape x
     \<and> (prod_list (shape x) \<noteq> 0 \<longrightarrow> shape x ! 1 = num_features b)"
  by (auto simp: batch_norm_def split: if_splits)

lemma elementwise_same_ok:
  "shape x = shape y \<Longrightarrow> \<exists>z. elementwise f x y = Inr z \<and> shape z = shape x"
  by (simp add: elementwise_def broadcast_same)

lemma tensor_iadd_same_ok:
  "shape x = shape y \<Longrightarrow> \<exists>z. tensor_iadd x y = Inr z \<and> shape z = shape x"
  by (simp add: tensor_iadd_def elementwise_def broadcast_same)

lemma tensor_iadd_inv:
  "tensor_iadd x y = Inr z \<Longrightarrow> shape z = shape x"
  by (auto simp: tensor_iadd_def elementwise_def split: if_splits)

lemma shape_relu [simp]: "shape (relu x) = shape x"
  by (simp add: relu_def)

lemma shape_ones [simp]: "shape (ones s) = s"
  by (simp add: ones_def)

lemma bindE_Sequential_nil: "bindE r (Sequential_forward []) = r"
  by (cases r) simp_all

lemma tcn_forward_Inr:
  "(Sequential_forward [BatchNorm2d b1, ReLU, Conv cv, BatchNorm2d b2, Drop d] g = Inr y) =
     (\<exists>y1 y2 y3. BatchNorm2d_forward b1 g = Inr y1
        \<and> Conv2d_forward cv (relu y1) = Inr y2
        \<and> BatchNorm2d_forward b2 y2 = Inr y3
        \<and> Dropout_forward d y3 = Inr y)"
  by (auto simp: bindE_eq_Inr)

lemma tensor_add_elem:
  "tensor_add y (PyInt n) = Inr sm \<Longrightarrow>
     shape sm = shape y \<and> (\<forall>i. valid_index (shape y) i \<longrightarrow> elem sm i = elem y i + real_of_int n)"
  "shape z = shape y \<Longrightarrow> tensor_add y (PyTensor z) = Inr sm \<Longrightarrow>
     shape sm = shape y \<and> (\<forall>i. valid_index (shape y) i \<longrightarrow> elem sm i = elem y i + elem z i)"
  by (auto simp: elementwise_def broadcast_same elem_mk_tensor bindex_valid)

lemma relu_elem: "valid_index (shape sm) i \<Longrightarrow> elem (relu sm) i = max 0 (elem sm i)"
  by (simp add: relu_def elem_mk_tensor)

lemma block_residual_forward:
  assumes "GLBGCNBlock_init w in_channels out_channels ks stride' dropout res = Inr b"
  shows "residual b =
       (if \<not> res then Zero
        else if in_channels = out_channels \<and> stride' = 1 then Identity
        else Projection
            [Conv \<lparr>conv_in = in_channels, conv_out = out_channels, conv_kernel = (1, 1),
                   conv_stride = (stride', 1), conv_padding = (0, 0), conv_dilation = (1, 1),
                   conv_fn = w ResConv\<rparr>,
             BatchNorm2d (BatchNorm_init (w ResBn) out_channels)])
     \<and> residual_apply (residual b) x =
       (if \<not> res then Inr (PyInt 0)
        else if in_channels = out_channels \<and> stride' = 1 then Inr (PyTensor x)
        else bindE (Conv2d_forward
                     \<lparr>conv_in = in_channels, conv_out = out_channels, conv_kernel = (1, 1),
                      conv_stride = (stride', 1), conv_padding = (0, 0), conv_dilation = (1, 1),
                      conv_fn = w ResConv\<rparr> x) (\<lambda>y.
             bindE (BatchNorm2d_forward (BatchNorm_init (w ResBn) out_channels) y) (\<lambda>z.
             Inr (PyTensor z))))
     \<and> (\<forall>out a'. (GLBGCNBlock_forward b x a = Inr (out, a')) =
          (a' = a \<and> (\<exists>r g y1 y2 y3 y4 sm.
             residual_apply (residual b) x = Inr r
             \<and> ConvTemporalGraphical_forward
                 (ConvTemporalGraphical_init (w GcnConv) in_channels out_channels (ks ! 1) 1 1 0 1)
                 x a = Inr (g, a)
             \<and> BatchNorm2d_forward (BatchNorm_init (w TcnBn1) out_channels) g = Inr y1
             \<and> Conv2d_forward
                 \<lparr>conv_in = out_channels, conv_out = out_channels, conv_kernel = (ks ! 0, 1),
                  conv_stride = (stride', 1), conv_padding = ((ks ! 0 - 1) div 2, 0),
                  conv_dilation = (1, 1), conv_fn = w TcnConv\<rparr> (relu y1) = Inr y2
             \<and> BatchNorm2d_forward (BatchNorm_init (w TcnBn2) out_channels) y2 = Inr y3
             \<and> Dropout_forward \<lparr>drop_p = dropout, drop_fn = w TcnDrop\<rparr> y3 = Inr y4
             \<and> tensor_add y4 r = Inr sm
             \<and> out = relu sm)))
     \<and> (\<forall>y n sm. tensor_add y (PyInt n) = Inr sm \<longrightarrow>
          shape sm = shape y
          \<and> (\<forall>i. valid_index (shape y) i \<longrightarrow> elem sm i = elem y i + real_of_int n))
     \<and> (\<forall>y z sm. shape z = shape y \<and> tensor_add y (PyTensor z) = Inr sm \<longrightarrow>
          shape sm = shape y
          \<and> (\<forall>i. valid_index (shape y) i \<longrightarrow> elem sm i = elem y i + elem z i))
     \<and> (\<forall>sm i. valid_index (shape sm) i \<longrightarrow> elem (relu sm) i = max 0 (elem sm i))"
proof -
  note f = GLBGCNBlock_init_fields[OF assms]
  have 1: "residual_apply (residual b) x =
       (if \<not> res then Inr (PyInt 0)
        else if in_channels = out_channels \<and> stride' = 1 then Inr (PyTensor x)
        else bindE (Conv2d_forward
                     \<lparr>conv_in = in_channels, conv_out = out_channels, conv_kernel = (1, 1),
                      conv_stride = (stride', 1), conv_padding = (0, 0), conv_dilation = (1, 1),
                      conv_fn = w ResConv\<rparr> x) (\<lambda>y.
             bindE (BatchNorm2d_forward (BatchNorm_init (w ResBn) out_channels) y) (\<lambda>z.
             Inr (PyTensor z))))"
    unfolding f(3)
    by (cases "Conv2d_forward
                     \<lparr>conv_in = in_channels, conv_out = out_channels, conv_kernel = (1, 1),
                      conv_stride = (stride', 1), conv_padding = (0, 0), conv_dilation = (1, 1),
                      conv_fn = w ResConv\<rparr> x")
      (simp_all add: zero_fn_def identity_def bindE_Sequential_nil)
  have 2: "(GLBGCNBlock_forward b x a = Inr (out, a')) =
          (a' = a \<and> (\<exists>r g y1 y2 y3 y4 sm.
             residual_apply (residual b) x = Inr r
             \<and> ConvTemporalGraphical_forward
                 (ConvTemporalGraphical_init (w GcnConv) in_channels out_channels (ks ! 1) 1 1 0 1)
                 x a = Inr (g, a)
             \<and> BatchNorm2d_forward (BatchNorm_init (w TcnBn1) out_channels) g = Inr y1
             \<and> Conv2d_forward
                 \<lparr>conv_in = out_channels, conv_out = out_channels, conv_kernel = (ks ! 0, 1),
                  conv_stride = (stride', 1), conv_padding = ((ks ! 0 - 1) div 2, 0),
                  conv_dilation = (1, 1), conv_fn = w TcnConv\<rparr> (relu y1) = Inr y2
             \<and> BatchNorm2d_forward (BatchNorm_init (w TcnBn2) out_channels) y2 = Inr y3
             \<and> Dropout_forward \<lparr>drop_p = dropout, drop_fn = w TcnDrop\<rparr> y3 = Inr y4
             \<and> tensor_add y4 r = Inr sm
             \<and> out = relu sm))" for out a'
    unfolding GLBGCNBlock_forward_Inr f(1) f(2) tcn_forward_Inr by auto
  have 3: "\<forall>y n sm. tensor_add y (PyInt n) = Inr sm \<longrightarrow>
          shape sm = shape y
          \<and> (\<forall>i. valid_index (shape y) i \<longrightarrow> elem sm i = elem y i + real_of_int n)"
    using tensor_add_elem(1) by blast
  have 4: "\<forall>y z sm. shape z = shape y \<and> tensor_add y (PyTensor z) = Inr sm \<longrightarrow>
          shape sm = shape y
          \<and> (\<forall>i. valid_index (shape y) i \<longrightarrow> elem sm i = elem y i + elem z i)"
    using tensor_add_elem(2) by blast
  have 5: "\<forall>sm i. valid_index (shape sm) i \<longrightarrow> elem (relu sm) i = max 0 (elem sm i)"
    using relu_elem by blast
  show ?thesis
    by (intro conjI; (rule f(3) 1 3 4 5 | (intro allI, rule 2)))
qed

text \<open>
  C5. The constructor of a block chooses the residual branch by three exclusive cases:
  the function \<^verbatim>\<open>zero\<close> without \<^verbatim>\<open>residual\<close>, the function \<^verbatim>\<open>identity\<close> for equal
  channel counts and stride 1, and otherwise a convolution of kernel size 1 followed by a
  normalisation; on an input \<open>x\<close> the branch returns the number 0, \<open>x\<close> itself, or the
  normalised convolution of \<open>x\<close>. The forward computation returns \<open>(out, a')\<close> exactly
  when \<open>a'\<close> is the adjacency tensor it was given, the graph convolution returns \<open>g\<close>,
  the temporal pipeline (normalisation, rectifier, temporal convolution, normalisation and
  dropout, in this order) returns \<open>y4\<close> on \<open>g\<close>, and \<open>out\<close> is the rectifier of the sum of
  \<open>y4\<close> and the value of the residual branch. The sum with the number 0 leaves every
  element, the sum with a tensor of the same size adds elementwise, and the rectifier is
  the maximum with 0 at every element.
\<close>

theorem GLBGCNBlock_residual_forward:
  assumes "GLBGCNBlock_init w in_channels out_channels ks stride' dropout res = Inr b"
  shows "residual b =
       (if \<not> res then Zero
        else if in_channels = out_channels \<and> stride' = 1 then Identity
        else Projection
            [Conv \<lparr>conv_in = in_channels, conv_out = out_channels, conv_kernel = (1, 1),
                   conv_stride = (stride', 1), conv_padding = (0, 0), conv_dilation = (1, 1),
                   conv_fn = w ResConv\<rparr>,
             BatchNorm2d (BatchNorm_init (w ResBn) out_channels)])
     \<and> residual_apply (residual b) x =
       (if \<not> res then Inr (PyInt 0)
        else if in_channels = out_channels \<and> stride' = 1 then Inr (PyTensor x)
        else bindE (Conv2d_forward
                     \<lparr>conv_in = in_channels, conv_out = out_channels, conv_kernel = (1, 1),
                      conv_stride = (stride', 1), conv_padding = (0, 0), conv_dilation = (1, 1),
                      conv_fn = w ResConv\<rparr> x) (\<lambda>y.
             bindE (BatchNorm2d_forward (BatchNorm_init (w ResBn) out_channels) y) (\<lambda>z.
             Inr (PyTensor z))))
     \<and> (\<forall>out a'. (GLBGCNBlock_forward b x a = Inr (out, a')) =
          (a' = a \<and> (\<exists>r g y1 y2 y3 y4 sm.
             residual_apply (residual b) x = Inr r
             \<and> ConvTemporalGraphical_forward
                 (ConvTemporalGraphical_init (w GcnConv) in_channels out_channels (ks ! 1) 1 1 0 1)
                 x a = Inr (g, a)
             \<and> BatchNorm2d_forward (BatchNorm_init (w TcnBn1) out_channels) g = Inr y1
             \<and> Conv2d_forward
                 \<lparr>conv_in = out_channels, conv_out = out_channels, conv_kernel = (ks ! 0, 1),
                  conv_stride = (stride', 1), conv_padding = ((ks ! 0 - 1) div 2, 0),
                  conv_dilation = (1, 1), conv_fn = w TcnConv\<rparr> (relu y1) = Inr y2
             \<and> BatchNorm2d_forward (BatchNorm_init (w TcnBn2) out_channels) y2 = Inr y3
             \<and> Dropout_forward \<lparr>drop_p = dropout, drop_fn = w TcnDrop\<rparr> y3 = Inr y4
             \<and> tensor_add y4 r = Inr sm
             \<and> out = relu sm)))
     \<and> (\<forall>y n sm. tensor_add y (PyInt n) = Inr sm \<longrightarrow>
          shape sm = shape y
          \<and> (\<forall>i. valid_index (shape y) i \<longrightarrow> elem sm i = elem y i + real_of_int n))
     \<and> (\<forall>y z sm. shape z = shape y \<and> tensor_add y (PyTensor z) = Inr sm \<longrightarrow>
          shape sm = shape y
          \<and> (\<forall>i. valid_index (shape y) i \<longrightarrow> elem sm i = elem y i + elem z i))
     \<and> (\<forall>sm i. valid_index (shape sm) i \<longrightarrow> elem (relu sm) i = max 0 (elem sm i))"
  using assms by (rule block_residual_forward)

theorem GLBGCNBlock_residual_forward_witness:
  "\<exists>b b0 b1 out.
      GLBGCNBlock_init
        (\<lambda>p x i. case p of GcnConv \<Rightarrow> elem x i | TcnBn1 \<Rightarrow> elem x i - 3
           | TcnConv \<Rightarrow> 2 * elem x i | TcnBn2 \<Rightarrow> elem x i + 1 | TcnDrop \<Rightarrow> elem x i
           | ResConv \<Rightarrow> 10 * elem x i | ResBn \<Rightarrow> elem x i - 20)
        1 1 [1, 1] 2 0 True = Inr b
      \<and> (\<exists>c n. residual b = Projection [Conv c, BatchNorm2d n])
      \<and> GLBGCNBlock_forward b (mk_tensor [1, 1, 1, 2] (\<lambda>i. if i ! 3 = 0 then 1 else 4))
            (mk_tensor [1, 2, 2] (\<lambda>i. if i ! 1 = i ! 2 then 1 else 0))
          = Inr (out, mk_tensor [1, 2, 2] (\<lambda>i. if i ! 1 = i ! 2 then 1 else 0))
      \<and> shape out = [1, 1, 1, 2] \<and> elem out [0, 0, 0, 0] = 0 \<and> elem out [0, 0, 0, 1] = 23
      \<and> GLBGCNBlock_init (\<lambda>p x i. 0) 1 1 [1, 1] 1 0 False = Inr b0 \<and> residual b0 = Zero
      \<and> GLBGCNBlock_init (\<lambda>p x i. 0) 1 1 [1, 1] 1 0 True = Inr b1 \<and> residual b1 = Identity"
proof -
  let ?W = "\<lambda>p (x::tensor) (i::nat list). case p of GcnConv \<Rightarrow> elem x i | TcnBn1 \<Rightarrow> elem x i - 3
           | TcnConv \<Rightarrow> 2 * elem x i | TcnBn2 \<Rightarrow> elem x i + 1 | TcnDrop \<Rightarrow> elem x i
           | ResConv \<Rightarrow> 10 * elem x i | ResBn \<Rightarrow> elem x i - 20"
  let ?x = "mk_tensor [1, 1, 1, 2] (\<lambda>i. if i ! 3 = 0 then 1 else 4)"
  let ?a = "mk_tensor [1, 2, 2] (\<lambda>i. if i ! 1 = i ! 2 then 1 else 0)"
  let ?m = "ConvTemporalGraphical_init (?W GcnConv) 1 1 ([1, 1] ! 1) 1 1 0 1"
  obtain b where b: "GLBGCNBlock_init ?W 1 1 [1, 1] 2 0 True = Inr b"
    by (simp add: GLBGCNBlock_init_def)
  obtain b0 where b0: "GLBGCNBlock_init (\<lambda>p x i. 0) 1 1 [1, 1] 1 0 False = Inr b0"
    by (simp add: GLBGCNBlock_init_def)
  obtain b1 where b1: "GLBGCNBlock_init (\<lambda>p x i. 0) 1 1 [1, 1] 1 0 True = Inr b1"
    by (simp add: GLBGCNBlock_init_def)
  note t = GLBGCNBlock_residual_forward[OF b, of ?x ?a]
  note t1 = t[THEN conjunct1]
  note t2 = t[THEN conjunct2, THEN conjunct1]
  note t3 = t[THEN conjunct2, THEN conjunct2, THEN conjunct1]
  note t5 = t[THEN conjunct2, THEN conjunct2, THEN conjunct2, THEN conjunct2, THEN conjunct1]
  note t6 = t[THEN conjunct2, THEN conjunct2, THEN conjunct2, THEN conjunct2, THEN conjunct2]
  from t1 have r: "\<exists>c n. residual b = Projection [Conv c, BatchNorm2d n]" by simp
  from GLBGCNBlock_residual_forward[OF b0, THEN conjunct1] have r0: "residual b0 = Zero" by simp
  from GLBGCNBlock_residual_forward[OF b1, THEN conjunct1] have r1: "residual b1 = Identity" by simp
  have "\<exists>y g. Conv2d_forward (conv ?m) ?x = Inr y \<and> shape y = [1, 1 * 1, 1, 2]
           \<and> ConvTemporalGraphical_forward ?m ?x ?a = Inr (g, ?a)
           \<and> shape g = [1, 1, 1, 2]
           \<and> (\<forall>i<1. \<forall>c<1. \<forall>j<1. \<forall>u<2.
                 elem g [i, c, j, u]
                   = (\<Sum>kk<1. \<Sum>vv<2. elem y [i, kk * 1 + c, j, vv] * elem ?a [kk, vv, u]))"
    by (rule gcn_contraction[where c_in = 1 and t = 1 and t_kernel_size = 1 and t_stride = 1
          and t_padding = 0 and t_dilation = 1]) (simp_all add: conv_len_def)
  then obtain y g where
    y: "Conv2d_forward (conv ?m) ?x = Inr y"
    and g: "ConvTemporalGraphical_forward ?m ?x ?a = Inr (g, ?a)"
    and sg: "shape g = [1, 1, 1, 2]"
    and eg: "\<And>u. u < 2 \<Longrightarrow> elem g [0, 0, 0, u]
              = (\<Sum>kk<1. \<Sum>vv<2. elem y [0, kk * 1 + 0, 0, vv] * elem ?a [kk, vv, u])"
    by auto
  have y': "y = ?x"
    using y
    by (auto simp: Conv2d_forward_4d[of _ 1 1 1 2] ConvTemporalGraphical_init_def conv_len_def
        numeral_2_eq_2)
  have g0: "elem g [0, 0, 0, 0] = 1" and g1: "elem g [0, 0, 0, 1] = 4"
    by (simp_all add: eg y' elem_mk_tensor valid_index_def lessThan_Suc numeral_2_eq_2)
  define y1 where "y1 = mk_tensor [1, 1, 1, 2] (\<lambda>i. elem g i - 3)"
  have 1: "BatchNorm2d_forward (BatchNorm_init (?W TcnBn1) 1) g = Inr y1"
    by (simp add: BatchNorm2d_forward_def batch_norm_def BatchNorm_init_def sg y1_def)
  define y2 where "y2 = mk_tensor [1, 1, 1, 2] (\<lambda>i. 2 * elem (relu y1) i)"
  have 2: "Conv2d_forward
                 \<lparr>conv_in = 1, conv_out = 1, conv_kernel = ([1, 1] ! 0, 1),
                  conv_stride = (2, 1), conv_padding = (([1, 1] ! 0 - 1) div 2, 0),
                  conv_dilation = (1, 1), conv_fn = ?W TcnConv\<rparr> (relu y1) = Inr y2"
    by (simp add: Conv2d_forward_4d[of _ 1 1 1 2] conv_len_def y1_def y2_def numeral_2_eq_2)
  define y3 where "y3 = mk_tensor [1, 1, 1, 2] (\<lambda>i. elem y2 i + 1)"
  have 3: "BatchNorm2d_forward (BatchNorm_init (?W TcnBn2) 1) y2 = Inr y3"
    by (simp add: BatchNorm2d_forward_def batch_norm_def BatchNorm_init_def y2_def y3_def)
  define y4 where "y4 = mk_tensor [1, 1, 1, 2] (elem y3)"
  have 4: "Dropout_forward \<lparr>drop_p = 0, drop_fn = ?W TcnDrop\<rparr> y3 = Inr y4"
    by (simp add: Dropout_forward_def y3_def y4_def)
  define z1 where "z1 = mk_tensor [1, 1, 1, 2] (\<lambda>i. 10 * elem ?x i)"
  define z2 where "z2 = mk_tensor [1, 1, 1, 2] (\<lambda>i. elem z1 i - 20)"
  have c1: "Conv2d_forward
                     \<lparr>conv_in = 1, conv_out = 1, conv_kernel = (1, 1),
                      conv_stride = (2, 1), conv_padding = (0, 0), conv_dilation = (1, 1),
                      conv_fn = ?W ResConv\<rparr> ?x = Inr z1"
    by (simp add: Conv2d_forward_4d[of _ 1 1 1 2] conv_len_def z1_def numeral_2_eq_2)
  have c2: "BatchNorm2d_forward (BatchNorm_init (?W ResBn) 1) z1 = Inr z2"
    by (simp add: BatchNorm2d_forward_def batch_norm_def BatchNorm_init_def z1_def z2_def)
  have R: "residual_apply (residual b) ?x = Inr (PyTensor z2)"
    unfolding t2 using c1 c2 by simp
  obtain sm where sm: "tensor_add y4 (PyTensor z2) = Inr sm"
    by (simp add: elementwise_def broadcast_same y4_def z2_def)
  have sz: "shape z2 = shape y4" by (simp add: y4_def z2_def)
  from t5 sz sm have ssm: "shape sm = shape y4"
    and esm: "\<And>i. valid_index (shape y4) i \<Longrightarrow> elem sm i = elem y4 i + elem z2 i"
    by blast+
  have F: "GLBGCNBlock_forward b ?x ?a = Inr (relu sm, ?a)"
    using t3[rule_format, of "relu sm" ?a] R g 1 2 3 4 sm by blast
  have s4: "shape y4 = [1, 1, 1, 2]" by (simp add: y4_def)
  have v0: "valid_index [1, 1, 1, 2] [0, 0, 0, 0]" and v1: "valid_index [1, 1, 1, 2] [0, 0, 0, 1]"
    by (simp_all add: valid_index_def)
  have e40: "elem y4 [0, 0, 0, 0] = 1" and e41: "elem y4 [0, 0, 0, 1] = 3"
    using v0 v1 g0 g1
    by (simp_all add: y4_def y3_def y2_def y1_def relu_def elem_mk_tensor)
  have ez0: "elem z2 [0, 0, 0, 0] = - 10" and ez1: "elem z2 [0, 0, 0, 1] = 20"
    using v0 v1 by (simp_all add: z2_def z1_def elem_mk_tensor)
  have o0: "elem (relu sm) [0, 0, 0, 0] = 0"
    using t6[rule_format, of sm "[0, 0, 0, 0]"] esm[of "[0, 0, 0, 0]"] v0 e40 ez0
    by (simp add: ssm s4)
  have o1: "elem (relu sm) [0, 0, 0, 1] = 23"
    using t6[rule_format, of sm "[0, 0, 0, 1]"] esm[of "[0, 0, 0, 1]"] v1 e41 ez1
    by (simp add: ssm s4)
  have so: "shape (relu sm) = [1, 1, 1, 2]" by (simp add: ssm s4)
  from b r F so o0 o1 b0 r0 b1 r1 show ?thesis by blast
qed

lemma normalise_ok:
  assumes x: "shape x = [n, c, t, v, m]"
    and bn: "case bn of None \<Rightarrow> True
             | Some b \<Rightarrow> num_features b = v * c \<and> 0 < v * c
                 \<and> \<not> (bn_training b \<and> n * m * t = 1)"
  shows "\<exists>y. normalise bn x = Inr y \<and> shape y = [n * m, c, t, v]"
proof -
  obtain x1 where 1: "permute [0, 4, 3, 1, 2] x = Inr x1" and s1: "shape x1 = [n, m, v, c, t]"
    using permute_ok[of "[0, 4, 3, 1, 2]" x] by (auto simp: x)
  obtain x2 where 2: "view [n * m, v * c, t] x1 = Inr x2" and s2: "shape x2 = [n * m, v * c, t]"
    using view_ok[of "[n * m, v * c, t]" x1] by (auto simp: s1)
  obtain x3 where 3: "(case bn of None \<Rightarrow> Inr (identity x2) | Some b \<Rightarrow> BatchNorm1d_forward b x2)
                       = Inr x3" and s3: "shape x3 = [n * m, v * c, t]"
  proof (cases bn)
    case None
    then show ?thesis using that[of x2] by (simp add: identity_def s2)
  next
    case (Some b)
    with bn have "\<exists>y. batch_norm b x2 = Inr y \<and> shape y = shape x2"
      by (intro batch_norm_ok) (auto simp: s2)
    then show ?thesis using that Some by (auto simp: BatchNorm1d_forward_def s2)
  qed
  obtain x4 where 4: "view [n, m, v, c, t] x3 = Inr x4" and s4: "shape x4 = [n, m, v, c, t]"
    using view_ok[of "[n, m, v, c, t]" x3] by (auto simp: s3)
  obtain x5 where 5: "permute [0, 1, 3, 4, 2] x4 = Inr x5" and s5: "shape x5 = [n, m, c, t, v]"
    using permute_ok[of "[0, 1, 3, 4, 2]" x4] by (auto simp: s4)
  obtain x6 where 6: "view [n * m, c, t, v] x5 = Inr x6" and s6: "shape x6 = [n * m, c, t, v]"
    using view_ok[of "[n * m, c, t, v]" x5] by (auto simp: s5)
  show ?thesis
    using 1 2 3 4 5 6 s6 by (simp add: normalise_def float_def contiguous_def x)
qed

lemma normalise_inv:
  assumes "normalise bn x = Inr y"
  shows "\<exists>n c t v m. shape x = [n, c, t, v, m] \<and> shape y = [n * m, c, t, v]
           \<and> (\<forall>b. bn = Some b \<longrightarrow> 0 < n * m * t * (v * c) \<longrightarrow> num_features b = v * c)"
proof -
  from assms have l: "length (shape x) = 5"
    by (auto simp: normalise_def float_def Let_def split: if_splits)
  then obtain n c t v m where x: "shape x = [n, c, t, v, m]"
    by (auto simp: length_Suc_conv eval_nat_numeral)
  from assms obtain x1 x2 x3 x4 x5 where
    1: "permute [0, 4, 3, 1, 2] x = Inr x1" and
    2: "view [n * m, v * c, t] x1 = Inr x2" and
    3: "(case bn of None \<Rightarrow> Inr (identity x2) | Some b \<Rightarrow> BatchNorm1d_forward b x2) = Inr x3" and
    4: "view [n, m, v, c, t] x3 = Inr x4" and
    5: "permute [0, 1, 3, 4, 2] x4 = Inr x5" and
    6: "view [n * m, c, t, v] x5 = Inr y"
    by (auto simp: normalise_def float_def contiguous_def x bindE_eq_Inr)
  have s2: "shape x2 = [n * m, v * c, t]" using view_inv[OF 2] by simp
  have b: "num_features b = v * c" if "bn = Some b" "0 < n * m * t * (v * c)" for b
    using 3 that s2 by (auto simp: BatchNorm1d_forward_def split: if_splits dest!: batch_norm_inv)
  from view_inv[OF 6] x b show ?thesis by auto
qed

lemma BatchNorm2d_forward_ok:
  assumes "shape x = [a, c, t, w]" "num_features b = c" "2 \<le> w" "0 < c"
  shows "\<exists>y. BatchNorm2d_forward b x = Inr y \<and> shape y = [a, c, t, w]"
proof -
  have "a * (t * w) \<noteq> 1"
    using assms(3) by auto
  then show ?thesis
    using assms by (auto simp: BatchNorm2d_forward_def batch_norm_def)
qed

lemma Conv2d_forward_ok:
  assumes "shape x = [a, c, t, w]" "conv_in cv = c"
    "conv_len t (fst (conv_kernel cv)) (fst (conv_stride cv))
               (fst (conv_padding cv)) (fst (conv_dilation cv)) = Some t'"
    "conv_len w (snd (conv_kernel cv)) (snd (conv_stride cv))
               (snd (conv_padding cv)) (snd (conv_dilation cv)) = Some w'"
    "0 < conv_out cv" "0 < c"
  shows "\<exists>y. Conv2d_forward cv x = Inr y \<and> shape y = [a, conv_out cv, t', w']"
  using assms by (simp add: Conv2d_forward_4d[OF assms(1)])

lemma tcn_ok:
  assumes x: "shape x = [a, co, t, W]" and W: "2 \<le> W" and t: "0 < t" and s: "0 < s"
    and co: "0 < co"
  shows "\<exists>y. Sequential_forward
           (map (layer_train mode)
             [BatchNorm2d (BatchNorm_init w1 co), ReLU,
              Conv \<lparr>conv_in = co, conv_out = co, conv_kernel = (9, 1),
                    conv_stride = (s, 1), conv_padding = (4, 0),
                    conv_dilation = (1, 1), conv_fn = w2\<rparr>,
              BatchNorm2d (BatchNorm_init w3 co),
              Drop \<lparr>drop_p = p, drop_fn = w4\<rparr>]) x = Inr y
         \<and> shape y = [a, co, (t - 1) div s + 1, W]"
proof -
  let ?cv = "\<lparr>conv_in = co, conv_out = co, conv_kernel = (9, 1),
                    conv_stride = (s, 1), conv_padding = (4, 0),
                    conv_dilation = (1, 1), conv_fn = w2\<rparr>"
  obtain x1 where 1: "BatchNorm2d_forward ((BatchNorm_init w1 co)\<lparr>bn_training := mode\<rparr>) x = Inr x1"
    and s1: "shape x1 = [a, co, t, W]"
    using BatchNorm2d_forward_ok[OF x _ W co, of "(BatchNorm_init w1 co)\<lparr>bn_training := mode\<rparr>"]
    by (auto simp: BatchNorm_init_def)
  have s2: "shape (relu x1) = [a, co, t, W]" by (simp add: s1)
  obtain x3 where 3: "Conv2d_forward ?cv (relu x1) = Inr x3"
    and s3: "shape x3 = [a, co, (t - 1) div s + 1, W]"
  proof -
    have c1: "conv_len t (fst (conv_kernel ?cv)) (fst (conv_stride ?cv))
               (fst (conv_padding ?cv)) (fst (conv_dilation ?cv)) = Some ((t - 1) div s + 1)"
      using t s by (simp add: conv_len_def)
    have c2: "conv_len W (snd (conv_kernel ?cv)) (snd (conv_stride ?cv))
               (snd (conv_padding ?cv)) (snd (conv_dilation ?cv)) = Some W"
      using W by (simp add: conv_len_def)
    have "conv_in ?cv = co" by simp
    from Conv2d_forward_ok[OF s2 this c1 c2] co that show ?thesis by auto
  qed
  obtain x4 where 4: "BatchNorm2d_forward ((BatchNorm_init w3 co)\<lparr>bn_training := mode\<rparr>) x3 = Inr x4"
    and s4: "shape x4 = [a, co, (t - 1) div s + 1, W]"
    using BatchNorm2d_forward_ok[OF s3 _ W co, of "(BatchNorm_init w3 co)\<lparr>bn_training := mode\<rparr>"]
    by (auto simp: BatchNorm_init_def)
  show ?thesis
    using 1 3 4 s4 by (simp add: Dropout_forward_def)
qed

lemma residual_ok:
  assumes x: "shape x = [a, ci, t, W]" and W: "2 \<le> W" and t: "0 < t" and s: "0 < s"
    and co: "0 < co" and ci: "0 < ci"
  shows "\<exists>y. Sequential_forward
           (map (layer_train mode)
              [Conv \<lparr>conv_in = ci, conv_out = co, conv_kernel = (1, 1),
                     conv_stride = (s, 1), conv_padding = (0, 0), conv_dilation = (1, 1),
                     conv_fn = w1\<rparr>,
               BatchNorm2d (BatchNorm_init w2 co)]) x = Inr y
         \<and> shape y = [a, co, (t - 1) div s + 1, W]"
proof -
  let ?cv = "\<lparr>conv_in = ci, conv_out = co, conv_kernel = (1, 1),
                     conv_stride = (s, 1), conv_padding = (0, 0), conv_dilation = (1, 1),
                     conv_fn = w1\<rparr>"
  obtain x1 where 1: "Conv2d_forward ?cv x = Inr x1"
    and s1: "shape x1 = [a, co, (t - 1) div s + 1, W]"
  proof -
    have c1: "conv_len t (fst (conv_kernel ?cv)) (fst (conv_stride ?cv))
               (fst (conv_padding ?cv)) (fst (conv_dilation ?cv)) = Some ((t - 1) div s + 1)"
      using t s by (simp add: conv_len_def)
    have c2: "conv_len W (snd (conv_kernel ?cv)) (snd (conv_stride ?cv))
               (snd (conv_padding ?cv)) (snd (conv_dilation ?cv)) = Some W"
      using W by (simp add: conv_len_def)
    have "conv_in ?cv = ci" by simp
    from Conv2d_forward_ok[OF x this c1 c2] co ci that show ?thesis by auto
  qed
  obtain x2 where 2: "BatchNorm2d_forward ((BatchNorm_init w2 co)\<lparr>bn_training := mode\<rparr>) x1 = Inr x2"
    and s2: "shape x2 = [a, co, (t - 1) div s + 1, W]"
    using BatchNorm2d_forward_ok[OF s1 _ W co, of "(BatchNorm_init w2 co)\<lparr>bn_training := mode\<rparr>"]
    by (auto simp: BatchNorm_init_def)
  show ?thesis
    using 1 2 s2 by simp
qed

lemma block_ok:
  assumes init: "GLBGCNBlock_init w ci co [9, K] s p r = Inr b"
    and x: "shape x = [a, ci, t, W]" and adj: "shape adj = [K, W, W]"
    and K: "0 < K" and W: "2 \<le> W" and t: "0 < t" and s: "0 < s" and co: "0 < co"
    and ci: "0 < ci"
  shows "\<exists>y. GLBGCNBlock_forward (GLBGCNBlock_train mode b) x adj = Inr (y, adj)
           \<and> shape y = [a, co, (t - 1) div s + 1, W]"
proof -
  note f = GLBGCNBlock_init_fields[OF init]
  let ?b = "GLBGCNBlock_train mode b"
  have g: "gcn ?b = ConvTemporalGraphical_init (w GcnConv) ci co K 1 1 0 1"
    by (simp add: GLBGCNBlock_train_def f(1))
  have "\<exists>y out. Conv2d_forward (conv (gcn ?b)) x = Inr y \<and> shape y = [a, co * K, t, W]
           \<and> ConvTemporalGraphical_forward (gcn ?b) x adj = Inr (out, adj)
           \<and> shape out = [a, co, t, W]
           \<and> (\<forall>i<a. \<forall>c<co. \<forall>j<t. \<forall>u<W.
                 elem out [i, c, j, u]
                   = (\<Sum>kk<K. \<Sum>vv<W. elem y [i, kk * co + c, j, vv] * elem adj [kk, vv, u]))"
    using W t co ci by (intro gcn_contraction[OF x adj K _ _ g]) (simp_all add: conv_len_def)
  then obtain x1 where 1: "ConvTemporalGraphical_forward (gcn ?b) x adj = Inr (x1, adj)"
    and s1: "shape x1 = [a, co, t, W]" by blast
  have tc: "tcn ?b = map (layer_train mode)
             [BatchNorm2d (BatchNorm_init (w TcnBn1) co), ReLU,
              Conv \<lparr>conv_in = co, conv_out = co, conv_kernel = (9, 1),
                    conv_stride = (s, 1), conv_padding = (4, 0),
                    conv_dilation = (1, 1), conv_fn = w TcnConv\<rparr>,
              BatchNorm2d (BatchNorm_init (w TcnBn2) co),
              Drop \<lparr>drop_p = p, drop_fn = w TcnDrop\<rparr>]"
    by (simp add: GLBGCNBlock_train_def f(2))
  obtain x2 where 2: "Sequential_forward (tcn ?b) x1 = Inr x2"
    and s2: "shape x2 = [a, co, (t - 1) div s + 1, W]"
    unfolding tc using tcn_ok[OF s1 W t s co] by blast
  have "\<exists>res x3. residual_apply (residual ?b) x = Inr res \<and> tensor_add x2 res = Inr x3
          \<and> shape x3 = [a, co, (t - 1) div s + 1, W]"
  proof (cases "\<not> r")
    case True
    then have "residual ?b = Zero" by (simp add: GLBGCNBlock_train_def f(3))
    then show ?thesis by (simp add: zero_fn_def s2)
  next
    case False
    show ?thesis
    proof (cases "ci = co \<and> s = 1")
      case True
      with False have "residual ?b = Identity" by (simp add: GLBGCNBlock_train_def f(3))
      moreover have "shape x2 = shape x" using True t by (simp add: s2 x)
      ultimately show ?thesis
        using elementwise_same_ok[of x2 x "(+)"] by (auto simp: identity_def s2)
    next
      case ne: False
      let ?ls = "[Conv \<lparr>conv_in = ci, conv_out = co, conv_kernel = (1, 1),
                     conv_stride = (s, 1), conv_padding = (0, 0), conv_dilation = (1, 1),
                     conv_fn = w ResConv\<rparr>,
               BatchNorm2d (BatchNorm_init (w ResBn) co)]"
      from False ne have rb: "residual ?b = Projection (map (layer_train mode) ?ls)"
        by (simp add: GLBGCNBlock_train_def f(3))
      obtain x3 where 3: "Sequential_forward (map (layer_train mode) ?ls) x = Inr x3"
        and s3: "shape x3 = [a, co, (t - 1) div s + 1, W]"
        using residual_ok[OF x W t s co ci] by blast
      have "shape x2 = shape x3" by (simp add: s2 s3)
      then show ?thesis
        using elementwise_same_ok[of x2 x3 "(+)"] 3 by (auto simp: rb s2)
    qed
  qed
  then obtain res x3 where 3: "residual_apply (residual ?b) x = Inr res"
    and 4: "tensor_add x2 res = Inr x3" and s3: "shape x3 = [a, co, (t - 1) div s + 1, W]"
    by blast
  show ?thesis
    using 1 2 3 4 s3 by (simp add: GLBGCNBlock_forward_def)
qed

lemma stage_ok:
  assumes init: "GLBGCNBlock_init w ci co [9, K] s p r = Inr b"
    and A: "shape (graph_A m) = [K, Suc v, Suc v]"
    and imp: "tensor_mul (graph_A m) imp = Inr adj" "shape adj = [K, Suc v, Suc v]"
    and fc: "in_features fc = cf" "out_features fc = ci"
    and res: "i < length (feature_residue m) \<Longrightarrow>
                in_features (feature_residue m ! i) = 32
                \<and> out_features (feature_residue m ! i) = ci \<and> shape c = [a, t, 1, 32]"
    and xp: "shape x_pos = [a, ci, t, v]" and xf: "shape x_feature = [a, cf, t, 1]"
    and K: "0 < K" and v: "0 < v" and t: "0 < t" and s: "0 < s" and co: "0 < co"
    and ci: "0 < ci"
  shows "\<exists>x' p' f'.
           stage m c (GLBGCNBlock_train mode b, imp, fc) (i, x, x_pos, x_feature)
             = Inr (if i < length (feature_residue m) then i + 1 else i, x', p', f')
           \<and> shape x' = [a, co, (t - 1) div s + 1, Suc v]
           \<and> shape p' = [a, co, (t - 1) div s + 1, v]
           \<and> shape f' = [a, co, (t - 1) div s + 1, 1]"
proof -
  let ?t = "(t - 1) div s + 1"
  obtain f1 where 1: "permute [0, 2, 3, 1] x_feature = Inr f1" and s1: "shape f1 = [a, t, 1, cf]"
    using permute_ok[of "[0, 2, 3, 1]" x_feature] by (auto simp: xf)
  obtain f2 where 2: "Linear_forward fc f1 = Inr f2" and s2: "shape f2 = [a, t, 1, ci]"
    using Linear_forward_ok[of f1 fc] by (auto simp: s1 fc)
  obtain f3 where 3: "permute [0, 3, 1, 2] f2 = Inr f3" and s3: "shape f3 = [a, ci, t, 1]"
    using permute_ok[of "[0, 3, 1, 2]" f2] by (auto simp: s2)
  let ?i = "if i < length (feature_residue m) then i + 1 else i"
  have "\<exists>f4. (if i < length (feature_residue m)
               then
                 bindE (Linear_forward (feature_residue m ! i) c) (\<lambda>r.
                 bindE (permute [0, 3, 1, 2] r) (\<lambda>x_feature_res.
                 bindE (tensor_iadd f3 x_feature_res) (\<lambda>x_feature.
                 Inr (x_feature, i + 1))))
               else Inr (f3, i)) = Inr (f4, ?i) \<and> shape f4 = [a, ci, t, 1]"
  proof (cases "i < length (feature_residue m)")
    case True
    note r = res[OF True]
    obtain r1 where r1: "Linear_forward (feature_residue m ! i) c = Inr r1"
      and sr1: "shape r1 = [a, t, 1, ci]"
      using Linear_forward_ok[of c "feature_residue m ! i"] by (auto simp: r)
    obtain r2 where r2: "permute [0, 3, 1, 2] r1 = Inr r2" and sr2: "shape r2 = [a, ci, t, 1]"
      using permute_ok[of "[0, 3, 1, 2]" r1] by (auto simp: sr1)
    obtain f4 where f4: "tensor_iadd f3 r2 = Inr f4" and s4: "shape f4 = [a, ci, t, 1]"
      using tensor_iadd_same_ok[of f3 r2] by (auto simp: s3 sr2)
    show ?thesis using True r1 r2 f4 s4 by simp
  next
    case False
    then show ?thesis by (simp add: s3)
  qed
  then obtain f4 where 4: "(if i < length (feature_residue m)
               then
                 bindE (Linear_forward (feature_residue m ! i) c) (\<lambda>r.
                 bindE (permute [0, 3, 1, 2] r) (\<lambda>x_feature_res.
                 bindE (tensor_iadd f3 x_feature_res) (\<lambda>x_feature.
                 Inr (x_feature, i + 1))))
               else Inr (f3, i)) = Inr (f4, ?i)" and s4: "shape f4 = [a, ci, t, 1]"
    by blast
  obtain x1 where 5: "cat 3 x_pos f4 = Inr x1" and s5: "shape x1 = [a, ci, t, Suc v]"
    using cat_ok[of 3 x_pos f4] by (auto simp: xp s4)
  have W: "2 \<le> Suc v" using v by simp
  obtain x2 where 6: "GLBGCNBlock_forward (GLBGCNBlock_train mode b) x1 adj = Inr (x2, adj)"
    and s6: "shape x2 = [a, co, ?t, Suc v]"
    using block_ok[OF init s5 imp(2) K W t s co ci] by blast
  have sb: "slice_bound (Suc v) 0 = 0" "slice_bound (Suc v) (int (Suc v) - 1) = v"
    by (simp_all add: slice_bound_def)
  obtain p1 where 7: "slice_dim 3 0 (Some (int (shape (graph_A m) ! 1) - 1)) x2 = Inr p1"
    and s7: "shape p1 = [a, co, ?t, v]"
    using slice_dim_ok[of 3 x2 0 "Some (int (shape (graph_A m) ! 1) - 1)"]
    by (auto simp: s6 A sb simp del: of_nat_Suc)
  obtain l1 where 8: "select 3 (- 1) x2 = Inr l1" and s8: "shape l1 = [a, co, ?t]"
    using select_last_ok[of 3 x2] by (auto simp: s6)
  obtain f5 where 9: "unsqueeze 3 l1 = Inr f5" and s9: "shape f5 = [a, co, ?t, 1]"
    using unsqueeze_ok[of 3 l1] by (auto simp: s8)
  have "stage m c (GLBGCNBlock_train mode b, imp, fc) (i, x, x_pos, x_feature)
          = Inr (?i, x2, p1, f5)"
    unfolding stage_def using 1 2 3 4 5 6 7 8 9 imp(1) A by simp
  with s6 s7 s9 show ?thesis by blast
qed

lemma stages_ok:
  assumes m: "GLBGCN_init w cin A eiw dbn pre red kw = Inr m"
    and sA: "shape A = [K, Suc v, Suc v]"
    and K: "0 < K" and v: "0 < v" and t: "0 < t"
    and c: "shape c = [a, t, 1, 32]"
    and xp: "shape x_pos = [a, cin, t, v]" and xf: "shape x_feature = [a, 32, t, 1]"
    and cin: "0 < cin"
  shows "\<exists>x' p' f'.
           stages (GLBGCN_train mode m) c
             (zip (st_gcn_networks (GLBGCN_train mode m))
                (zip (edge_importance (GLBGCN_train mode m))
                   (feature_transform (GLBGCN_train mode m))))
             (0, x, x_pos, x_feature) = Inr (4, x', p', f')
           \<and> shape x' = [a, 256, ((t - 1) div 2 + 1 - 1) div 2 + 1, Suc v]"
proof -
  let ?m = "GLBGCN_train mode m"
  let ?t1 = "(t - 1) div 2 + 1"
  let ?t2 = "(?t1 - 1) div 2 + 1"
  let ?imp = "if eiw then PyTensor (ones (shape A)) else PyInt 1"
  let ?ft = "feature_transform m"
  have t1: "0 < ?t1" and t2: "0 < ?t2" by simp_all
  note f = GLBGCN_init_fields[OF m]
  note ft = f(9)
  from GLBGCN_init_blocks[OF m] obtain b0 b1 b2 b3 b4 b5 b6 b7 b8 b9 p where
    bs: "st_gcn_networks m = [b0, b1, b2, b3, b4, b5, b6, b7, b8, b9]" and
    b: "GLBGCNBlock_init (\<lambda>q. w (Block 0 q)) cin 64 [9, K] 1 0 False = Inr b0"
      "GLBGCNBlock_init (\<lambda>q. w (Block 1 q)) 64 64 [9, K] 1 p True = Inr b1"
      "GLBGCNBlock_init (\<lambda>q. w (Block 2 q)) 64 64 [9, K] 1 p True = Inr b2"
      "GLBGCNBlock_init (\<lambda>q. w (Block 3 q)) 64 64 [9, K] 1 p True = Inr b3"
      "GLBGCNBlock_init (\<lambda>q. w (Block 4 q)) 64 128 [9, K] 2 p True = Inr b4"
      "GLBGCNBlock_init (\<lambda>q. w (Block 5 q)) 128 128 [9, K] 1 p True = Inr b5"
      "GLBGCNBlock_init (\<lambda>q. w (Block 6 q)) 128 128 [9, K] 1 p True = Inr b6"
      "GLBGCNBlock_init (\<lambda>q. w (Block 7 q)) 128 256 [9, K] 2 p True = Inr b7"
      "GLBGCNBlock_init (\<lambda>q. w (Block 8 q)) 256 256 [9, K] 1 p True = Inr b8"
      "GLBGCNBlock_init (\<lambda>q. w (Block 9 q)) 256 256 [9, K] 1 p True = Inr b9"
    by (auto simp: sA)
  have gA: "graph_A ?m = mk_tensor (shape A) (elem A)"
    by (simp add: GLBGCN_train_def f(1))
  have A: "shape (graph_A ?m) = [K, Suc v, Suc v]"
    by (simp add: gA sA)
  have imp: "tensor_mul (graph_A ?m) ?imp = Inr (mk_tensor (shape A) (elem A))"
    "shape (mk_tensor (shape A) (elem A)) = [K, Suc v, Suc v]"
    using tensor_mul_ones[of "graph_A ?m"] tensor_mul_one[of "graph_A ?m"]
    by (simp_all add: gA sA del: tensor_mul.simps)
  have fr: "feature_residue ?m =
                  [Linear_init (w (Residue 0)) 32 cin,
                   Linear_init (w (Residue 1)) 32 64,
                   Linear_init (w (Residue 2)) 32 64,
                   Linear_init (w (Residue 3)) 32 64]"
    by (simp add: GLBGCN_train_def f(10))
  have zs: "zip (st_gcn_networks ?m) (zip (edge_importance ?m) (feature_transform ?m))
      = [(GLBGCNBlock_train mode b0, ?imp, ?ft ! 0), (GLBGCNBlock_train mode b1, ?imp, ?ft ! 1), (GLBGCNBlock_train mode b2, ?imp, ?ft ! 2), (GLBGCNBlock_train mode b3, ?imp, ?ft ! 3), (GLBGCNBlock_train mode b4, ?imp, ?ft ! 4), (GLBGCNBlock_train mode b5, ?imp, ?ft ! 5), (GLBGCNBlock_train mode b6, ?imp, ?ft ! 6), (GLBGCNBlock_train mode b7, ?imp, ?ft ! 7), (GLBGCNBlock_train mode b8, ?imp, ?ft ! 8), (GLBGCNBlock_train mode b9, ?imp, ?ft ! 9)]"
    by (simp add: GLBGCN_train_def f(11) bs ft)
  have "\<exists>x' p' f'. stage ?m c (GLBGCNBlock_train mode b0, ?imp, ?ft ! 0) (0, x, x_pos, x_feature)
             = Inr (if 0 < length (feature_residue ?m) then 0 + 1 else 0, x', p', f')
           \<and> shape x' = [a, 64, (t - 1) div 1 + 1, Suc v]
           \<and> shape p' = [a, 64, (t - 1) div 1 + 1, v]
           \<and> shape f' = [a, 64, (t - 1) div 1 + 1, 1]"
    by (rule stage_ok[OF b(1) A imp _ _ _ xp xf K v t])
      (simp_all add: fr ft Linear_init_def c cin)
  then obtain x0 p0 f0 where
    st0: "stage ?m c (GLBGCNBlock_train mode b0, ?imp, ?ft ! 0) (0, x, x_pos, x_feature) = Inr (1, x0, p0, f0)"
    and sx0: "shape x0 = [a, 64, t, Suc v]"
    and sp0: "shape p0 = [a, 64, t, v]"
    and sf0: "shape f0 = [a, 64, t, 1]"
    using t t1 t2 by (auto simp: fr)

  have "\<exists>x' p' f'. stage ?m c (GLBGCNBlock_train mode b1, ?imp, ?ft ! 1) (1, x0, p0, f0)
             = Inr (if 1 < length (feature_residue ?m) then 1 + 1 else 1, x', p', f')
           \<and> shape x' = [a, 64, (t - 1) div 1 + 1, Suc v]
           \<and> shape p' = [a, 64, (t - 1) div 1 + 1, v]
           \<and> shape f' = [a, 64, (t - 1) div 1 + 1, 1]"
    by (rule stage_ok[OF b(2) A imp _ _ _ sp0 sf0 K v t])
      (simp_all add: fr ft Linear_init_def c)
  then obtain x1 p1 f1 where
    st1: "stage ?m c (GLBGCNBlock_train mode b1, ?imp, ?ft ! 1) (1, x0, p0, f0) = Inr (2, x1, p1, f1)"
    and sx1: "shape x1 = [a, 64, t, Suc v]"
    and sp1: "shape p1 = [a, 64, t, v]"
    and sf1: "shape f1 = [a, 64, t, 1]"
    using t t1 t2 by (auto simp: fr)

  have "\<exists>x' p' f'. stage ?m c (GLBGCNBlock_train mode b2, ?imp, ?ft ! 2) (2, x1, p1, f1)
             = Inr (if 2 < length (feature_residue ?m) then 2 + 1 else 2, x', p', f')
           \<and> shape x' = [a, 64, (t - 1) div 1 + 1, Suc v]
           \<and> shape p' = [a, 64, (t - 1) div 1 + 1, v]
           \<and> shape f' = [a, 64, (t - 1) div 1 + 1, 1]"
    by (rule stage_ok[OF b(3) A imp _ _ _ sp1 sf1 K v t])
      (simp_all add: fr ft Linear_init_def c)
  then obtain x2 p2 f2 where
    st2: "stage ?m c (GLBGCNBlock_train mode b2, ?imp, ?ft ! 2) (2, x1, p1, f1) = Inr (3, x2, p2, f2)"
    and sx2: "shape x2 = [a, 64, t, Suc v]"
    and sp2: "shape p2 = [a, 64, t, v]"
    and sf2: "shape f2 = [a, 64, t, 1]"
    using t t1 t2 by (auto simp: fr)

  have "\<exists>x' p' f'. stage ?m c (GLBGCNBlock_train mode b3, ?imp, ?ft ! 3) (3, x2, p2, f2)
             = Inr (if 3 < length (feature_residue ?m) then 3 + 1 else 3, x', p', f')
           \<and> shape x' = [a, 64, (t - 1) div 1 + 1, Suc v]
           \<and> shape p' = [a, 64, (t - 1) div 1 + 1, v]
           \<and> shape f' = [a, 64, (t - 1) div 1 + 1, 1]"
    by (rule stage_ok[OF b(4) A imp _ _ _ sp2 sf2 K v t])
      (simp_all add: fr ft Linear_init_def c)
  then obtain x3 p3 f3 where
    st3: "stage ?m c (GLBGCNBlock_train mode b3, ?imp, ?ft ! 3) (3, x2, p2, f2) = Inr (4, x3, p3, f3)"
    and sx3: "shape x3 = [a, 64, t, Suc v]"
    and sp3: "shape p3 = [a, 64, t, v]"
    and sf3: "shape f3 = [a, 64, t, 1]"
    using t t1 t2 by (auto simp: fr)

  have "\<exists>x' p' f'. stage ?m c (GLBGCNBlock_train mode b4, ?imp, ?ft ! 4) (4, x3, p3, f3)
             = Inr (if 4 < length (feature_residue ?m) then 4 + 1 else 4, x', p', f')
           \<and> shape x' = [a, 128, (t - 1) div 2 + 1, Suc v]
           \<and> shape p' = [a, 128, (t - 1) div 2 + 1, v]
           \<and> shape f' = [a, 128, (t - 1) div 2 + 1, 1]"
    by (rule stage_ok[OF b(5) A imp _ _ _ sp3 sf3 K v t])
      (simp_all add: fr ft Linear_init_def c)
  then obtain x4 p4 f4 where
    st4: "stage ?m c (GLBGCNBlock_train mode b4, ?imp, ?ft ! 4) (4, x3, p3, f3) = Inr (4, x4, p4, f4)"
    and sx4: "shape x4 = [a, 128, ?t1, Suc v]"
    and sp4: "shape p4 = [a, 128, ?t1, v]"
    and sf4: "shape f4 = [a, 128, ?t1, 1]"
    using t t1 t2 by (auto simp: fr)

  have "\<exists>x' p' f'. stage ?m c (GLBGCNBlock_train mode b5, ?imp, ?ft ! 5) (4, x4, p4, f4)
             = Inr (if 4 < length (feature_residue ?m) then 4 + 1 else 4, x', p', f')
           \<and> shape x' = [a, 128, (?t1 - 1) div 1 + 1, Suc v]
           \<and> shape p' = [a, 128, (?t1 - 1) div 1 + 1, v]
           \<and> shape f' = [a, 128, (?t1 - 1) div 1 + 1, 1]"
    by (rule stage_ok[OF b(6) A imp _ _ _ sp4 sf4 K v t1])
      (simp_all add: fr ft Linear_init_def c)
  then obtain x5 p5 f5 where
    st5: "stage ?m c (GLBGCNBlock_train mode b5, ?imp, ?ft ! 5) (4, x4, p4, f4) = Inr (4, x5, p5, f5)"
    and sx5: "shape x5 = [a, 128, ?t1, Suc v]"
    and sp5: "shape p5 = [a, 128, ?t1, v]"
    and sf5: "shape f5 = [a, 128, ?t1, 1]"
    using t t1 t2 by (auto simp: fr)

  have "\<exists>x' p' f'. stage ?m c (GLBGCNBlock_train mode b6, ?imp, ?ft ! 6) (4, x5, p5, f5)
             = Inr (if 4 < length (feature_residue ?m) then 4 + 1 else 4, x', p', f')
           \<and> shape x' = [a, 128, (?t1 - 1) div 1 + 1, Suc v]
           \<and> shape p' = [a, 128, (?t1 - 1) div 1 + 1, v]
           \<and> shape f' = [a, 128, (?t1 - 1) div 1 + 1, 1]"
    by (rule stage_ok[OF b(7) A imp _ _ _ sp5 sf5 K v t1])
      (simp_all add: fr ft Linear_init_def c)
  then obtain x6 p6 f6 where
    st6: "stage ?m c (GLBGCNBlock_train mode b6, ?imp, ?ft ! 6) (4, x5, p5, f5) = Inr (4, x6, p6, f6)"
    and sx6: "shape x6 = [a, 128, ?t1, Suc v]"
    and sp6: "shape p6 = [a, 128, ?t1, v]"
    and sf6: "shape f6 = [a, 128, ?t1, 1]"
    using t t1 t2 by (auto simp: fr)

  have "\<exists>x' p' f'. stage ?m c (GLBGCNBlock_train mode b7, ?imp, ?ft ! 7) (4, x6, p6, f6)
             = Inr (if 4 < length (feature_residue ?m) then 4 + 1 else 4, x', p', f')
           \<and> shape x' = [a, 256, (?t1 - 1) div 2 + 1, Suc v]
           \<and> shape p' = [a, 256, (?t1 - 1) div 2 + 1, v]
           \<and> shape f' = [a, 256, (?t1 - 1) div 2 + 1, 1]"
    by (rule stage_ok[OF b(8) A imp _ _ _ sp6 sf6 K v t1])
      (simp_all add: fr ft Linear_init_def c)
  then obtain x7 p7 f7 where
    st7: "stage ?m c (GLBGCNBlock_train mode b7, ?imp, ?ft ! 7) (4, x6, p6, f6) = Inr (4, x7, p7, f7)"
    and sx7: "shape x7 = [a, 256, ?t2, Suc v]"
    and sp7: "shape p7 = [a, 256, ?t2, v]"
    and sf7: "shape f7 = [a, 256, ?t2, 1]"
    using t t1 t2 by (auto simp: fr)

  have "\<exists>x' p' f'. stage ?m c (GLBGCNBlock_train mode b8, ?imp, ?ft ! 8) (4, x7, p7, f7)
             = Inr (if 4 < length (feature_residue ?m) then 4 + 1 else 4, x', p', f')
           \<and> shape x' = [a, 256, (?t2 - 1) div 1 + 1, Suc v]
           \<and> shape p' = [a, 256, (?t2 - 1) div 1 + 1, v]
           \<and> shape f' = [a, 256, (?t2 - 1) div 1 + 1, 1]"
    by (rule stage_ok[OF b(9) A imp _ _ _ sp7 sf7 K v t2])
      (simp_all add: fr ft Linear_init_def c)
  then obtain x8 p8 f8 where
    st8: "stage ?m c (GLBGCNBlock_train mode b8, ?imp, ?ft ! 8) (4, x7, p7, f7) = Inr (4, x8, p8, f8)"
    and sx8: "shape x8 = [a, 256, ?t2, Suc v]"
    and sp8: "shape p8 = [a, 256, ?t2, v]"
    and sf8: "shape f8 = [a, 256, ?t2, 1]"
    using t t1 t2 by (auto simp: fr)

  have "\<exists>x' p' f'. stage ?m c (GLBGCNBlock_train mode b9, ?imp, ?ft ! 9) (4, x8, p8, f8)
             = Inr (if 4 < length (feature_residue ?m) then 4 + 1 else 4, x', p', f')
           \<and> shape x' = [a, 256, (?t2 - 1) div 1 + 1, Suc v]
           \<and> shape p' = [a, 256, (?t2 - 1) div 1 + 1, v]
           \<and> shape f' = [a, 256, (?t2 - 1) div 1 + 1, 1]"
    by (rule stage_ok[OF b(10) A imp _ _ _ sp8 sf8 K v t2])
      (simp_all add: fr ft Linear_init_def c)
  then obtain x9 p9 f9 where
    st9: "stage ?m c (GLBGCNBlock_train mode b9, ?imp, ?ft ! 9) (4, x8, p8, f8) = Inr (4, x9, p9, f9)"
    and sx9: "shape x9 = [a, 256, ?t2, Suc v]"
    and sp9: "shape p9 = [a, 256, ?t2, v]"
    and sf9: "shape f9 = [a, 256, ?t2, 1]"
    using t t1 t2 by (auto simp: fr)

  show ?thesis
    unfolding zs using st0 st1 st2 st3 st4 st5 st6 st7 st8 st9 sx9 by simp
qed

lemma forward_ok:
  assumes m: "GLBGCN_init w cin A eiw dbn pre red kw = Inr m"
    and sA: "shape A = [K, Suc v, Suc v]"
    and K: "0 < K" and v: "0 < v" and t: "0 < t"
    and x: "shape x = [n, cin + 32, t, v, mm]"
    and tr: "mode \<and> dbn \<longrightarrow> n * mm * t \<noteq> 1"
    and cin: "0 < cin"
  shows "\<exists>y. GLBGCN_forward (GLBGCN_train mode m) x = Inr y
           \<and> shape y = [n * mm, 256, ((t - 1) div 2 + 1 - 1) div 2 + 1, Suc v]"
proof -
  let ?m = "GLBGCN_train mode m"
  note f = GLBGCN_init_fields[OF m]
  have ic: "in_channel ?m = cin" by (simp add: GLBGCN_train_def f(2))
  have rd: "reduction ?m = red" by (simp add: GLBGCN_train_def f(3))
  have nbf: "data_bn_feature ?m =
     (if dbn then Some ((BatchNorm_init (w DataBnFeature) (32 * v))\<lparr>bn_training := mode\<rparr>) else None)"
    by (simp add: GLBGCN_train_def f(8) sA)
  have nbp: "data_bn ?m =
     (if dbn then Some ((BatchNorm_init (w DataBn) (cin * v))\<lparr>bn_training := mode\<rparr>) else None)"
    by (simp add: GLBGCN_train_def f(7) sA)
  have sb: "slice_bound (cin + 32) 0 = 0" "slice_bound (cin + 32) (int cin) = cin"
    by (simp_all add: slice_bound_def)
  obtain p0 where 1: "slice_dim 1 0 (Some (int cin)) x = Inr p0"
    and s1: "shape p0 = [n, cin, t, v, mm]"
    using slice_dim_ok[of 1 x 0 "Some (int cin)"] by (auto simp: x sb)
  obtain f0 where 2: "slice_dim 1 (int cin) None x = Inr f0"
    and s2: "shape f0 = [n, 32, t, v, mm]"
    using slice_dim_ok[of 1 x "int cin" None] by (auto simp: x sb)
  have "\<exists>y. normalise (data_bn_feature ?m) f0 = Inr y \<and> shape y = [n * mm, 32, t, v]"
    using tr v by (intro normalise_ok[OF s2]) (simp add: nbf BatchNorm_init_def)
  then obtain f1 where 3: "normalise (data_bn_feature ?m) f0 = Inr f1"
    and s3: "shape f1 = [n * mm, 32, t, v]" by blast
  have "\<exists>y. (if red = ''avg'' then mean_dim 3 f1 else amax_dim 3 f1) = Inr y
          \<and> shape y = [n * mm, 32, t, 1]"
    using mean_dim_ok[of 3 f1] amax_dim_ok[of 3 f1] v by (auto simp: s3)
  then obtain f2 where 4: "(if red = ''avg'' then mean_dim 3 f1 else amax_dim 3 f1) = Inr f2"
    and s4: "shape f2 = [n * mm, 32, t, 1]" by blast
  obtain c where 5: "permute [0, 2, 3, 1] f2 = Inr c" and s5: "shape c = [n * mm, t, 1, 32]"
    using permute_ok[of "[0, 2, 3, 1]" f2] by (auto simp: s4)
  have "\<exists>y. normalise (data_bn ?m) p0 = Inr y \<and> shape y = [n * mm, cin, t, v]"
    using tr v cin by (intro normalise_ok[OF s1]) (simp add: nbp BatchNorm_init_def)
  then obtain p1 where 6: "normalise (data_bn ?m) p0 = Inr p1"
    and s6: "shape p1 = [n * mm, cin, t, v]" by blast
  from stages_ok[OF m sA K v t s5 s6 s4 cin, of mode x] obtain x' p' f' where
    7: "stages ?m c
             (zip (st_gcn_networks ?m) (zip (edge_importance ?m) (feature_transform ?m)))
             (0, x, p1, f2) = Inr (4, x', p', f')"
    and s7: "shape x' = [n * mm, 256, ((t - 1) div 2 + 1 - 1) div 2 + 1, Suc v]"
    by blast
  have "GLBGCN_forward ?m x = Inr x'"
    unfolding GLBGCN_forward_def ic rd using 1 2 3 4 5 6 7 by (simp add: x)
  with s7 show ?thesis by blast
qed

lemma block_train_True:
  assumes "GLBGCNBlock_init w ci co ks s p r = Inr b"
  shows "GLBGCNBlock_train True b = b"
  using GLBGCNBlock_init_fields(2,3)[OF assms]
  by (simp add: GLBGCNBlock_train_def BatchNorm_init_def)

lemma train_True:
  assumes m: "GLBGCN_init w cin A eiw dbn pre red kw = Inr m"
  shows "GLBGCN_train True m = m"
proof -
  note f = GLBGCN_init_fields[OF m]
  from GLBGCN_init_blocks[OF m] have "map (GLBGCNBlock_train True) (st_gcn_networks m) = st_gcn_networks m"
    by (auto simp: block_train_True)
  then show ?thesis
    by (simp add: GLBGCN_train_def f(7) f(8) BatchNorm_init_def)
qed

lemma block_strides:
  assumes m: "GLBGCN_init w cin A eiw dbn pre red kw = Inr m"
  shows "\<forall>j<10. \<exists>cv. tcn (st_gcn_networks m ! j) ! 2 = Conv cv \<and> conv_kernel cv = (9, 1)
           \<and> conv_padding cv = (4, 0)
           \<and> conv_stride cv = (if j = 4 \<or> j = 7 then 2 else 1, 1)"
proof -
  from GLBGCN_init_blocks[OF m] obtain b0 b1 b2 b3 b4 b5 b6 b7 b8 b9 p where
    bs: "st_gcn_networks m = [b0, b1, b2, b3, b4, b5, b6, b7, b8, b9]" and
    b: "GLBGCNBlock_init (\<lambda>q. w (Block 0 q)) cin 64 [9, shape A ! 0] 1 0 False = Inr b0"
      "GLBGCNBlock_init (\<lambda>q. w (Block 1 q)) 64 64 [9, shape A ! 0] 1 p True = Inr b1"
      "GLBGCNBlock_init (\<lambda>q. w (Block 2 q)) 64 64 [9, shape A ! 0] 1 p True = Inr b2"
      "GLBGCNBlock_init (\<lambda>q. w (Block 3 q)) 64 64 [9, shape A ! 0] 1 p True = Inr b3"
      "GLBGCNBlock_init (\<lambda>q. w (Block 4 q)) 64 128 [9, shape A ! 0] 2 p True = Inr b4"
      "GLBGCNBlock_init (\<lambda>q. w (Block 5 q)) 128 128 [9, shape A ! 0] 1 p True = Inr b5"
      "GLBGCNBlock_init (\<lambda>q. w (Block 6 q)) 128 128 [9, shape A ! 0] 1 p True = Inr b6"
      "GLBGCNBlock_init (\<lambda>q. w (Block 7 q)) 128 256 [9, shape A ! 0] 2 p True = Inr b7"
      "GLBGCNBlock_init (\<lambda>q. w (Block 8 q)) 256 256 [9, shape A ! 0] 1 p True = Inr b8"
      "GLBGCNBlock_init (\<lambda>q. w (Block 9 q)) 256 256 [9, shape A ! 0] 1 p True = Inr b9"
    by auto
  note t = b[THEN GLBGCNBlock_init_fields(2)]
  have j: "j < 10 \<Longrightarrow> j \<in> {0, 1, 2, 3, 4, 5, 6, 7, 8, 9}" for j :: nat by auto
  show ?thesis
  proof (intro allI impI)
    fix j :: nat assume "j < 10"
    then have "j \<in> {0, 1, 2, 3, 4, 5, 6, 7, 8, 9}" by (rule j)
    then show "\<exists>cv. tcn (st_gcn_networks m ! j) ! 2 = Conv cv \<and> conv_kernel cv = (9, 1)
           \<and> conv_padding cv = (4, 0)
           \<and> conv_stride cv = (if j = 4 \<or> j = 7 then 2 else 1, 1)"
      by (auto simp: bs t)
  qed
qed

text \<open>
  C1. For an adjacency array of size \<open>(K, v + 1, v + 1)\<close> and a non-empty input of size
  \<open>(n, in_channels + 32, t, v, mm)\<close>, \<^verbatim>\<open>GLBGCN.forward\<close> returns a tensor of size
  \<open>(n * mm, 256, t'', v + 1)\<close>, where \<open>t''\<close> is \<open>t\<close> after two temporal convolutions of
  kernel size 9, padding 4 and stride 2; the temporal convolution of block \<open>j\<close> has stride
  2 exactly for \<open>j = 4\<close> and \<open>j = 7\<close>. In training mode with batch normalisation the
  library refuses a batch with a single value per channel (\<open>n * mm * t = 1\<close>).
\<close>

theorem GLBGCN_forward_shape:
  assumes "GLBGCN_init w in_channels A eiw dbn pre red kw = Inr m"
    and "shape A = [K, v + 1, v + 1]" and "0 < K" and "0 < in_channels"
    and "shape x = [n, in_channels + 32, t, v, mm]"
    and "0 < n" and "0 < t" and "0 < v" and "0 < mm"
    and "mode \<and> dbn \<longrightarrow> n * mm * t \<noteq> 1"
  shows "(\<exists>y. GLBGCN_forward (GLBGCN_train mode m) x = Inr y
            \<and> shape y = [n * mm, 256, ((t + 2 * 4 - 9) div 2 + 1 + 2 * 4 - 9) div 2 + 1, v + 1])
     \<and> (\<forall>j<10. \<exists>cv. tcn (st_gcn_networks m ! j) ! 2 = Conv cv \<and> conv_kernel cv = (9, 1)
           \<and> conv_padding cv = (4, 0)
           \<and> conv_stride cv = (if j = 4 \<or> j = 7 then 2 else 1, 1))"
proof -
  have sA: "shape A = [K, Suc v, Suc v]" using assms(2) by simp
  have "((t + 2 * 4 - 9) div 2 + 1 + 2 * 4 - 9) div 2 + 1 = ((t - 1) div 2 + 1 - 1) div 2 + 1"
    by simp
  with forward_ok[OF assms(1) sA assms(3) assms(8) assms(7) assms(5) assms(10)]
    block_strides[OF assms(1)] assms(4)
  show ?thesis by simp
qed

theorem GLBGCN_forward_shape_witness:
  "\<exists>m. GLBGCN_init (\<lambda>p x i. 0) 3 (mk_tensor [3, 26, 26] (\<lambda>i. 1)) True True PyNone ''avg'' None
         = Inr m
       \<and> (\<exists>y. GLBGCN_forward m (mk_tensor [2, 3 + 32, 30, 25, 2] (\<lambda>i. 1)) = Inr y
              \<and> shape y = [4, 256, 8, 26])"
proof -
  let ?A = "mk_tensor [3, 26, 26] (\<lambda>i. 1)"
  let ?x = "mk_tensor [2, 3 + 32, 30, 25, 2] (\<lambda>i. 1)"
  have "\<exists>m. GLBGCN_init (\<lambda>p x i. 0) 3 ?A True True PyNone ''avg'' None = Inr m"
    by (rule GLBGCN_init_ok) simp_all
  then obtain m where m: "GLBGCN_init (\<lambda>p x i. 0) 3 ?A True True PyNone ''avg'' None = Inr m"
    by blast
  have "\<exists>y. GLBGCN_forward (GLBGCN_train True m) ?x = Inr y
            \<and> shape y = [2 * 2, 256, ((30 + 2 * 4 - 9) div 2 + 1 + 2 * 4 - 9) div 2 + 1, 25 + 1]"
    using GLBGCN_forward_shape[OF m, where K = 3 and v = 25 and x = ?x and n = 2 and t = 30 and mm = 2
        and mode = True] by simp
  then show ?thesis
    using m by (simp add: train_True[OF m])
qed

theorem GLBGCN_edge_importance_identity_witness:
  "\<exists>m1 m2 y.
     GLBGCN_init (\<lambda>p x i. 0) 3 (mk_tensor [3, 26, 26] (\<lambda>i. 1)) False True PyNone ''avg'' None
       = Inr m1
     \<and> GLBGCN_init (\<lambda>p x i. 0) 3 (mk_tensor [3, 26, 26] (\<lambda>i. 1)) True True PyNone ''avg'' None
       = Inr m2
     \<and> GLBGCN_forward m1 (mk_tensor [2, 35, 30, 25, 2] (\<lambda>i. 1)) = Inr y
     \<and> GLBGCN_forward m2 (mk_tensor [2, 35, 30, 25, 2] (\<lambda>i. 1)) = Inr y
     \<and> edge_importance m1 = replicate 10 (PyInt 1)
     \<and> edge_importance m2 = replicate 10 (PyTensor (ones [3, 26, 26]))"
proof -
  let ?A = "mk_tensor [3, 26, 26] (\<lambda>i. 1)"
  let ?x = "mk_tensor [2, 35, 30, 25, 2] (\<lambda>i. 1)"
  have "\<exists>m. GLBGCN_init (\<lambda>p x i. 0) 3 ?A False True PyNone ''avg'' None = Inr m"
    by (rule GLBGCN_init_ok) simp_all
  then obtain m1 where m1: "GLBGCN_init (\<lambda>p x i. 0) 3 ?A False True PyNone ''avg'' None = Inr m1"
    by blast
  have "\<exists>m. GLBGCN_init (\<lambda>p x i. 0) 3 ?A True True PyNone ''avg'' None = Inr m"
    by (rule GLBGCN_init_ok) simp_all
  then obtain m2 where m2: "GLBGCN_init (\<lambda>p x i. 0) 3 ?A True True PyNone ''avg'' None = Inr m2"
    by blast
  note e = GLBGCN_edge_importance_identity[OF m1 m2, of ?x]
  have "\<exists>y. GLBGCN_forward (GLBGCN_train True m1) ?x = Inr y
            \<and> shape y = [2 * 2, 256, ((30 - 1) div 2 + 1 - 1) div 2 + 1, Suc 25]"
    by (rule forward_ok[OF m1, where K = 3 and v = 25 and t = 30 and x = ?x and n = 2 and mm = 2
          and mode = True]) simp_all
  then obtain y where y: "GLBGCN_forward m1 ?x = Inr y"
    by (auto simp: train_True[OF m1])
  have "shape (graph_A m2) = [3, 26, 26]"
    by (simp add: GLBGCN_init_fields(1)[OF m2])
  then have e2: "edge_importance m2 = replicate 10 (PyTensor (ones [3, 26, 26]))"
    using e by simp
  from e have e1: "edge_importance m1 = replicate 10 (PyInt 1)" by simp
  from e y have y2: "GLBGCN_forward m2 ?x = Inr y" by simp
  from m1 m2 y y2 e1 e2 show ?thesis by blast
qed

lemma init_first_stage:
  assumes m: "GLBGCN_init w cin A eiw dbn pre red kw = Inr m"
  shows "\<exists>b0 zs. zip (st_gcn_networks (GLBGCN_train mode m))
                (zip (edge_importance (GLBGCN_train mode m))
                   (feature_transform (GLBGCN_train mode m)))
           = (GLBGCNBlock_train mode b0,
              if eiw then PyTensor (ones (shape A)) else PyInt 1,
              Linear_init (w (Transform 0)) 32 cin) # zs
         \<and> GLBGCNBlock_init (\<lambda>q. w (Block 0 q)) cin 64 [9, shape A ! 0] 1 0 False = Inr b0"
proof -
  note f = GLBGCN_init_fields[OF m]
  from GLBGCN_init_blocks[OF m] show ?thesis
    by (auto simp: GLBGCN_train_def f(9) f(11))
qed


lemma reduce_inv:
  assumes "(if red = ''avg'' then mean_dim 3 x else amax_dim 3 x) = Inr y"
  shows "3 < length (shape x) \<and> shape y = (shape x)[3 := 1]"
  using assms by (auto split: if_splits dest: mean_dim_inv amax_dim_inv)

lemma stage_feature_inv:
  assumes st: "stage m c (b, imp, fc) (i, x, x_pos, x_feature) = Inr r"
    and xf: "shape x_feature = [a, cf, t, u]"
  shows "cf = in_features fc"
proof -
  from st obtain f1 f2 where 1: "permute [0, 2, 3, 1] x_feature = Inr f1"
    and 2: "Linear_forward fc f1 = Inr f2"
    unfolding stage_def by (auto simp: bindE_eq_Inr)
  from permute_inv[OF 1] have "shape f1 = [a, t, u, cf]" by (simp add: xf)
  with Linear_forward_inv[OF 2] show ?thesis by simp
qed

lemma forward_inv:
  assumes m: "GLBGCN_init w cin A eiw dbn pre red kw = Inr m"
    and fw: "GLBGCN_forward (GLBGCN_train mode m) x = Inr y"
  shows "\<exists>n t v mm. shape x = [n, cin + 32, t, v, mm]
           \<and> (dbn \<and> 0 < n * mm * t * v \<longrightarrow> v + 1 = shape A ! 1)"
proof -
  let ?m = "GLBGCN_train mode m"
  note f = GLBGCN_init_fields[OF m]
  have ic: "in_channel ?m = cin" by (simp add: GLBGCN_train_def f(2))
  have rd: "reduction ?m = red" by (simp add: GLBGCN_train_def f(3))
  have 0: "\<not> length (shape x) < 5"
    using fw by (auto simp: GLBGCN_forward_def)
  from fw obtain p0 f0 f1 f2 c p1 r where
    1: "slice_dim 1 0 (Some (int cin)) x = Inr p0" and
    2: "slice_dim 1 (int cin) None x = Inr f0" and
    3: "normalise (data_bn_feature ?m) f0 = Inr f1" and
    4: "(if red = ''avg'' then mean_dim 3 f1 else amax_dim 3 f1) = Inr f2" and
    5: "permute [0, 2, 3, 1] f2 = Inr c" and
    6: "normalise (data_bn ?m) p0 = Inr p1" and
    7: "stages ?m c (zip (st_gcn_networks ?m) (zip (edge_importance ?m) (feature_transform ?m)))
          (0, x, p1, f2) = Inr r"
    unfolding GLBGCN_forward_def ic rd using 0
    by (auto simp: bindE_eq_Inr Let_def)
  from normalise_inv[OF 3] obtain n cf t v mm where
    s0: "shape f0 = [n, cf, t, v, mm]" and s1: "shape f1 = [n * mm, cf, t, v]"
    and nf: "\<And>b. data_bn_feature ?m = Some b \<Longrightarrow> 0 < n * mm * t * (v * cf)
                 \<Longrightarrow> num_features b = v * cf"
    by blast
  from slice_dim_inv[OF 2] s0 have
    e: "[n, cf, t, v, mm] = (shape x)[1 := shape x ! 1 - slice_bound (shape x ! 1) (int cin)]"
    by simp
  have "length (shape x) = length [n, cf, t, v, mm]"
    by (subst e) simp
  then have "length (shape x) = 5" by simp
  then obtain n' C t' v' mm' where x: "shape x = [n', C, t', v', mm']"
    by (auto simp: length_Suc_conv eval_nat_numeral)
  from e x have x': "shape x = [n, C, t, v, mm]" and cf: "cf = C - slice_bound C (int cin)"
    by simp_all
  from reduce_inv[OF 4] have s2: "shape f2 = [n * mm, cf, t, 1]" by (simp add: s1)
  from init_first_stage[OF m, of mode] obtain b0 zs where
    z: "zip (st_gcn_networks ?m) (zip (edge_importance ?m) (feature_transform ?m))
           = (GLBGCNBlock_train mode b0,
              if eiw then PyTensor (ones (shape A)) else PyInt 1,
              Linear_init (w (Transform 0)) 32 cin) # zs"
    by blast
  from 7 obtain r1 where
    8: "stage ?m c (GLBGCNBlock_train mode b0,
              if eiw then PyTensor (ones (shape A)) else PyInt 1,
              Linear_init (w (Transform 0)) 32 cin) (0, x, p1, f2) = Inr r1"
    unfolding z by (auto simp: bindE_eq_Inr)
  have cf32: "cf = 32"
    using stage_feature_inv[OF 8 s2] by (simp add: Linear_init_def)
  have C: "C = cin + 32"
    using cf cf32 by (auto simp: slice_bound_def min_def split: if_splits)
  have "v + 1 = shape A ! 1" if dbn and ne: "0 < n * mm * t * v"
  proof -
    have "data_bn_feature ?m = Some ((BatchNorm_init (w DataBnFeature) (32 * (shape A ! 1 - 1)))
            \<lparr>bn_training := mode\<rparr>)"
      using that by (simp add: GLBGCN_train_def f(8))
    from nf[OF this] ne have "32 * (shape A ! 1 - 1) = v * 32"
      by (simp add: BatchNorm_init_def cf32)
    with ne show ?thesis by (cases "shape A ! 1") auto
  qed
  then have "dbn \<and> 0 < n * mm * t * v \<longrightarrow> v + 1 = shape A ! 1" by simp
  with x' C show ?thesis by simp
qed


lemma normalise_cases:
  assumes x: "shape x = [n, c, t, v, m]"
    and tr: "case bn of None \<Rightarrow> True
             | Some b \<Rightarrow> \<not> (bn_training b \<and> n * m * t = 1) \<and> 0 < num_features b"
  shows "normalise bn x = Inl RuntimeError
         \<or> (\<exists>y. normalise bn x = Inr y \<and> shape y = [n * m, c, t, v])"
proof -
  obtain x1 where 1: "permute [0, 4, 3, 1, 2] x = Inr x1" and s1: "shape x1 = [n, m, v, c, t]"
    using permute_ok[of "[0, 4, 3, 1, 2]" x] by (auto simp: x)
  obtain x2 where 2: "view [n * m, v * c, t] x1 = Inr x2" and s2: "shape x2 = [n * m, v * c, t]"
    using view_ok[of "[n * m, v * c, t]" x1] by (auto simp: s1)
  have "(case bn of None \<Rightarrow> Inr (identity x2) | Some b \<Rightarrow> BatchNorm1d_forward b x2)
          = Inl RuntimeError
        \<or> (\<exists>x3. (case bn of None \<Rightarrow> Inr (identity x2) | Some b \<Rightarrow> BatchNorm1d_forward b x2)
                 = Inr x3 \<and> shape x3 = [n * m, v * c, t])"
    using tr by (auto simp: BatchNorm1d_forward_def batch_norm_def identity_def s2
        split: option.splits)
  then show ?thesis
  proof
    assume "(case bn of None \<Rightarrow> Inr (identity x2) | Some b \<Rightarrow> BatchNorm1d_forward b x2)
          = Inl RuntimeError"
    then have "normalise bn x = Inl RuntimeError"
      using 1 2 by (simp add: normalise_def float_def contiguous_def x)
    then show ?thesis ..
  next
    assume "\<exists>x3. (case bn of None \<Rightarrow> Inr (identity x2) | Some b \<Rightarrow> BatchNorm1d_forward b x2)
                 = Inr x3 \<and> shape x3 = [n * m, v * c, t]"
    then obtain x3 where
      3: "(case bn of None \<Rightarrow> Inr (identity x2) | Some b \<Rightarrow> BatchNorm1d_forward b x2) = Inr x3"
      and s3: "shape x3 = [n * m, v * c, t]" by blast
    obtain x4 where 4: "view [n, m, v, c, t] x3 = Inr x4" and s4: "shape x4 = [n, m, v, c, t]"
      using view_ok[of "[n, m, v, c, t]" x3] by (auto simp: s3 ac_simps)
    obtain x5 where 5: "permute [0, 1, 3, 4, 2] x4 = Inr x5" and s5: "shape x5 = [n, m, c, t, v]"
      using permute_ok[of "[0, 1, 3, 4, 2]" x4] by (auto simp: s4)
    obtain x6 where 6: "view [n * m, c, t, v] x5 = Inr x6" and s6: "shape x6 = [n * m, c, t, v]"
      using view_ok[of "[n * m, c, t, v]" x5] by (auto simp: s5 ac_simps)
    have "normalise bn x = Inr x6"
      using 1 2 3 4 5 6 by (simp add: normalise_def float_def contiguous_def x)
    with s6 show ?thesis by blast
  qed
qed

lemma forward_channel_error:
  assumes m: "GLBGCN_init w cin A eiw dbn pre red kw = Inr m"
    and x: "shape x = [n, C, t, v, mm]" and C: "C \<noteq> cin + 32" and v: "0 < v"
    and tr: "\<not> (mode \<and> dbn \<and> n * mm * t = 1)"
    and pos: "dbn \<longrightarrow> 2 \<le> shape A ! 1 \<and> 0 < cin"
  shows "GLBGCN_forward (GLBGCN_train mode m) x = Inl RuntimeError"
proof -
  let ?m = "GLBGCN_train mode m"
  let ?cf = "C - slice_bound C (int cin)"
  let ?cp = "slice_bound C (int cin)"
  note f = GLBGCN_init_fields[OF m]
  have ic: "in_channel ?m = cin" by (simp add: GLBGCN_train_def f(2))
  have rd: "reduction ?m = red" by (simp add: GLBGCN_train_def f(3))
  have cf: "?cf \<noteq> 32"
    using C by (auto simp: slice_bound_def min_def)
  have sb0: "slice_bound C 0 = 0" by (simp add: slice_bound_def)
  obtain p0 where 1: "slice_dim 1 0 (Some (int cin)) x = Inr p0"
    and s1: "shape p0 = [n, ?cp, t, v, mm]"
    using slice_dim_ok[of 1 x 0 "Some (int cin)"] by (auto simp: x sb0)
  obtain f0 where 2: "slice_dim 1 (int cin) None x = Inr f0"
    and s2: "shape f0 = [n, ?cf, t, v, mm]"
    using slice_dim_ok[of 1 x "int cin" None] by (auto simp: x)
  have trf: "case data_bn_feature ?m of None \<Rightarrow> True
             | Some b \<Rightarrow> \<not> (bn_training b \<and> n * mm * t = 1) \<and> 0 < num_features b"
    using tr pos by (auto simp: GLBGCN_train_def f(8) BatchNorm_init_def)
  have trp: "case data_bn ?m of None \<Rightarrow> True
             | Some b \<Rightarrow> \<not> (bn_training b \<and> n * mm * t = 1) \<and> 0 < num_features b"
    using tr pos by (auto simp: GLBGCN_train_def f(7) BatchNorm_init_def)
  have len: "\<not> length (shape x) < 5" by (simp add: x)
  from normalise_cases[OF s2 trf] show ?thesis
  proof
    assume "normalise (data_bn_feature ?m) f0 = Inl RuntimeError"
    then show ?thesis
      unfolding GLBGCN_forward_def ic rd using 1 2 len by simp
  next
    assume "\<exists>y. normalise (data_bn_feature ?m) f0 = Inr y \<and> shape y = [n * mm, ?cf, t, v]"
    then obtain f1 where 3: "normalise (data_bn_feature ?m) f0 = Inr f1"
      and s3: "shape f1 = [n * mm, ?cf, t, v]" by blast
    have "\<exists>y. (if red = ''avg'' then mean_dim 3 f1 else amax_dim 3 f1) = Inr y
          \<and> shape y = [n * mm, ?cf, t, 1]"
      using mean_dim_ok[of 3 f1] amax_dim_ok[of 3 f1] v by (auto simp: s3)
    then obtain f2 where 4: "(if red = ''avg'' then mean_dim 3 f1 else amax_dim 3 f1) = Inr f2"
      and s4: "shape f2 = [n * mm, ?cf, t, 1]" by blast
    obtain c where 5: "permute [0, 2, 3, 1] f2 = Inr c"
      using permute_ok[of "[0, 2, 3, 1]" f2] by (auto simp: s4)
    from normalise_cases[OF s1 trp] show ?thesis
    proof
      assume "normalise (data_bn ?m) p0 = Inl RuntimeError"
      then show ?thesis
        unfolding GLBGCN_forward_def ic rd using 1 2 3 4 5 len by simp
    next
      assume "\<exists>y. normalise (data_bn ?m) p0 = Inr y \<and> shape y = [n * mm, ?cp, t, v]"
      then obtain p1 where 6: "normalise (data_bn ?m) p0 = Inr p1" by blast
      from init_first_stage[OF m, of mode] obtain b0 zs where
        z: "zip (st_gcn_networks ?m) (zip (edge_importance ?m) (feature_transform ?m))
           = (GLBGCNBlock_train mode b0,
              if eiw then PyTensor (ones (shape A)) else PyInt 1,
              Linear_init (w (Transform 0)) 32 cin) # zs"
        by blast
      obtain g1 where 7: "permute [0, 2, 3, 1] f2 = Inr g1" and s7: "shape g1 = [n * mm, t, 1, ?cf]"
        using permute_ok[of "[0, 2, 3, 1]" f2] by (auto simp: s4)
      have 8: "Linear_forward (Linear_init (w (Transform 0)) 32 cin) g1 = Inl RuntimeError"
        using cf by (simp add: Linear_forward_def Linear_init_def s7)
      have "stage ?m c (GLBGCNBlock_train mode b0,
              if eiw then PyTensor (ones (shape A)) else PyInt 1,
              Linear_init (w (Transform 0)) 32 cin) (0, x, p1, f2) = Inl RuntimeError"
        unfolding stage_def using 7 8 by simp
      then have "stages ?m c
          (zip (st_gcn_networks ?m) (zip (edge_importance ?m) (feature_transform ?m)))
          (0, x, p1, f2) = Inl RuntimeError"
        unfolding z by simp
      then show ?thesis
        unfolding GLBGCN_forward_def ic rd using 1 2 3 4 5 6 len by simp
    qed
  qed
qed

text \<open>
  C10. The constructor sizes the feature normalisation, the first transform projection
  and the four residue projections for 32 auxiliary channels. \<^verbatim>\<open>GLBGCN.forward\<close> returns
  a tensor only for an input of five dimensions with exactly \<open>in_channels + 32\<close> channels;
  for every other channel count it raises. The exception is the library's size mismatch
  error (RuntimeError) when the input has at least one node, when in training mode with
  batch normalisation there is more than one value per channel, and when the two batch
  normalisations have at least one feature (an adjacency array of at least two nodes and
  at least one pose channel). Without these conditions another exception can come first:
  the maximum over no node and the normalisation of an empty stream by a layer without
  features raise IndexError, a single value per channel raises ValueError.
\<close>

theorem GLBGCN_feature_channels:
  assumes "GLBGCN_init w in_channels A eiw dbn pre red kw = Inr m"
  shows "(\<forall>b. data_bn_feature m = Some b \<longrightarrow> num_features b = 32 * (shape A ! 1 - 1))
     \<and> in_features (feature_transform m ! 0) = 32
     \<and> (\<forall>i<4. in_features (feature_residue m ! i) = 32)
     \<and> (\<forall>mode x y. GLBGCN_forward (GLBGCN_train mode m) x = Inr y \<longrightarrow>
           length (shape x) = 5 \<and> shape x ! 1 = in_channels + 32)
     \<and> (\<forall>mode n C t v mm x. shape x = [n, C, t, v, mm] \<and> C \<noteq> in_channels + 32 \<longrightarrow>
           (\<exists>e. GLBGCN_forward (GLBGCN_train mode m) x = Inl e))
     \<and> (\<forall>mode n C t v mm x. shape x = [n, C, t, v, mm] \<and> C \<noteq> in_channels + 32
           \<and> 0 < v \<and> \<not> (mode \<and> dbn \<and> n * mm * t = 1)
           \<and> (dbn \<longrightarrow> 2 \<le> shape A ! 1 \<and> 0 < in_channels) \<longrightarrow>
           GLBGCN_forward (GLBGCN_train mode m) x = Inl RuntimeError)"
proof -
  note f = GLBGCN_init_fields[OF assms]
  have a: "\<forall>b. data_bn_feature m = Some b \<longrightarrow> num_features b = 32 * (shape A ! 1 - 1)"
    by (auto simp: f(8) BatchNorm_init_def split: if_splits)
  have b: "in_features (feature_transform m ! 0) = 32"
    by (simp add: f(9) Linear_init_def)
  have i: "i < 4 \<Longrightarrow> i \<in> {0, 1, 2, 3}" for i :: nat by auto
  have c: "\<forall>i<4. in_features (feature_residue m ! i) = 32"
  proof (intro allI impI)
    fix i :: nat assume "i < 4"
    then have "i \<in> {0, 1, 2, 3}" by (rule i)
    then show "in_features (feature_residue m ! i) = 32"
      by (auto simp: f(10) Linear_init_def)
  qed
  have d: "length (shape x) = 5 \<and> shape x ! 1 = in_channels + 32"
    if "GLBGCN_forward (GLBGCN_train mode m) x = Inr y" for mode x y
    using forward_inv[OF assms that] by auto
  have e: "\<exists>e. GLBGCN_forward (GLBGCN_train mode m) x = Inl e"
    if "shape x = [n, C, t, v, mm]" "C \<noteq> in_channels + 32" for mode n C t v mm x
  proof (cases "GLBGCN_forward (GLBGCN_train mode m) x")
    case (Inl e)
    then show ?thesis by blast
  next
    case (Inr y)
    from d[OF Inr] that show ?thesis by simp
  qed
  have g: "GLBGCN_forward (GLBGCN_train mode m) x = Inl RuntimeError"
    if "shape x = [n, C, t, v, mm]" "C \<noteq> in_channels + 32" "0 < v"
      "\<not> (mode \<and> dbn \<and> n * mm * t = 1)" "dbn \<longrightarrow> 2 \<le> shape A ! 1 \<and> 0 < in_channels"
    for mode n C t v mm x
    using assms that by (rule forward_channel_error)
  from a b c d e g show ?thesis by blast
qed

theorem GLBGCN_feature_channels_witness:
  "\<exists>m. GLBGCN_init (\<lambda>p x i. 0) 3 (mk_tensor [3, 26, 26] (\<lambda>i. 1)) True True PyNone ''avg'' None
         = Inr m
       \<and> in_features (feature_transform m ! 0) = 32
       \<and> GLBGCN_forward m (mk_tensor [2, 3 + 31, 30, 25, 2] (\<lambda>i. 1)) = Inl RuntimeError"
proof -
  let ?A = "mk_tensor [3, 26, 26] (\<lambda>i. 1)"
  let ?x = "mk_tensor [2, 3 + 31, 30, 25, 2] (\<lambda>i. 1)"
  have "\<exists>m. GLBGCN_init (\<lambda>p x i. 0) 3 ?A True True PyNone ''avg'' None = Inr m"
    by (rule GLBGCN_init_ok) simp_all
  then obtain m where m: "GLBGCN_init (\<lambda>p x i. 0) 3 ?A True True PyNone ''avg'' None = Inr m"
    by blast
  note t = GLBGCN_feature_channels[OF m]
  from t have 1: "in_features (feature_transform m ! 0) = 32" by blast
  from t have "shape ?x = [2, 3 + 31, 30, 25, 2] \<and> 3 + 31 \<noteq> (3::nat) + 32
           \<and> 0 < (25::nat) \<and> \<not> (True \<and> True \<and> 2 * 2 * 30 = (1::nat))
           \<and> (True \<longrightarrow> 2 \<le> shape ?A ! 1 \<and> 0 < (3::nat)) \<longrightarrow>
           GLBGCN_forward (GLBGCN_train True m) ?x = Inl RuntimeError"
    by blast
  then have "GLBGCN_forward m ?x = Inl RuntimeError"
    by (simp add: train_True[OF m])
  with m 1 show ?thesis by blast
qed

lemma stages_from1_ok:
  assumes m: "GLBGCN_init w cin A eiw dbn pre red kw = Inr m"
    and sA: "shape A = [K, Suc v, Suc v]"
    and K: "0 < K" and v: "0 < v" and t: "0 < t"
    and c: "shape c = [a, t, 1, 32]"
    and sp0: "shape p0 = [a, 64, t, v]" and sf0: "shape f0 = [a, 64, t, 1]"
  shows "\<exists>x' p' f'.
           stages (GLBGCN_train mode m) c
             (tl (zip (st_gcn_networks (GLBGCN_train mode m))
                (zip (edge_importance (GLBGCN_train mode m))
                   (feature_transform (GLBGCN_train mode m)))))
             (1, x0, p0, f0) = Inr (4, x', p', f')
           \<and> shape x' = [a, 256, ((t - 1) div 2 + 1 - 1) div 2 + 1, Suc v]"
proof -
  let ?m = "GLBGCN_train mode m"
  let ?t1 = "(t - 1) div 2 + 1"
  let ?t2 = "(?t1 - 1) div 2 + 1"
  let ?imp = "if eiw then PyTensor (ones (shape A)) else PyInt 1"
  let ?ft = "feature_transform m"
  have t1: "0 < ?t1" and t2: "0 < ?t2" by simp_all
  note f = GLBGCN_init_fields[OF m]
  note ft = f(9)
  from GLBGCN_init_blocks[OF m] obtain b0 b1 b2 b3 b4 b5 b6 b7 b8 b9 p where
    bs: "st_gcn_networks m = [b0, b1, b2, b3, b4, b5, b6, b7, b8, b9]" and
    b: "GLBGCNBlock_init (\<lambda>q. w (Block 0 q)) cin 64 [9, K] 1 0 False = Inr b0"
      "GLBGCNBlock_init (\<lambda>q. w (Block 1 q)) 64 64 [9, K] 1 p True = Inr b1"
      "GLBGCNBlock_init (\<lambda>q. w (Block 2 q)) 64 64 [9, K] 1 p True = Inr b2"
      "GLBGCNBlock_init (\<lambda>q. w (Block 3 q)) 64 64 [9, K] 1 p True = Inr b3"
      "GLBGCNBlock_init (\<lambda>q. w (Block 4 q)) 64 128 [9, K] 2 p True = Inr b4"
      "GLBGCNBlock_init (\<lambda>q. w (Block 5 q)) 128 128 [9, K] 1 p True = Inr b5"
      "GLBGCNBlock_init (\<lambda>q. w (Block 6 q)) 128 128 [9, K] 1 p True = Inr b6"
      "GLBGCNBlock_init (\<lambda>q. w (Block 7 q)) 128 256 [9, K] 2 p True = Inr b7"
      "GLBGCNBlock_init (\<lambda>q. w (Block 8 q)) 256 256 [9, K] 1 p True = Inr b8"
      "GLBGCNBlock_init (\<lambda>q. w (Block 9 q)) 256 256 [9, K] 1 p True = Inr b9"
    by (auto simp: sA)
  have gA: "graph_A ?m = mk_tensor (shape A) (elem A)"
    by (simp add: GLBGCN_train_def f(1))
  have A: "shape (graph_A ?m) = [K, Suc v, Suc v]"
    by (simp add: gA sA)
  have imp: "tensor_mul (graph_A ?m) ?imp = Inr (mk_tensor (shape A) (elem A))"
    "shape (mk_tensor (shape A) (elem A)) = [K, Suc v, Suc v]"
    using tensor_mul_ones[of "graph_A ?m"] tensor_mul_one[of "graph_A ?m"]
    by (simp_all add: gA sA del: tensor_mul.simps)
  have fr: "feature_residue ?m =
                  [Linear_init (w (Residue 0)) 32 cin,
                   Linear_init (w (Residue 1)) 32 64,
                   Linear_init (w (Residue 2)) 32 64,
                   Linear_init (w (Residue 3)) 32 64]"
    by (simp add: GLBGCN_train_def f(10))
  have zs: "zip (st_gcn_networks ?m) (zip (edge_importance ?m) (feature_transform ?m))
      = [(GLBGCNBlock_train mode b0, ?imp, ?ft ! 0), (GLBGCNBlock_train mode b1, ?imp, ?ft ! 1), (GLBGCNBlock_train mode b2, ?imp, ?ft ! 2), (GLBGCNBlock_train mode b3, ?imp, ?ft ! 3), (GLBGCNBlock_train mode b4, ?imp, ?ft ! 4), (GLBGCNBlock_train mode b5, ?imp, ?ft ! 5), (GLBGCNBlock_train mode b6, ?imp, ?ft ! 6), (GLBGCNBlock_train mode b7, ?imp, ?ft ! 7), (GLBGCNBlock_train mode b8, ?imp, ?ft ! 8), (GLBGCNBlock_train mode b9, ?imp, ?ft ! 9)]"
    by (simp add: GLBGCN_train_def f(11) bs ft)
  have "\<exists>x' p' f'. stage ?m c (GLBGCNBlock_train mode b1, ?imp, ?ft ! 1) (1, x0, p0, f0)
             = Inr (if 1 < length (feature_residue ?m) then 1 + 1 else 1, x', p', f')
           \<and> shape x' = [a, 64, (t - 1) div 1 + 1, Suc v]
           \<and> shape p' = [a, 64, (t - 1) div 1 + 1, v]
           \<and> shape f' = [a, 64, (t - 1) div 1 + 1, 1]"
    by (rule stage_ok[OF b(2) A imp _ _ _ sp0 sf0 K v t])
      (simp_all add: fr ft Linear_init_def c)
  then obtain x1 p1 f1 where
    st1: "stage ?m c (GLBGCNBlock_train mode b1, ?imp, ?ft ! 1) (1, x0, p0, f0) = Inr (2, x1, p1, f1)"
    and sx1: "shape x1 = [a, 64, t, Suc v]"
    and sp1: "shape p1 = [a, 64, t, v]"
    and sf1: "shape f1 = [a, 64, t, 1]"
    using t t1 t2 by (auto simp: fr)

  have "\<exists>x' p' f'. stage ?m c (GLBGCNBlock_train mode b2, ?imp, ?ft ! 2) (2, x1, p1, f1)
             = Inr (if 2 < length (feature_residue ?m) then 2 + 1 else 2, x', p', f')
           \<and> shape x' = [a, 64, (t - 1) div 1 + 1, Suc v]
           \<and> shape p' = [a, 64, (t - 1) div 1 + 1, v]
           \<and> shape f' = [a, 64, (t - 1) div 1 + 1, 1]"
    by (rule stage_ok[OF b(3) A imp _ _ _ sp1 sf1 K v t])
      (simp_all add: fr ft Linear_init_def c)
  then obtain x2 p2 f2 where
    st2: "stage ?m c (GLBGCNBlock_train mode b2, ?imp, ?ft ! 2) (2, x1, p1, f1) = Inr (3, x2, p2, f2)"
    and sx2: "shape x2 = [a, 64, t, Suc v]"
    and sp2: "shape p2 = [a, 64, t, v]"
    and sf2: "shape f2 = [a, 64, t, 1]"
    using t t1 t2 by (auto simp: fr)

  have "\<exists>x' p' f'. stage ?m c (GLBGCNBlock_train mode b3, ?imp, ?ft ! 3) (3, x2, p2, f2)
             = Inr (if 3 < length (feature_residue ?m) then 3 + 1 else 3, x', p', f')
           \<and> shape x' = [a, 64, (t - 1) div 1 + 1, Suc v]
           \<and> shape p' = [a, 64, (t - 1) div 1 + 1, v]
           \<and> shape f' = [a, 64, (t - 1) div 1 + 1, 1]"
    by (rule stage_ok[OF b(4) A imp _ _ _ sp2 sf2 K v t])
      (simp_all add: fr ft Linear_init_def c)
  then obtain x3 p3 f3 where
    st3: "stage ?m c (GLBGCNBlock_train mode b3, ?imp, ?ft ! 3) (3, x2, p2, f2) = Inr (4, x3, p3, f3)"
    and sx3: "shape x3 = [a, 64, t, Suc v]"
    and sp3: "shape p3 = [a, 64, t, v]"
    and sf3: "shape f3 = [a, 64, t, 1]"
    using t t1 t2 by (auto simp: fr)

  have "\<exists>x' p' f'. stage ?m c (GLBGCNBlock_train mode b4, ?imp, ?ft ! 4) (4, x3, p3, f3)
             = Inr (if 4 < length (feature_residue ?m) then 4 + 1 else 4, x', p', f')
           \<and> shape x' = [a, 128, (t - 1) div 2 + 1, Suc v]
           \<and> shape p' = [a, 128, (t - 1) div 2 + 1, v]
           \<and> shape f' = [a, 128, (t - 1) div 2 + 1, 1]"
    by (rule stage_ok[OF b(5) A imp _ _ _ sp3 sf3 K v t])
      (simp_all add: fr ft Linear_init_def c)
  then obtain x4 p4 f4 where
    st4: "stage ?m c (GLBGCNBlock_train mode b4, ?imp, ?ft ! 4) (4, x3, p3, f3) = Inr (4, x4, p4, f4)"
    and sx4: "shape x4 = [a, 128, ?t1, Suc v]"
    and sp4: "shape p4 = [a, 128, ?t1, v]"
    and sf4: "shape f4 = [a, 128, ?t1, 1]"
    using t t1 t2 by (auto simp: fr)

  have "\<exists>x' p' f'. stage ?m c (GLBGCNBlock_train mode b5, ?imp, ?ft ! 5) (4, x4, p4, f4)
             = Inr (if 4 < length (feature_residue ?m) then 4 + 1 else 4, x', p', f')
           \<and> shape x' = [a, 128, (?t1 - 1) div 1 + 1, Suc v]
           \<and> shape p' = [a, 128, (?t1 - 1) div 1 + 1, v]
           \<and> shape f' = [a, 128, (?t1 - 1) div 1 + 1, 1]"
    by (rule stage_ok[OF b(6) A imp _ _ _ sp4 sf4 K v t1])
      (simp_all add: fr ft Linear_init_def c)
  then obtain x5 p5 f5 where
    st5: "stage ?m c (GLBGCNBlock_train mode b5, ?imp, ?ft ! 5) (4, x4, p4, f4) = Inr (4, x5, p5, f5)"
    and sx5: "shape x5 = [a, 128, ?t1, Suc v]"
    and sp5: "shape p5 = [a, 128, ?t1, v]"
    and sf5: "shape f5 = [a, 128, ?t1, 1]"
    using t t1 t2 by (auto simp: fr)

  have "\<exists>x' p' f'. stage ?m c (GLBGCNBlock_train mode b6, ?imp, ?ft ! 6) (4, x5, p5, f5)
             = Inr (if 4 < length (feature_residue ?m) then 4 + 1 else 4, x', p', f')
           \<and> shape x' = [a, 128, (?t1 - 1) div 1 + 1, Suc v]
           \<and> shape p' = [a, 128, (?t1 - 1) div 1 + 1, v]
           \<and> shape f' = [a, 128, (?t1 - 1) div 1 + 1, 1]"
    by (rule stage_ok[OF b(7) A imp _ _ _ sp5 sf5 K v t1])
      (simp_all add: fr ft Linear_init_def c)
  then obtain x6 p6 f6 where
    st6: "stage ?m c (GLBGCNBlock_train mode b6, ?imp, ?ft ! 6) (4, x5, p5, f5) = Inr (4, x6, p6, f6)"
    and sx6: "shape x6 = [a, 128, ?t1, Suc v]"
    and sp6: "shape p6 = [a, 128, ?t1, v]"
    and sf6: "shape f6 = [a, 128, ?t1, 1]"
    using t t1 t2 by (auto simp: fr)

  have "\<exists>x' p' f'. stage ?m c (GLBGCNBlock_train mode b7, ?imp, ?ft ! 7) (4, x6, p6, f6)
             = Inr (if 4 < length (feature_residue ?m) then 4 + 1 else 4, x', p', f')
           \<and> shape x' = [a, 256, (?t1 - 1) div 2 + 1, Suc v]
           \<and> shape p' = [a, 256, (?t1 - 1) div 2 + 1, v]
           \<and> shape f' = [a, 256, (?t1 - 1) div 2 + 1, 1]"
    by (rule stage_ok[OF b(8) A imp _ _ _ sp6 sf6 K v t1])
      (simp_all add: fr ft Linear_init_def c)
  then obtain x7 p7 f7 where
    st7: "stage ?m c (GLBGCNBlock_train mode b7, ?imp, ?ft ! 7) (4, x6, p6, f6) = Inr (4, x7, p7, f7)"
    and sx7: "shape x7 = [a, 256, ?t2, Suc v]"
    and sp7: "shape p7 = [a, 256, ?t2, v]"
    and sf7: "shape f7 = [a, 256, ?t2, 1]"
    using t t1 t2 by (auto simp: fr)

  have "\<exists>x' p' f'. stage ?m c (GLBGCNBlock_train mode b8, ?imp, ?ft ! 8) (4, x7, p7, f7)
             = Inr (if 4 < length (feature_residue ?m) then 4 + 1 else 4, x', p', f')
           \<and> shape x' = [a, 256, (?t2 - 1) div 1 + 1, Suc v]
           \<and> shape p' = [a, 256, (?t2 - 1) div 1 + 1, v]
           \<and> shape f' = [a, 256, (?t2 - 1) div 1 + 1, 1]"
    by (rule stage_ok[OF b(9) A imp _ _ _ sp7 sf7 K v t2])
      (simp_all add: fr ft Linear_init_def c)
  then obtain x8 p8 f8 where
    st8: "stage ?m c (GLBGCNBlock_train mode b8, ?imp, ?ft ! 8) (4, x7, p7, f7) = Inr (4, x8, p8, f8)"
    and sx8: "shape x8 = [a, 256, ?t2, Suc v]"
    and sp8: "shape p8 = [a, 256, ?t2, v]"
    and sf8: "shape f8 = [a, 256, ?t2, 1]"
    using t t1 t2 by (auto simp: fr)

  have "\<exists>x' p' f'. stage ?m c (GLBGCNBlock_train mode b9, ?imp, ?ft ! 9) (4, x8, p8, f8)
             = Inr (if 4 < length (feature_residue ?m) then 4 + 1 else 4, x', p', f')
           \<and> shape x' = [a, 256, (?t2 - 1) div 1 + 1, Suc v]
           \<and> shape p' = [a, 256, (?t2 - 1) div 1 + 1, v]
           \<and> shape f' = [a, 256, (?t2 - 1) div 1 + 1, 1]"
    by (rule stage_ok[OF b(10) A imp _ _ _ sp8 sf8 K v t2])
      (simp_all add: fr ft Linear_init_def c)
  then obtain x9 p9 f9 where
    st9: "stage ?m c (GLBGCNBlock_train mode b9, ?imp, ?ft ! 9) (4, x8, p8, f8) = Inr (4, x9, p9, f9)"
    and sx9: "shape x9 = [a, 256, ?t2, Suc v]"
    and sp9: "shape p9 = [a, 256, ?t2, v]"
    and sf9: "shape f9 = [a, 256, ?t2, 1]"
    using t t1 t2 by (auto simp: fr)

  show ?thesis
    unfolding zs using st1 st2 st3 st4 st5 st6 st7 st8 st9 sx9 by simp
qed

lemma gcn_inv:
  assumes f: "ConvTemporalGraphical_forward
                (ConvTemporalGraphical_init wt ci co K 1 1 0 1) x adj = Inr r"
    and x: "shape x = [a, c, t, u]"
  shows "\<exists>bv. bdim u (shape adj ! 1) = Some bv"
proof -
  let ?g = "ConvTemporalGraphical_init wt ci co K 1 1 0 1"
  from f obtain y1 y2 y3 where 1: "Conv2d_forward (conv ?g) x = Inr y1"
    and l: "length (shape y1) = 4"
    and 2: "view [shape y1 ! 0, kernel_size ?g, shape y1 ! 1 div kernel_size ?g,
                  shape y1 ! 2, shape y1 ! 3] y1 = Inr y2"
    and 3: "einsum_nkctv_kvw_nctw y2 adj = Inr y3"
    by (auto simp: ConvTemporalGraphical_forward_def bindE_eq_Inr Let_def split: if_splits)
  from 1 have "shape y1 ! 3 = u"
    by (auto simp: Conv2d_forward_4d[OF x] ConvTemporalGraphical_init_def conv_len_def
        split: if_splits option.splits)
  with view_inv[OF 2] have "shape y2 ! 4 = u" by simp
  with 3 show ?thesis
    by (auto simp: einsum_nkctv_kvw_nctw_def Let_def split: if_splits option.splits)
qed

lemma bdim_cases: "bdim a b = Some c \<Longrightarrow> a = b \<or> a = 1 \<or> b = 1"
  by (auto simp: bdim_def split: if_splits)

lemma stage_nodes_inv:
  assumes st: "stage m c (GLBGCNBlock_train mode b, imp, fc) (i, x, x_pos, x_feature) = Inr r"
    and init: "GLBGCNBlock_init w ci co ks s p r' = Inr b"
    and xp: "shape x_pos = [a, cp, t, v]"
    and xf: "shape x_feature = [a', cf, t', 1]"
    and A: "length (shape (graph_A m)) = 3"
    and imp: "imp = PyInt 1 \<or> imp = PyTensor (ones (shape (graph_A m)))"
  shows "v + 1 = shape (graph_A m) ! 1 \<or> v = 0 \<or> shape (graph_A m) ! 1 = 1"
proof -
  have tm: "tensor_mul (graph_A m) imp = Inr (mk_tensor (shape (graph_A m)) (elem (graph_A m)))"
    using imp tensor_mul_ones[of "graph_A m"] tensor_mul_one[of "graph_A m"] by auto
  from st obtain f1 f2 f3 f4 i' x1 r1 where
    1: "permute [0, 2, 3, 1] x_feature = Inr f1" and
    2: "Linear_forward fc f1 = Inr f2" and
    3: "permute [0, 3, 1, 2] f2 = Inr f3" and
    4: "(if i < length (feature_residue m)
               then
                 bindE (Linear_forward (feature_residue m ! i) c) (\<lambda>r.
                 bindE (permute [0, 3, 1, 2] r) (\<lambda>x_feature_res.
                 bindE (tensor_iadd f3 x_feature_res) (\<lambda>x_feature.
                 Inr (x_feature, i + 1))))
               else Inr (f3, i)) = Inr (f4, i')" and
    5: "cat 3 x_pos f4 = Inr x1" and
    6: "GLBGCNBlock_forward (GLBGCNBlock_train mode b) x1
          (mk_tensor (shape (graph_A m)) (elem (graph_A m))) = Inr r1"
    unfolding stage_def by (auto simp: bindE_eq_Inr tm simp del: tensor_mul.simps)
  from cat_inv[OF 5] have e: "[a, cp, t, 0] = (shape f4)[3 := 0]"
    and s1: "shape x1 = [a, cp, t, v + shape f4 ! 3]"
    by (simp_all add: xp)
  from 6 obtain g where
    7: "ConvTemporalGraphical_forward (gcn (GLBGCNBlock_train mode b)) x1
          (mk_tensor (shape (graph_A m)) (elem (graph_A m))) = Inr g"
    by (auto simp: GLBGCNBlock_forward_def bindE_eq_Inr)
  have g: "gcn (GLBGCNBlock_train mode b) = ConvTemporalGraphical_init (w GcnConv) ci co (ks ! 1) 1 1 0 1"
    by (simp add: GLBGCNBlock_train_def GLBGCNBlock_init_fields(1)[OF init])
  from gcn_inv[OF 7[unfolded g] s1] obtain bv where
    b: "bdim (v + shape f4 ! 3) (shape (graph_A m) ! 1) = Some bv"
    by auto
  have "shape f1 = [a', t', 1, cf]" using permute_inv[OF 1] by (simp add: xf)
  then have "shape f2 = [a', t', 1, out_features fc]"
    using Linear_forward_inv[OF 2] by simp
  then have s3: "shape f3 = [a', out_features fc, t', 1]"
    using permute_inv[OF 3] by simp
  have "shape f4 = shape f3"
    using 4 by (auto simp: bindE_eq_Inr split: if_splits dest: tensor_iadd_inv)
  with s3 have "shape f4 ! 3 = 1" by simp
  with bdim_cases[OF b] show ?thesis by auto
qed

lemma forward_first_stage:
  assumes m: "GLBGCN_init w cin A eiw dbn pre red kw = Inr m"
    and fw: "GLBGCN_forward (GLBGCN_train mode m) x = Inr y"
  shows "\<exists>n C t v mm c p1 f2 b0 r1 cp cf.
           shape x = [n, C, t, v, mm] \<and> shape p1 = [n * mm, cp, t, v]
           \<and> shape f2 = [n * mm, cf, t, 1]
           \<and> GLBGCNBlock_init (\<lambda>q. w (Block 0 q)) cin 64 [9, shape A ! 0] 1 0 False = Inr b0
           \<and> stage (GLBGCN_train mode m) c
                 (GLBGCNBlock_train mode b0,
                  if eiw then PyTensor (ones (shape A)) else PyInt 1,
                  Linear_init (w (Transform 0)) 32 cin) (0, x, p1, f2) = Inr r1"
proof -
  let ?m = "GLBGCN_train mode m"
  note f = GLBGCN_init_fields[OF m]
  have ic: "in_channel ?m = cin" by (simp add: GLBGCN_train_def f(2))
  have rd: "reduction ?m = red" by (simp add: GLBGCN_train_def f(3))
  have 0: "\<not> length (shape x) < 5"
    using fw by (auto simp: GLBGCN_forward_def)
  from fw obtain p0 f0 f1 f2 c p1 r where
    1: "slice_dim 1 0 (Some (int cin)) x = Inr p0" and
    2: "slice_dim 1 (int cin) None x = Inr f0" and
    3: "normalise (data_bn_feature ?m) f0 = Inr f1" and
    4: "(if red = ''avg'' then mean_dim 3 f1 else amax_dim 3 f1) = Inr f2" and
    5: "permute [0, 2, 3, 1] f2 = Inr c" and
    6: "normalise (data_bn ?m) p0 = Inr p1" and
    7: "stages ?m c (zip (st_gcn_networks ?m) (zip (edge_importance ?m) (feature_transform ?m)))
          (0, x, p1, f2) = Inr r"
    unfolding GLBGCN_forward_def ic rd using 0
    by (auto simp: bindE_eq_Inr Let_def)
  from normalise_inv[OF 3] obtain n cf t v mm where
    s0: "shape f0 = [n, cf, t, v, mm]" and s1: "shape f1 = [n * mm, cf, t, v]"
    by blast
  from slice_dim_inv[OF 2] s0 have
    e: "[n, cf, t, v, mm] = (shape x)[1 := shape x ! 1 - slice_bound (shape x ! 1) (int cin)]"
    by simp
  have "length (shape x) = length [n, cf, t, v, mm]"
    by (subst e) simp
  then have "length (shape x) = 5" by simp
  then obtain n' C t' v' mm' where x: "shape x = [n', C, t', v', mm']"
    by (auto simp: length_Suc_conv eval_nat_numeral)
  from e x have x': "shape x = [n, C, t, v, mm]"
    by simp
  from slice_dim_inv[OF 1] have sp0: "shape p0 = [n, slice_bound C (int cin) - slice_bound C 0, t, v, mm]"
    by (simp add: x')
  from normalise_inv[OF 6] sp0 have
    sp1: "shape p1 = [n * mm, slice_bound C (int cin) - slice_bound C 0, t, v]"
    by auto
  from reduce_inv[OF 4] have s2: "shape f2 = [n * mm, cf, t, 1]" by (simp add: s1)
  from init_first_stage[OF m, of mode] obtain b0 zs where
    z: "zip (st_gcn_networks ?m) (zip (edge_importance ?m) (feature_transform ?m))
           = (GLBGCNBlock_train mode b0,
              if eiw then PyTensor (ones (shape A)) else PyInt 1,
              Linear_init (w (Transform 0)) 32 cin) # zs"
    and b0: "GLBGCNBlock_init (\<lambda>q. w (Block 0 q)) cin 64 [9, shape A ! 0] 1 0 False = Inr b0"
    by blast
  from 7 obtain r1 where
    8: "stage ?m c (GLBGCNBlock_train mode b0,
              if eiw then PyTensor (ones (shape A)) else PyInt 1,
              Linear_init (w (Transform 0)) 32 cin) (0, x, p1, f2) = Inr r1"
    unfolding z by (auto simp: bindE_eq_Inr)
  from x' sp1 s2 b0 8 show ?thesis by blast
qed

lemma forward_nodes_inv:
  assumes m: "GLBGCN_init w cin A eiw dbn pre red kw = Inr m"
    and fw: "GLBGCN_forward (GLBGCN_train mode m) x = Inr y"
    and x: "shape x = [n, C, t, v, mm]"
    and sA: "length (shape A) = 3"
  shows "v + 1 = shape A ! 1 \<or> v = 0 \<or> shape A ! 1 = 1"
proof -
  let ?m = "GLBGCN_train mode m"
  note f = GLBGCN_init_fields[OF m]
  have gA: "graph_A ?m = mk_tensor (shape A) (elem A)"
    by (simp add: GLBGCN_train_def f(1))
  from forward_first_stage[OF m fw] x obtain c p1 f2 b0 r1 cp cf where
    sp: "shape p1 = [n * mm, cp, t, v]" and sf: "shape f2 = [n * mm, cf, t, 1]"
    and b0: "GLBGCNBlock_init (\<lambda>q. w (Block 0 q)) cin 64 [9, shape A ! 0] 1 0 False = Inr b0"
    and st: "stage ?m c
                 (GLBGCNBlock_train mode b0,
                  if eiw then PyTensor (ones (shape A)) else PyInt 1,
                  Linear_init (w (Transform 0)) 32 cin) (0, x, p1, f2) = Inr r1"
    by auto
  have "v + 1 = shape (graph_A ?m) ! 1 \<or> v = 0 \<or> shape (graph_A ?m) ! 1 = 1"
    by (rule stage_nodes_inv[OF st b0 sp sf]) (simp_all add: gA sA)
  then show ?thesis by (simp add: gA)
qed

lemma stage_resplit:
  assumes "stage m c z st = Inr (i, x', p', f')"
  shows "slice_dim 3 0 (Some (int (shape (graph_A m) ! 1) - 1)) x' = Inr p'"
proof -
  obtain g imp fc where z: "z = (g, imp, fc)" by (cases z) auto
  obtain j x p f where st: "st = (j, x, p, f)" by (cases st) auto
  show ?thesis
    using assms unfolding z st stage_def
    by (auto simp: bindE_eq_Inr split: if_splits)
qed

end
